(* ===== verification/Prelude.thy ===== *)
theory Prelude
  imports Main
begin

text \<open>
  Shared vocabulary of the Admin Polos development. JavaScript statements
  complete normally or abruptly with an exception; an exception leaves the
  mutations made before it in place, so an abrupt completion carries the
  state reached at the throw (\<open>Thrown\<close>), not only the error. Element
  references are indices into the document's node list (\<open>eid\<close>); a
  reference the code may hold as \<open>null\<close> is an \<open>eid option\<close>. A
  JavaScript value read from \<open>dataset\<close> may be \<open>undefined\<close>: such values are
  \<open>string option\<close> with \<open>None\<close> for \<open>undefined\<close>.
\<close>

named_theorems js_simps "evaluation rules of the JavaScript completion model"

type_synonym eid = nat
type_synonym jsstr = "string option"

datatype error =
    TypeError string      \<comment> \<open>property read on \<open>null\<close>: the property name\<close>
  | DOMException string   \<comment> \<open>the DOMException name, e.g. InvalidCharacterError\<close>

datatype 's res = Norm 's | Thrown error 's

primrec st_of :: "'s res \<Rightarrow> 's" where
  "st_of (Norm s) = s"
| "st_of (Thrown e s) = s"

primrec is_norm :: "'s res \<Rightarrow> bool" where
  "is_norm (Norm s) = True"
| "is_norm (Thrown e s) = False"

text \<open>Sequential composition \<open>S1; S2\<close>: the second statement runs only after a
  normal completion of the first.\<close>

definition bind_res :: "'s res \<Rightarrow> ('s \<Rightarrow> 's res) \<Rightarrow> 's res" where
  "bind_res r f = (case r of Norm s \<Rightarrow> f s | Thrown e s \<Rightarrow> Thrown e s)"

text \<open>Reading a property of a reference that may be \<open>null\<close>.\<close>

definition deref :: "string \<Rightarrow> eid option \<Rightarrow> (eid \<Rightarrow> 's \<Rightarrow> 's res) \<Rightarrow> 's \<Rightarrow> 's res" where
  "deref prop r f s = (case r of None \<Rightarrow> Thrown (TypeError prop) s | Some e \<Rightarrow> f e s)"

text \<open>Template-literal interpolation of a possibly undefined value.\<close>

definition js_show :: "jsstr \<Rightarrow> string" where
  "js_show v = (case v of None \<Rightarrow> ''undefined'' | Some x \<Rightarrow> x)"

text \<open>ASCII whitespace as the DOM standard defines it (tab, LF, FF, CR, space).\<close>

definition ascii_ws :: "char \<Rightarrow> bool" where
  "ascii_ws c \<longleftrightarrow> c \<in> {CHR 0x09, CHR 0x0A, CHR 0x0C, CHR 0x0D, CHR 0x20}"

lemma bind_res_Norm [simp, js_simps]: "bind_res (Norm s) f = f s"
  by (simp add: bind_res_def)

lemma bind_res_Thrown [simp, js_simps]: "bind_res (Thrown e s) f = Thrown e s"
  by (simp add: bind_res_def)

lemma deref_None [simp, js_simps]: "deref p None f s = Thrown (TypeError p) s"
  by (simp add: deref_def)

lemma deref_Some [simp, js_simps]: "deref p (Some e) f s = f e s"
  by (simp add: deref_def)

lemma js_show_Some [simp]: "js_show (Some x) = x"
  by (simp add: js_show_def)

lemma bind_res_norm_iff:
  "is_norm (bind_res r f) \<longleftrightarrow> is_norm r \<and> is_norm (f (st_of r))"
  by (cases r) auto

text \<open>A property of states that every statement of a sequence keeps is kept
  by the sequence, whichever way it completes.\<close>

lemma bind_res_preserves:
  assumes "P (st_of r)" and "\<And>s. P s \<Longrightarrow> P (st_of (f s))"
  shows "P (st_of (bind_res r f))"
  using assms by (cases r) auto

lemma count_list_filter_neq [simp]:
  "count_list (filter (\<lambda>x. x \<noteq> y) xs) x = (if x = y then 0 else count_list xs x)"
  by (induction xs) auto

lemma ascii_ws_space [simp]: "ascii_ws CHR '' ''"
  by (simp add: ascii_ws_def)

end
