(* ===== verification/Browser.thy ===== *)
theory Browser
  imports Prelude
begin

text \<open>
  The browser the controller runs in, as far as the code touches it: the
  document as a list of nodes in tree order (an element reference is its
  index, its parent another index), each with a tag, attributes and a class
  list; \<open>localStorage\<close> as a map; \<open>window.innerWidth\<close>; the listener registry
  of \<open>addEventListener\<close>; the timer queue of \<open>setTimeout\<close>; and the external
  Polos framework, which records its subscriptions and the loading calls made
  to it. The world is a record over the type of listener closures \<open>'h\<close> and
  of timer callbacks \<open>'cb\<close>: the controller supplies both.
\<close>

section \<open>Document nodes\<close>

record node =
  tag :: string
  attrs :: "string \<rightharpoonup> string"
  classes :: "string set"
  parent :: "eid option"

type_synonym document = "node list"

definition node_at :: "document \<Rightarrow> eid \<Rightarrow> node option" where
  "node_at d i = (if i < length d then Some (d ! i) else None)"

text \<open>\<open>el.classList.contains(c)\<close>.\<close>

definition has_class :: "document \<Rightarrow> eid \<Rightarrow> string \<Rightarrow> bool" where
  "has_class d i c = (case node_at d i of Some n \<Rightarrow> c \<in> classes n | None \<Rightarrow> False)"

definition get_attr :: "document \<Rightarrow> eid \<Rightarrow> string \<Rightarrow> string option" where
  "get_attr d i a = (case node_at d i of Some n \<Rightarrow> attrs n a | None \<Rightarrow> None)"

text \<open>\<open>el.parentElement\<close>.\<close>

definition parent_of :: "document \<Rightarrow> eid \<Rightarrow> eid option" where
  "parent_of d i = (case node_at d i of Some n \<Rightarrow> parent n | None \<Rightarrow> None)"

definition map_classes :: "(string set \<Rightarrow> string set) \<Rightarrow> eid \<Rightarrow> document \<Rightarrow> document" where
  "map_classes f i d = (if i < length d then d[i := (d ! i)\<lparr>classes := f (classes (d ! i))\<rparr>] else d)"

subsection \<open>DOMTokenList operations\<close>

text \<open>\<open>remove\<close>, \<open>toggle\<close> and \<open>toggle(c, force)\<close> with the constant tokens the
  code passes; \<open>add\<close> validates its token, as the DOM standard requires: the
  empty token is a SyntaxError, a token with ASCII whitespace an
  InvalidCharacterError, and nothing is added then.\<close>

definition remove_classes :: "string list \<Rightarrow> eid \<Rightarrow> document \<Rightarrow> document" where
  "remove_classes cs = map_classes (\<lambda>C. C - set cs)"

definition toggle_class :: "string \<Rightarrow> eid \<Rightarrow> document \<Rightarrow> document" where
  "toggle_class c = map_classes (\<lambda>C. if c \<in> C then C - {c} else insert c C)"

definition toggle_force :: "string \<Rightarrow> bool \<Rightarrow> eid \<Rightarrow> document \<Rightarrow> document" where
  "toggle_force c b = map_classes (\<lambda>C. if b then insert c C else C - {c})"

definition token_error :: "string \<Rightarrow> error option" where
  "token_error c = (if c = [] then Some (DOMException ''SyntaxError'')
     else if (\<exists>x\<in>set c. ascii_ws x) then Some (DOMException ''InvalidCharacterError'')
     else None)"

definition add_class :: "string \<Rightarrow> eid \<Rightarrow> document \<Rightarrow> error + document" where
  "add_class c i d = (case token_error c of Some e \<Rightarrow> Inl e
     | None \<Rightarrow> Inr (map_classes (insert c) i d))"

subsection \<open>Tree queries\<close>

text \<open>\<open>a.contains(b)\<close>: \<open>b\<close> is \<open>a\<close> or a descendant of \<open>a\<close>, \<open>false\<close> for
  \<open>null\<close>. The walk up the parent chain takes the number of nodes as fuel:
  in a document every ancestor chain is shorter (\<open>ancestor_fuel_enough\<close>).\<close>

fun is_anc :: "nat \<Rightarrow> document \<Rightarrow> eid \<Rightarrow> eid \<Rightarrow> bool" where
  "is_anc 0 d a b = (a = b)"
| "is_anc (Suc n) d a b = (a = b \<or> (case parent_of d b of Some p \<Rightarrow> is_anc n d a p | None \<Rightarrow> False))"

definition contains :: "document \<Rightarrow> eid \<Rightarrow> eid option \<Rightarrow> bool" where
  "contains d a ob = (case ob of None \<Rightarrow> False | Some b \<Rightarrow> is_anc (length d) d a b)"

text \<open>\<open>document.querySelectorAll\<close> returns the matching elements in tree order.\<close>

definition query_all :: "document \<Rightarrow> (document \<Rightarrow> eid \<Rightarrow> bool) \<Rightarrow> eid list" where
  "query_all d P = filter (P d) [0..<length d]"

definition get_element_by_id :: "document \<Rightarrow> string \<Rightarrow> eid option" where
  "get_element_by_id d x = find (\<lambda>i. get_attr d i ''id'' = Some x) [0..<length d]"

text \<open>The selectors of the code: \<open>.c\<close>, \<open>.p > .c\<close> and \<open>.p > a\<close>.\<close>

definition sel_class :: "string \<Rightarrow> document \<Rightarrow> eid \<Rightarrow> bool" where
  "sel_class c d i = has_class d i c"

definition sel_child :: "string \<Rightarrow> (document \<Rightarrow> eid \<Rightarrow> bool) \<Rightarrow> document \<Rightarrow> eid \<Rightarrow> bool" where
  "sel_child p P d i = (P d i \<and> (case parent_of d i of Some q \<Rightarrow> has_class d q p | None \<Rightarrow> False))"

definition sel_tag :: "string \<Rightarrow> document \<Rightarrow> eid \<Rightarrow> bool" where
  "sel_tag t d i = (case node_at d i of Some n \<Rightarrow> tag n = t | None \<Rightarrow> False)"

definition sel_attr :: "string \<Rightarrow> document \<Rightarrow> eid \<Rightarrow> bool" where
  "sel_attr a d i = (get_attr d i a \<noteq> None)"

text \<open>A document is well formed when every parent precedes its child in tree
  order and is a node of the document.\<close>

definition wf_doc :: "document \<Rightarrow> bool" where
  "wf_doc d \<longleftrightarrow> (\<forall>i < length d. case parent (d ! i) of None \<Rightarrow> True | Some p \<Rightarrow> p < i)"

text \<open>The document without its class lists: what no class-list update changes.\<close>

definition shape :: "document \<Rightarrow> node list" where
  "shape d = map (\<lambda>n. n\<lparr>classes := {}\<rparr>) d"

section \<open>The world\<close>

datatype target = Doc | Win | Elt eid

text \<open>What the code asks the Polos framework to show: \<open>setLoading\<close> on a
  selector or on an element reference (possibly \<open>null\<close>), and \<open>alert\<close>.\<close>

datatype load_target = Selector string | Element "eid option"

datatype effect =
    SetLoading load_target bool "string option"
  | Alert string
  | ReportError error     \<comment> \<open>an exception that escaped a listener or timer callback\<close>

record ('h, 'cb) world =
  doc :: document
  storage :: "string \<rightharpoonup> string"
  innerWidth :: int
  listeners :: "(target \<times> string \<times> 'h) list"
  timers :: "(nat \<times> nat \<times> 'cb) list"   \<comment> \<open>id, due time, callback\<close>
  next_timer :: nat
  clock :: nat
  polos :: bool                           \<comment> \<open>\<open>typeof Polos !== 'undefined'\<close>\<close>
  polos_subs :: "(string \<times> 'h) list"
  effects :: "effect list"
  ev_stopped :: bool                      \<comment> \<open>\<open>stopPropagation()\<close> called on the current event\<close>
  ev_prevented :: bool                    \<comment> \<open>\<open>preventDefault()\<close> called on it\<close>

text \<open>\<open>addEventListener\<close> ignores a listener already registered for the same
  target and type; \<open>removeEventListener\<close> drops it.\<close>

definition add_listener :: "target \<Rightarrow> string \<Rightarrow> 'h \<Rightarrow> ('h, 'cb, 'z) world_scheme \<Rightarrow> ('h, 'cb, 'z) world_scheme" where
  "add_listener t ty h w =
     (if (t, ty, h) \<in> set (listeners w) then w else w\<lparr>listeners := listeners w @ [(t, ty, h)]\<rparr>)"

definition remove_listener :: "target \<Rightarrow> string \<Rightarrow> 'h \<Rightarrow> ('h, 'cb, 'z) world_scheme \<Rightarrow> ('h, 'cb, 'z) world_scheme" where
  "remove_listener t ty h w = w\<lparr>listeners := filter (\<lambda>x. x \<noteq> (t, ty, h)) (listeners w)\<rparr>"

text \<open>\<open>setTimeout(cb, delay)\<close> returns a fresh id; \<open>clearTimeout(id)\<close>
  cancels it and ignores \<open>null\<close> and ids that already fired.\<close>

definition set_timeout :: "'cb \<Rightarrow> nat \<Rightarrow> ('h, 'cb, 'z) world_scheme \<Rightarrow> nat \<times> ('h, 'cb, 'z) world_scheme" where
  "set_timeout cb delay w =
     (next_timer w, w\<lparr>timers := timers w @ [(next_timer w, clock w + delay, cb)],
                      next_timer := Suc (next_timer w)\<rparr>)"

definition clear_timeout :: "nat option \<Rightarrow> ('h, 'cb, 'z) world_scheme \<Rightarrow> ('h, 'cb, 'z) world_scheme" where
  "clear_timeout t w = w\<lparr>timers := filter (\<lambda>(i, _, _). Some i \<noteq> t) (timers w)\<rparr>"

definition upd_doc :: "(document \<Rightarrow> document) \<Rightarrow> ('h, 'cb, 'z) world_scheme \<Rightarrow> ('h, 'cb, 'z) world_scheme" where
  "upd_doc f w = w\<lparr>doc := f (doc w)\<rparr>"

section \<open>Lemmas\<close>

named_theorems dom_simps "frame rules of the class-list updates"

lemma length_map_classes [simp, dom_simps]: "length (map_classes f i d) = length d"
  by (simp add: map_classes_def)

lemma node_at_map_classes:
  "node_at (map_classes f i d) j =
     (if j = i then map_option (\<lambda>n. n\<lparr>classes := f (classes n)\<rparr>) (node_at d j) else node_at d j)"
  by (simp add: map_classes_def node_at_def)

lemma has_class_map_classes [dom_simps]:
  "has_class (map_classes f i d) j c = (if j = i \<and> i < length d then c \<in> f (classes (d ! i)) else has_class d j c)"
  by (auto simp: has_class_def node_at_def map_classes_def)

lemma parent_of_map_classes [simp, dom_simps]: "parent_of (map_classes f i d) = parent_of d"
  by (rule ext) (simp add: parent_of_def node_at_map_classes split: option.splits)

lemma get_attr_map_classes [simp, dom_simps]: "get_attr (map_classes f i d) = get_attr d"
  by (rule ext)+ (simp add: get_attr_def node_at_map_classes split: option.splits)

lemma sel_tag_map_classes [simp, dom_simps]: "sel_tag t (map_classes f i d) = sel_tag t d"
  by (rule ext) (simp add: sel_tag_def node_at_map_classes split: option.splits)

lemma is_anc_parent_cong:
  "parent_of d' = parent_of d \<Longrightarrow> is_anc n d' a b = is_anc n d a b"
  by (induction n arbitrary: b) (simp_all split: option.splits)

lemma contains_map_classes [simp, dom_simps]: "contains (map_classes f i d) = contains d"
  by (intro ext) (simp add: contains_def is_anc_parent_cong [OF parent_of_map_classes] split: option.splits)

lemma wf_doc_map_classes [simp, dom_simps]: "wf_doc (map_classes f i d) = wf_doc d"
  by (auto simp: wf_doc_def map_classes_def nth_list_update)

lemma has_class_remove [dom_simps]:
  "has_class (remove_classes cs i d) j c = (if j = i then has_class d j c \<and> c \<notin> set cs else has_class d j c)"
  unfolding remove_classes_def has_class_map_classes by (auto simp: has_class_def node_at_def)

lemma has_class_toggle [dom_simps]:
  "has_class (toggle_class c i d) j c' =
     (if j = i \<and> c' = c \<and> i < length d then \<not> has_class d j c else has_class d j c')"
  unfolding toggle_class_def has_class_map_classes by (auto simp: has_class_def node_at_def)

lemma has_class_toggle_force [dom_simps]:
  "has_class (toggle_force c b i d) j c' =
     (if j = i \<and> c' = c \<and> i < length d then b else has_class d j c')"
  unfolding toggle_force_def has_class_map_classes by (auto simp: has_class_def node_at_def)

lemma add_class_ok:
  "token_error c = None \<Longrightarrow> add_class c i d = Inr (map_classes (insert c) i d)"
  by (simp add: add_class_def)

lemma has_class_add [dom_simps]:
  "has_class (map_classes (insert c) i d) j c' =
     (if j = i \<and> c' = c \<and> i < length d then True else has_class d j c')"
  unfolding has_class_map_classes by (auto simp: has_class_def node_at_def)

text \<open>Class lookups are only ever true of nodes of the document.\<close>

lemma has_class_in_range: "has_class d i c \<Longrightarrow> i < length d"
  by (simp add: has_class_def node_at_def split: if_splits)

lemma query_all_iff [simp]: "i \<in> set (query_all d P) \<longleftrightarrow> i < length d \<and> P d i"
  by (auto simp: query_all_def)

lemma distinct_query_all [simp]: "distinct (query_all d P)"
  by (simp add: query_all_def)

lemma shape_map_classes [simp, dom_simps]: "shape (map_classes f i d) = shape d"
  by (auto simp: shape_def map_classes_def nth_list_update intro!: nth_equalityI)

lemma shape_fold:
  assumes "\<And>x d. shape (g x d) = shape d"
  shows "shape (fold g xs d) = shape d"
  using assms by (induction xs arbitrary: d) auto

lemma shape_length: "shape d' = shape d \<Longrightarrow> length d' = length d"
  by (metis length_map shape_def)

lemma shape_nth:
  assumes "shape d' = shape d" "i < length d"
  shows "parent (d' ! i) = parent (d ! i) \<and> attrs (d' ! i) = attrs (d ! i) \<and> tag (d' ! i) = tag (d ! i)"
proof -
  have "length d' = length d" using assms(1) by (rule shape_length)
  moreover have "map (\<lambda>n. n\<lparr>classes := {}\<rparr>) d' ! i = map (\<lambda>n. n\<lparr>classes := {}\<rparr>) d ! i"
    using assms(1) by (simp add: shape_def)
  ultimately have "(d' ! i)\<lparr>classes := {}\<rparr> = (d ! i)\<lparr>classes := {}\<rparr>"
    using assms(2) by simp
  then show ?thesis by (metis node.select_convs node.surjective node.update_convs(3))
qed

lemma shape_parent_of:
  assumes "shape d' = shape d" shows "parent_of d' = parent_of d"
proof
  fix i
  have l: "length d' = length d" using assms by (rule shape_length)
  show "parent_of d' i = parent_of d i"
    using shape_nth [OF assms] l by (simp add: parent_of_def node_at_def)
qed


lemma shape_get_attr:
  assumes "shape d' = shape d" shows "get_attr d' = get_attr d"
proof (intro ext)
  fix i a
  have l: "length d' = length d" using assms by (rule shape_length)
  show "get_attr d' i a = get_attr d i a"
    using shape_nth [OF assms] l by (simp add: get_attr_def node_at_def)
qed


lemma shape_sel_tag:
  assumes "shape d' = shape d" shows "sel_tag t d' = sel_tag t d"
proof
  fix i
  have l: "length d' = length d" using assms by (rule shape_length)
  show "sel_tag t d' i = sel_tag t d i"
    using shape_nth [OF assms] l by (simp add: sel_tag_def node_at_def)
qed


lemma shape_contains:
  assumes "shape d' = shape d" shows "contains d' = contains d"
proof (intro ext)
  fix a b
  have l: "length d' = length d" using assms by (rule shape_length)
  show "contains d' a b = contains d a b"
    using l is_anc_parent_cong [OF shape_parent_of [OF assms]]
    by (simp add: contains_def split: option.splits)
qed


lemma shape_wf_doc:
  assumes "shape d' = shape d" shows "wf_doc d' = wf_doc d"
proof -
  have l: "length d' = length d" using assms by (rule shape_length)
  show ?thesis using shape_nth [OF assms] l by (simp add: wf_doc_def)
qed


lemma token_ops_frame [simp, dom_simps]:
  "length (remove_classes cs i d) = length d" "get_attr (remove_classes cs i d) = get_attr d"
  "parent_of (remove_classes cs i d) = parent_of d" "shape (remove_classes cs i d) = shape d"
  "length (toggle_class c i d) = length d" "get_attr (toggle_class c i d) = get_attr d"
  "parent_of (toggle_class c i d) = parent_of d" "shape (toggle_class c i d) = shape d"
  "length (toggle_force c b i d) = length d" "get_attr (toggle_force c b i d) = get_attr d"
  "parent_of (toggle_force c b i d) = parent_of d" "shape (toggle_force c b i d) = shape d"
  "contains (remove_classes cs i d) = contains d" "contains (toggle_class c i d) = contains d"
  by (simp_all add: remove_classes_def toggle_class_def toggle_force_def)

text \<open>The \<open>forEach\<close> loops of the code that remove classes from the elements
  of a query result satisfying a test: a class is on an element afterwards
  iff it was before and the loop did not remove it. The test may read the
  document, but only its shape.\<close>

lemma has_class_fold_remove:
  assumes "\<And>f i d. Q (map_classes f i d) = Q d"
  shows "has_class (fold (\<lambda>el d. if Q d el then remove_classes cs el d else d) xs d) j c
           = (has_class d j c \<and> \<not> (j \<in> set xs \<and> Q d j \<and> c \<in> set cs))"
proof (induction xs arbitrary: d)
  case Nil
  then show ?case by simp
next
  case (Cons x xs)
  have q: "Q (remove_classes cs x d) = Q d"
    by (simp add: remove_classes_def assms)
  show ?case
    using Cons.IH [of "remove_classes cs x d"] Cons.IH [of d] q
    by (auto simp: has_class_remove)
qed

lemma has_class_fold_toggle_force:
  assumes "\<And>f i d. Q (map_classes f i d) = Q d"
  shows "has_class (fold (\<lambda>el d. toggle_force c (Q d el) el d) xs d) j c'
           = (if j \<in> set xs \<and> c' = c \<and> j < length d then Q d j else has_class d j c')"
proof (induction xs arbitrary: d)
  case Nil
  then show ?case by simp
next
  case (Cons x xs)
  let ?d1 = "toggle_force c (Q d x) x d"
  have q: "Q ?d1 = Q d" by (simp add: toggle_force_def assms)
  have l: "length ?d1 = length d" by (simp add: toggle_force_def)
  have "fold (\<lambda>el d. toggle_force c (Q d el) el d) (x # xs) d = fold (\<lambda>el d. toggle_force c (Q d el) el d) xs ?d1"
    by simp
  then show ?case
    using Cons.IH [of ?d1] q l by (auto simp: has_class_toggle_force)
qed

lemma shape_fold_toggle_force [simp]:
  "shape (fold (\<lambda>el d. toggle_force c (Q d el) el d) xs d) = shape d"
  by (rule shape_fold) (simp add: toggle_force_def)

lemma shape_fold_remove_all [simp]: "shape (fold (remove_classes cs) xs d) = shape d"
  by (rule shape_fold) simp

lemma shape_fold_remove [simp]:
  "shape (fold (\<lambda>el d. if Q d el then remove_classes cs el d else d) xs d) = shape d"
  by (rule shape_fold) (simp add: remove_classes_def)


lemmas remove_classes_def' = remove_classes_def map_classes_def
lemmas [simp] = upd_doc_def

end
