(* ===== verification/State.thy ===== *)
theory State
  imports Browser
begin

text \<open>
  The state of one \<open>AdminPolos\<close> instance (src/aset/js/admin-polos.js,
  class \<open>AdminPolos\<close>, constructor lines 9-22) together with the world it
  lives in. Each closure the code passes to \<open>addEventListener\<close>,
  \<open>Polos.on\<close> or \<open>setTimeout\<close> is a constructor of \<open>handler\<close> or
  \<open>callback\<close>; a closure created afresh on every call of
  \<open>enhanceInteractiveElements\<close> carries the number of that call, so that two
  registrations of it are two distinct listeners, as two arrow functions are.
  The class field \<open>handleSubmenuClick\<close> is one function object for the life
  of the instance, hence one constructor without an argument.
\<close>

datatype handler =
    H_toggleSidebar        \<comment> \<open>line 35: \<open>() => this.toggleSidebar()\<close>\<close>
  | H_closeMobile          \<comment> \<open>line 38: \<open>() => this.closeMobileSidebar()\<close>\<close>
  | H_userMenu             \<comment> \<open>line 41: \<open>(e) => this.toggleUserDropdown(e)\<close>\<close>
  | H_outsideClick         \<comment> \<open>line 44: \<open>(e) => this.handleOutsideClick(e)\<close>\<close>
  | H_resize               \<comment> \<open>line 47: \<open>() => this.handleResize()\<close>\<close>
  | H_changeLayout         \<comment> \<open>line 51: \<open>(e) => this.changeLayout(e)\<close>\<close>
  | H_mouseenter           \<comment> \<open>lines 119-129\<close>
  | H_mouseleave           \<comment> \<open>lines 132-146\<close>
  | H_submenuClick         \<comment> \<open>lines 156-171, the class field\<close>
  | H_interactive nat      \<comment> \<open>lines 223-228\<close>
  | H_stats nat            \<comment> \<open>lines 233-236\<close>
  | H_export nat           \<comment> \<open>lines 242-250\<close>
  | H_period nat           \<comment> \<open>lines 255-264\<close>
  | H_polosInitialized     \<comment> \<open>lines 208-211, given to \<open>Polos.on('initialized')\<close>\<close>
  | H_screenChange         \<comment> \<open>lines 270-272, given to \<open>Polos.on('screenChange')\<close>\<close>
  | H_domReady             \<comment> \<open>lines 292-294\<close>

datatype callback =
    CB_hoverExpand         \<comment> \<open>lines 125-127, 150 ms\<close>
  | CB_hoverCollapse       \<comment> \<open>lines 138-144, 300 ms\<close>
  | CB_fallbackInit        \<comment> \<open>lines 214-216, 100 ms\<close>
  | CB_stopLoading         \<comment> \<open>line 226, 1000 ms\<close>
  | CB_exportDone          \<comment> \<open>lines 245-248, 2000 ms\<close>
  | CB_periodDone          \<comment> \<open>lines 259-262, 1000 ms\<close>

text \<open>The event object a listener receives: \<open>target\<close>, \<open>currentTarget\<close>
  (the element the listener is registered on, \<open>None\<close> for document and
  window) and \<open>relatedTarget\<close>.\<close>

record evt =
  e_target :: "eid option"
  e_current :: "eid option"
  e_related :: "eid option"

record st = "(handler, callback) world" +
  sidebar :: "eid option"
  sidebarToggle :: "eid option"
  overlay :: "eid option"
  userMenu :: "eid option"
  userDropdown :: "eid option"
  layoutButtons :: "eid list"
  hoverTimeout :: "nat option"
  isHoveringSidebar :: bool
  currentLayout :: jsstr
  closure_gen :: nat       \<comment> \<open>calls of \<open>enhanceInteractiveElements\<close> so far\<close>
  adminPolos :: bool       \<comment> \<open>\<open>window.adminPolos\<close> has been assigned\<close>

text \<open>The breakpoint of every width test of the code (lines 96, 116, 157, 200).\<close>

abbreviation mobile_bp :: int where
  "mobile_bp \<equiv> 768"

abbreviation storage_key :: string where
  "storage_key \<equiv> ''adminPolosLayout''"

end
