(* ===== verification/Submenu.thy ===== *)
theory Submenu
  imports State
begin

text \<open>
  Submenu nodes (src/aset/js/admin-polos.js lines 149-186): an element with
  class \<open>has-sub\<close> is a submenu node, open when it also has class \<open>open\<close>;
  a top-level node is a \<open>.has-sub\<close> child of a \<open>.menu\<close> element. The
  operations close every node, close the top-level nodes other than the
  clicked one and its descendants, toggle the node of a clicked link, and bind
  the click handler to the \<open>.has-sub > a\<close> links.
\<close>

abbreviation top_sub :: "document \<Rightarrow> eid \<Rightarrow> bool" where
  "top_sub \<equiv> sel_child ''menu'' (sel_class ''has-sub'')"

text \<open>\<open>closeAllSubmenus\<close>, lines 173-177.\<close>

definition closeAllSubmenus :: "st \<Rightarrow> st" where
  "closeAllSubmenus s =
     upd_doc (\<lambda>d. fold (remove_classes [''open'']) (query_all d (sel_class ''has-sub'')) d) s"

text \<open>\<open>closeOtherSubmenus(clickedElement)\<close>, lines 179-186.\<close>

definition closeOtherSubmenus :: "eid \<Rightarrow> st \<Rightarrow> st" where
  "closeOtherSubmenus clicked s =
     upd_doc (\<lambda>d. fold (\<lambda>el d. if el \<noteq> clicked \<and> \<not> contains d clicked (Some el)
                              then remove_classes [''open''] el d else d)
                       (query_all d top_sub) d) s"

text \<open>The body of the guarded block of \<open>handleSubmenuClick\<close>, lines 158-169:
  \<open>preventDefault\<close>, \<open>stopPropagation\<close>, then \<open>parent\<close> is the link's
  parent; reading \<open>parent.parentElement.classList\<close> throws on \<open>null\<close>.\<close>

definition submenu_body :: "evt \<Rightarrow> st \<Rightarrow> st res" where
  "submenu_body e s =
     deref ''parentElement'' (e_current e) (\<lambda>link s.
       deref ''parentElement'' (parent_of (doc s) link) (\<lambda>par s.
         deref ''classList'' (parent_of (doc s) par) (\<lambda>gp s.
           let s' = (if has_class (doc s) gp ''menu'' then closeOtherSubmenus par s else s)
           in Norm (upd_doc (toggle_class ''open'' par) s')) s) s)
       (s\<lparr>ev_prevented := True, ev_stopped := True\<rparr>)"

text \<open>\<open>handleSubmenuClick\<close>, lines 156-171: the guard
  \<open>window.innerWidth > 768 || !this.sidebar.classList.contains('layout-icons')\<close>
  reads the sidebar only when the window is narrow.\<close>

definition handleSubmenuClick :: "evt \<Rightarrow> st \<Rightarrow> st res" where
  "handleSubmenuClick e s =
     (if mobile_bp < innerWidth s then submenu_body e s
      else deref ''classList'' (sidebar s) (\<lambda>sb s.
             if \<not> has_class (doc s) sb ''layout-icons'' then submenu_body e s else Norm s) s)"

text \<open>\<open>setupSubmenuToggle\<close>, lines 149-154: each \<open>.has-sub > a\<close> link loses
  and regains the one \<open>handleSubmenuClick\<close> listener.\<close>

definition setupSubmenuToggle :: "st \<Rightarrow> st" where
  "setupSubmenuToggle s =
     fold (\<lambda>l s. add_listener (Elt l) ''click'' H_submenuClick
                   (remove_listener (Elt l) ''click'' H_submenuClick s))
          (query_all (doc s) (sel_child ''has-sub'' (sel_tag ''a''))) s"

section \<open>Lemmas\<close>

lemma has_class_fold_remove_all:
  "has_class (fold (remove_classes cs) xs d) j c = (has_class d j c \<and> \<not> (j \<in> set xs \<and> c \<in> set cs))"
proof -
  have "fold (remove_classes cs) xs d = fold (\<lambda>el d. if (\<lambda>d el. True) d el then remove_classes cs el d else d) xs d"
    by simp
  then show ?thesis by (simp only: has_class_fold_remove) simp
qed

lemma closeAllSubmenus_classes:
  "has_class (doc (closeAllSubmenus s)) j c =
     (has_class (doc s) j c \<and> \<not> (has_class (doc s) j ''has-sub'' \<and> c = ''open''))"
  by (auto simp: closeAllSubmenus_def has_class_fold_remove_all sel_class_def dest: has_class_in_range)

lemma closeAllSubmenus_shape [simp]: "shape (doc (closeAllSubmenus s)) = shape (doc s)"
  by (simp add: closeAllSubmenus_def shape_fold remove_classes_def)

lemma closeAllSubmenus_fields [simp]:
  "sidebar (closeAllSubmenus s) = sidebar s" "overlay (closeAllSubmenus s) = overlay s"
  "currentLayout (closeAllSubmenus s) = currentLayout s" "storage (closeAllSubmenus s) = storage s"
  "layoutButtons (closeAllSubmenus s) = layoutButtons s" "innerWidth (closeAllSubmenus s) = innerWidth s"
  "userDropdown (closeAllSubmenus s) = userDropdown s" "userMenu (closeAllSubmenus s) = userMenu s"
  by (simp_all add: closeAllSubmenus_def)

lemma closeOtherSubmenus_classes:
  "has_class (doc (closeOtherSubmenus p s)) j c =
     (has_class (doc s) j c \<and>
      \<not> (c = ''open'' \<and> top_sub (doc s) j \<and> j \<noteq> p \<and> \<not> contains (doc s) p (Some j)))"
proof -
  let ?Q = "\<lambda>d el. el \<noteq> p \<and> \<not> contains d p (Some el)"
  have q: "\<And>f i d. ?Q (map_classes f i d) = ?Q d" by simp
  show ?thesis
    unfolding closeOtherSubmenus_def upd_doc_def
    by (simp add: has_class_fold_remove [OF q]) (auto simp: sel_child_def sel_class_def dest: has_class_in_range)
qed

lemma closeOtherSubmenus_shape [simp]: "shape (doc (closeOtherSubmenus p s)) = shape (doc s)"
  by (simp add: closeOtherSubmenus_def)

lemma closeOtherSubmenus_fields [simp]:
  "sidebar (closeOtherSubmenus p s) = sidebar s" "innerWidth (closeOtherSubmenus p s) = innerWidth s"
  "ev_stopped (closeOtherSubmenus p s) = ev_stopped s" "ev_prevented (closeOtherSubmenus p s) = ev_prevented s"
  "currentLayout (closeOtherSubmenus p s) = currentLayout s"
  by (simp_all add: closeOtherSubmenus_def)

text \<open>When the guard of line 157 holds, the click computes the toggle of line
  169 after the closing of line 165; the guard's failure leaves the state as
  it is, without \<open>preventDefault\<close>.\<close>

lemma handleSubmenuClick_enabled:
  assumes en: "mobile_bp < innerWidth s \<or> (sidebar s = Some sb \<and> \<not> has_class (doc s) sb ''layout-icons'')"
    and cur: "e_current e = Some l" and par: "parent_of (doc s) l = Some p"
    and gp: "parent_of (doc s) p = Some g"
  shows "handleSubmenuClick e s =
           Norm (upd_doc (toggle_class ''open'' p)
                  (if has_class (doc s) g ''menu''
                   then closeOtherSubmenus p (s\<lparr>ev_prevented := True, ev_stopped := True\<rparr>)
                   else s\<lparr>ev_prevented := True, ev_stopped := True\<rparr>))"
  using en cur par gp by (auto simp: handleSubmenuClick_def submenu_body_def Let_def)

lemma handleSubmenuClick_suppressed:
  assumes "\<not> mobile_bp < innerWidth s" "sidebar s = Some sb" "has_class (doc s) sb ''layout-icons''"
  shows "handleSubmenuClick e s = Norm s"
  using assms by (simp add: handleSubmenuClick_def)

section \<open>Properties of submenu clicks\<close>

text \<open>C5. A click on the link of a top-level submenu node \<open>p\<close>, where the
  click handling is enabled (wide window, or sidebar not in \<open>layout-icons\<close>),
  completes normally, stops propagation and the default action, flips \<open>p\<close>
  open or closed, closes every other top-level node not inside \<open>p\<close>, and
  leaves the open state of every node that is not top-level alone.\<close>

lemma handleSubmenuClick_top:
  assumes en: "mobile_bp < innerWidth s \<or> (sidebar s = Some sb \<and> \<not> has_class (doc s) sb ''layout-icons'')"
    and cur: "e_current e = Some l" and par: "parent_of (doc s) l = Some p"
    and top: "top_sub (doc s) p"
  shows "\<exists>s'. handleSubmenuClick e s = Norm s' \<and> ev_stopped s' \<and> ev_prevented s' \<and>
           (has_class (doc s') p ''open'' \<longleftrightarrow> \<not> has_class (doc s) p ''open'') \<and>
           (\<forall>j. top_sub (doc s) j \<and> j \<noteq> p \<and> \<not> contains (doc s) p (Some j) \<longrightarrow>
                \<not> has_class (doc s') j ''open'') \<and>
           (\<forall>j. j \<noteq> p \<and> \<not> top_sub (doc s) j \<longrightarrow>
                (has_class (doc s') j ''open'' \<longleftrightarrow> has_class (doc s) j ''open''))"
proof -
  from top obtain g where gp: "parent_of (doc s) p = Some g" and menu: "has_class (doc s) g ''menu''"
    and hs: "has_class (doc s) p ''has-sub''"
    by (auto simp: sel_child_def sel_class_def split: option.splits)
  have rng: "p < length (doc s)" using hs by (rule has_class_in_range)
  let ?s0 = "s\<lparr>ev_prevented := True, ev_stopped := True\<rparr>"
  have eq: "handleSubmenuClick e s = Norm (upd_doc (toggle_class ''open'' p) (closeOtherSubmenus p ?s0))"
    using handleSubmenuClick_enabled [OF en cur par gp] menu by simp
  have cls: "\<And>j c. has_class (doc (closeOtherSubmenus p ?s0)) j c =
     (has_class (doc s) j c \<and> \<not> (c = ''open'' \<and> top_sub (doc s) j \<and> j \<noteq> p \<and> \<not> contains (doc s) p (Some j)))"
    by (simp add: closeOtherSubmenus_classes)
  have len: "length (doc (closeOtherSubmenus p ?s0)) = length (doc s)"
    using shape_length [OF closeOtherSubmenus_shape] by simp
  show ?thesis
    using eq rng len by (auto simp: has_class_toggle cls)
qed

text \<open>C7. A click on the link of a nested submenu node (its parent is not a
  \<open>.menu\<close>) toggles that node only: no other class of any element changes.\<close>

lemma handleSubmenuClick_nested:
  assumes en: "mobile_bp < innerWidth s \<or> (sidebar s = Some sb \<and> \<not> has_class (doc s) sb ''layout-icons'')"
    and cur: "e_current e = Some l" and par: "parent_of (doc s) l = Some p"
    and gp: "parent_of (doc s) p = Some g" and nm: "\<not> has_class (doc s) g ''menu''"
    and rng: "p < length (doc s)"
  shows "\<exists>s'. handleSubmenuClick e s = Norm s' \<and>
           (\<forall>j c. has_class (doc s') j c \<longleftrightarrow>
                    (if j = p \<and> c = ''open'' then \<not> has_class (doc s) p ''open'' else has_class (doc s) j c))"
  using handleSubmenuClick_enabled [OF en cur par gp] nm rng by (auto simp: has_class_toggle)

end
