(* ===== verification/Layout.thy ===== *)
theory Layout
  imports Submenu
begin

text \<open>
  The layout system (src/aset/js/admin-polos.js lines 55-113): the layout
  the sidebar shows is a class \<open>layout-<name>\<close> on it and the value of
  \<open>this.currentLayout\<close>; \<open>setLayout\<close> replaces the class, marks the
  matching \<open>.layout-btn\<close> buttons, closes the submenus outside the full
  layout and saves the name under \<open>adminPolosLayout\<close>. The code accepts any
  value as a layout, an \<open>undefined\<close> \<open>data-layout\<close> included; the spec's four
  layout modes are the datatype \<open>layout_mode\<close>, related to the code by
  \<open>mode_name\<close> and \<open>parse_mode\<close>.
\<close>

datatype layout_mode = Full | Compact | Icons | Hidden

primrec mode_name :: "layout_mode \<Rightarrow> string" where
  "mode_name Full = ''full''"
| "mode_name Compact = ''compact''"
| "mode_name Icons = ''icons''"
| "mode_name Hidden = ''hidden''"

definition parse_mode :: "jsstr \<Rightarrow> layout_mode option" where
  "parse_mode v =
     (if v = Some ''full'' then Some Full else if v = Some ''compact'' then Some Compact
      else if v = Some ''icons'' then Some Icons else if v = Some ''hidden'' then Some Hidden
      else None)"

text \<open>The four classes removed on line 68.\<close>

definition layout_classes :: "string list" where
  "layout_classes = [''layout-full'', ''layout-compact'', ''layout-icons'', ''layout-hidden'']"

text \<open>Lines 75-77: \<open>btn.classList.toggle('active', btn.dataset.layout === layout)\<close>
  for every button found at construction.\<close>

definition sync_layout_buttons :: "jsstr \<Rightarrow> st \<Rightarrow> st" where
  "sync_layout_buttons layout s =
     upd_doc (\<lambda>d. fold (\<lambda>b d. toggle_force ''active'' (get_attr d b ''data-layout'' = layout) b d)
                       (layoutButtons s) d) s"

text \<open>\<open>setLayout(layout)\<close>, lines 66-88. \<open>classList.add\<close> on line 71 throws
  for a name with whitespace, after the removal of line 68 and before anything
  else changes.\<close>

definition setLayout :: "jsstr \<Rightarrow> st \<Rightarrow> st res" where
  "setLayout layout s = deref ''classList'' (sidebar s) (\<lambda>sb s.
     let s1 = upd_doc (remove_classes layout_classes sb) s in
     (case add_class (''layout-'' @ js_show layout) sb (doc s1) of
        Inl e \<Rightarrow> Thrown e s1
      | Inr d \<Rightarrow>
          let s2 = sync_layout_buttons layout (s1\<lparr>doc := d, currentLayout := layout\<rparr>);
              s3 = (if layout \<noteq> Some ''full'' then closeAllSubmenus s2 else s2)
          in Norm (s3\<lparr>storage := (storage s3)(storage_key \<mapsto> js_show layout)\<rparr>))) s"

text \<open>\<open>changeLayout(e)\<close>, lines 90-93: the layout is the clicked button's
  \<open>data-layout\<close>, \<open>undefined\<close> when it has none.\<close>

definition changeLayout :: "evt \<Rightarrow> st \<Rightarrow> st res" where
  "changeLayout e s =
     deref ''dataset'' (e_current e) (\<lambda>b s. setLayout (get_attr (doc s) b ''data-layout'') s) s"

text \<open>\<open>toggleSidebar()\<close>, lines 95-108.\<close>

definition toggleSidebar :: "st \<Rightarrow> st res" where
  "toggleSidebar s =
     (if innerWidth s \<le> mobile_bp then
        deref ''classList'' (sidebar s) (\<lambda>sb s.
          deref ''classList'' (overlay s) (\<lambda>ov s. Norm (upd_doc (toggle_class ''active'' ov) s))
            (upd_doc (toggle_class ''open'' sb) s)) s
      else if currentLayout s = Some ''full'' then setLayout (Some ''icons'') s
      else setLayout (Some ''full'') s)"

text \<open>\<open>closeMobileSidebar()\<close>, lines 110-113.\<close>

definition closeMobileSidebar :: "st \<Rightarrow> st res" where
  "closeMobileSidebar s =
     deref ''classList'' (sidebar s) (\<lambda>sb s.
       deref ''classList'' (overlay s) (\<lambda>ov s. Norm (upd_doc (remove_classes [''active''] ov) s))
         (upd_doc (remove_classes [''open''] sb) s)) s"

text \<open>\<open>setupLayoutSystem()\<close>, lines 55-64: \<open>setLayout('full')\<close> first, then the
  saved value when it is a non-empty string.\<close>

definition setupLayoutSystem :: "st \<Rightarrow> st res" where
  "setupLayoutSystem s =
     bind_res (setLayout (Some ''full'') s) (\<lambda>s.
       case storage s storage_key of
         Some v \<Rightarrow> if v \<noteq> [] then setLayout (Some v) s else Norm s
       | None \<Rightarrow> Norm s)"

text \<open>The sidebar shows exactly one of the four layout classes, that of
  \<open>name\<close>.\<close>

definition shows_layout :: "document \<Rightarrow> eid \<Rightarrow> string \<Rightarrow> bool" where
  "shows_layout d sb name \<longleftrightarrow> (\<forall>c \<in> set layout_classes. has_class d sb c \<longleftrightarrow> c = ''layout-'' @ name)"

section \<open>Lemmas\<close>

lemma parse_mode_name [simp]: "parse_mode (Some (mode_name m)) = Some m"
  by (cases m) (simp_all add: parse_mode_def)

lemma mode_name_inj [simp]: "mode_name m = mode_name m' \<longleftrightarrow> m = m'"
  by (cases m; cases m') simp_all

lemma token_error_mode [simp]: "token_error (''layout-'' @ mode_name m) = None"
  by (cases m) (simp_all add: token_error_def ascii_ws_def)

lemma layout_class_mode [simp]: "''layout-'' @ mode_name m \<in> set layout_classes"
  by (cases m) (simp_all add: layout_classes_def)

lemma sync_layout_buttons_classes:
  "has_class (doc (sync_layout_buttons v s)) j c =
     (if j \<in> set (layoutButtons s) \<and> c = ''active'' \<and> j < length (doc s)
      then get_attr (doc s) j ''data-layout'' = v else has_class (doc s) j c)"
proof -
  have q: "\<And>f i d. (\<lambda>d b. get_attr d b ''data-layout'' = v) (map_classes f i d) = (\<lambda>d b. get_attr d b ''data-layout'' = v) d"
    by simp
  show ?thesis
    unfolding sync_layout_buttons_def upd_doc_def
    using has_class_fold_toggle_force [OF q] by simp
qed

lemma sync_layout_buttons_fields [simp]:
  "shape (doc (sync_layout_buttons v s)) = shape (doc s)"
  "sidebar (sync_layout_buttons v s) = sidebar s" "overlay (sync_layout_buttons v s) = overlay s"
  "currentLayout (sync_layout_buttons v s) = currentLayout s"
  "storage (sync_layout_buttons v s) = storage s"
  "layoutButtons (sync_layout_buttons v s) = layoutButtons s"
  "innerWidth (sync_layout_buttons v s) = innerWidth s"
  by (simp_all add: sync_layout_buttons_def)

text \<open>The normal completion of \<open>setLayout\<close> on a name without whitespace,
  written out.\<close>

lemma setLayout_ok:
  assumes "sidebar s = Some sb" and "token_error (''layout-'' @ js_show v) = None"
  shows "setLayout v s =
     Norm (let s2 = sync_layout_buttons v ((upd_doc (remove_classes layout_classes sb) s)
                      \<lparr>doc := map_classes (insert (''layout-'' @ js_show v)) sb
                                (remove_classes layout_classes sb (doc s)), currentLayout := v\<rparr>);
               s3 = (if v \<noteq> Some ''full'' then closeAllSubmenus s2 else s2)
           in s3\<lparr>storage := (storage s3)(storage_key \<mapsto> js_show v)\<rparr>)"
  using assms by (simp add: setLayout_def add_class_def Let_def)

lemma setLayout_frame:
  "sidebar (st_of (setLayout v s)) = sidebar s \<and> overlay (st_of (setLayout v s)) = overlay s \<and>
   shape (doc (st_of (setLayout v s))) = shape (doc s) \<and>
   layoutButtons (st_of (setLayout v s)) = layoutButtons s \<and>
   innerWidth (st_of (setLayout v s)) = innerWidth s \<and>
   userMenu (st_of (setLayout v s)) = userMenu s \<and> userDropdown (st_of (setLayout v s)) = userDropdown s \<and>
   listeners (st_of (setLayout v s)) = listeners s \<and> timers (st_of (setLayout v s)) = timers s \<and>
   hoverTimeout (st_of (setLayout v s)) = hoverTimeout s"
  by (auto simp: setLayout_def add_class_def Let_def closeAllSubmenus_def sync_layout_buttons_def
        deref_def split: option.splits sum.splits)


lemma setLayout_valid_norm:
  assumes "sidebar s = Some sb" and "sb < length (doc s)"
  shows "\<exists>s'. setLayout (Some (mode_name m)) s = Norm s' \<and>
           currentLayout s' = Some (mode_name m) \<and> storage s' storage_key = Some (mode_name m)"
  using assms by (cases m) (auto simp: setLayout_ok token_error_def ascii_ws_def Let_def)

section \<open>Properties of the layout system\<close>

text \<open>C1. For each of the four layout modes, \<open>setLayout\<close> completes normally
  when the sidebar exists; afterwards \<open>currentLayout\<close> is the mode, the sidebar
  has exactly that mode's layout class among the four, the mode is saved under
  \<open>adminPolosLayout\<close>, and a layout button is active iff its \<open>data-layout\<close>
  names the mode.\<close>

lemma setLayout_mode:
  assumes sb: "sidebar s = Some sb" and rng: "sb < length (doc s)"
  shows "\<exists>s'. setLayout (Some (mode_name m)) s = Norm s' \<and>
           currentLayout s' = Some (mode_name m) \<and>
           shows_layout (doc s') sb (mode_name m) \<and>
           storage s' storage_key = Some (mode_name m) \<and>
           (\<forall>b \<in> set (layoutButtons s). b < length (doc s) \<longrightarrow>
              (has_class (doc s') b ''active'' \<longleftrightarrow> get_attr (doc s) b ''data-layout'' = Some (mode_name m)))"
  using sb rng
  by (cases m) (auto simp: setLayout_ok token_error_def ascii_ws_def Let_def shows_layout_def closeAllSubmenus_classes
        sync_layout_buttons_classes has_class_remove has_class_add layout_classes_def)

text \<open>C2. After \<open>setLayout\<close> with a mode other than \<open>full\<close> no submenu
  node is open; with \<open>full\<close> the open state of every node is unchanged, and
  no other element gains or loses \<open>open\<close>.\<close>

lemma setLayout_submenus:
  assumes sb: "sidebar s = Some sb" and rng: "sb < length (doc s)"
  shows "\<exists>s'. setLayout (Some (mode_name m)) s = Norm s' \<and>
           (\<forall>j. has_class (doc s') j ''open'' \<longleftrightarrow>
                  has_class (doc s) j ''open'' \<and> \<not> (m \<noteq> Full \<and> has_class (doc s) j ''has-sub''))"
  using sb rng
  by (cases m) (auto simp: setLayout_ok token_error_def ascii_ws_def Let_def closeAllSubmenus_classes
        sync_layout_buttons_classes has_class_remove has_class_add layout_classes_def)

text \<open>C3. On a wide window (\<open>innerWidth > 768\<close>) \<open>toggleSidebar\<close> switches
  the layout to \<open>icons\<close> when it is \<open>full\<close>, and to \<open>full\<close> from any other
  layout, \<open>compact\<close> and \<open>hidden\<close> included.\<close>

lemma toggleSidebar_wide:
  assumes sb: "sidebar s = Some sb" and rng: "sb < length (doc s)" and wide: "mobile_bp < innerWidth s"
  shows "\<exists>s'. toggleSidebar s = Norm s' \<and>
           currentLayout s' = Some (if currentLayout s = Some ''full'' then ''icons'' else ''full'')"
proof -
  have "toggleSidebar s = setLayout (Some (mode_name (if currentLayout s = Some ''full'' then Icons else Full))) s"
    using wide by (simp add: toggleSidebar_def)
  then show ?thesis
    using setLayout_valid_norm [OF sb rng, of Icons] setLayout_valid_norm [OF sb rng, of Full] by auto
qed

text \<open>C4. On a narrow window \<open>toggleSidebar\<close> leaves the layout and the
  storage alone and flips the sidebar's \<open>open\<close> class and the overlay's
  \<open>active\<close> class.\<close>

lemma toggleSidebar_narrow:
  assumes sb: "sidebar s = Some sb" and ov: "overlay s = Some ov" and ne: "sb \<noteq> ov"
    and rng: "sb < length (doc s)" "ov < length (doc s)" and narrow: "innerWidth s \<le> mobile_bp"
  shows "\<exists>s'. toggleSidebar s = Norm s' \<and> currentLayout s' = currentLayout s \<and>
           storage s' = storage s \<and>
           (has_class (doc s') sb ''open'' \<longleftrightarrow> \<not> has_class (doc s) sb ''open'') \<and>
           (has_class (doc s') ov ''active'' \<longleftrightarrow> \<not> has_class (doc s) ov ''active'')"
  using assms by (auto simp: toggleSidebar_def has_class_toggle)

text \<open>C6. Whatever \<open>localStorage\<close> holds, \<open>setupLayoutSystem\<close> ends in the
  \<open>full\<close> layout with \<open>full\<close> saved: its first \<open>setLayout('full')\<close> writes
  \<open>full\<close> to the storage before line 60 reads it back, so a saved layout is
  never restored.\<close>

lemma setupLayoutSystem_full:
  assumes sb: "sidebar s = Some sb" and rng: "sb < length (doc s)"
  shows "\<exists>s'. setupLayoutSystem s = Norm s' \<and> currentLayout s' = Some ''full'' \<and>
           storage s' storage_key = Some ''full''"
proof -
  obtain s1 where s1: "setLayout (Some (mode_name Full)) s = Norm s1"
    and c1: "currentLayout s1 = Some ''full''" and k1: "storage s1 storage_key = Some ''full''"
    using setLayout_valid_norm [OF sb rng, of Full] by auto
  have sb1: "sidebar s1 = Some sb" and rng1: "sb < length (doc s1)"
    using setLayout_frame [of "Some (mode_name Full)" s] s1 sb rng by (auto dest: shape_length)
  obtain s2 where s2: "setLayout (Some (mode_name Full)) s1 = Norm s2"
    and c2: "currentLayout s2 = Some ''full''" and k2: "storage s2 storage_key = Some ''full''"
    using setLayout_valid_norm [OF sb1 rng1, of Full] by auto
  have "setupLayoutSystem s = Norm s2"
    using s1 s2 k1 by (simp add: setupLayoutSystem_def)
  then show ?thesis using c2 k2 by simp
qed


text \<open>C32. A layout button whose \<open>data-layout\<close> contains whitespace makes
  \<open>changeLayout\<close> throw a DOMException (\<open>InvalidCharacterError\<close>) from the
  \<open>classList.add\<close> of line 71, after line 68 has removed the four layout
  classes: the sidebar is left with no layout class at all, while
  \<open>currentLayout\<close> and the saved layout keep their old values.\<close>

theorem changeLayout_whitespace_throws:
  assumes cur: "e_current e = Some b" and attr: "get_attr (doc s) b ''data-layout'' = Some v"
    and sb: "sidebar s = Some sb" and ws: "\<exists>x \<in> set v. ascii_ws x"
  shows "\<exists>s'. changeLayout e s = Thrown (DOMException ''InvalidCharacterError'') s' \<and>
           currentLayout s' = currentLayout s \<and> storage s' = storage s \<and>
           (\<forall>c \<in> set layout_classes. \<not> has_class (doc s') sb c)"
proof -
  have "token_error (''layout-'' @ v) = Some (DOMException ''InvalidCharacterError'')"
    using ws by (auto simp: token_error_def)
  then have "changeLayout e s = Thrown (DOMException ''InvalidCharacterError'') (upd_doc (remove_classes layout_classes sb) s)"
    using cur attr sb by (simp add: changeLayout_def setLayout_def add_class_def)
  then show ?thesis by (simp add: upd_doc_def has_class_remove)
qed

text \<open>C33. A layout button without a \<open>data-layout\<close> attribute makes
  \<open>changeLayout\<close> set the layout \<open>undefined\<close>: the sidebar gets the class
  \<open>layout-undefined\<close> and none of the four layout classes,
  \<open>currentLayout\<close> becomes \<open>undefined\<close>, the string \<open>undefined\<close> is saved, and
  every layout button that lacks the attribute is marked active, since
  \<open>undefined === undefined\<close> on line 76.\<close>

theorem changeLayout_missing_attr:
  assumes cur: "e_current e = Some b" and attr: "get_attr (doc s) b ''data-layout'' = None"
    and sb: "sidebar s = Some sb" and rng: "sb < length (doc s)"
  shows "\<exists>s'. changeLayout e s = Norm s' \<and> currentLayout s' = None \<and>
           has_class (doc s') sb ''layout-undefined'' \<and>
           (\<forall>c \<in> set layout_classes. \<not> has_class (doc s') sb c) \<and>
           storage s' storage_key = Some ''undefined'' \<and>
           (\<forall>b' \<in> set (layoutButtons s). b' < length (doc s) \<longrightarrow>
              (has_class (doc s') b' ''active'' \<longleftrightarrow> get_attr (doc s) b' ''data-layout'' = None))"
proof -
  have te: "token_error (''layout-'' @ js_show None) = None"
    by (simp add: token_error_def js_show_def ascii_ws_def)
  have "changeLayout e s = setLayout None s" using cur attr by (simp add: changeLayout_def)
  then show ?thesis
    using setLayout_ok [OF sb te] rng
    by (auto simp: Let_def js_show_def closeAllSubmenus_classes sync_layout_buttons_classes
        has_class_remove has_class_add layout_classes_def)
qed

end
