(* ===== verification/Dropdown.thy ===== *)
theory Dropdown
  imports Layout
begin

text \<open>
  The user menu and window resizing (src/aset/js/admin-polos.js lines
  188-203): the dropdown is open when \<open>#userDropdown\<close> has class \<open>show\<close>.
  A click on the user menu toggles it and stops the click's propagation; the
  document-wide click listener closes it for a click outside the user menu; a
  resize to a wide window closes the mobile sidebar.
\<close>

text \<open>\<open>toggleUserDropdown(e)\<close>, lines 188-191: \<open>stopPropagation\<close> happens
  before \<open>userDropdown\<close> is read, so it holds even when that throws.\<close>

definition toggleUserDropdown :: "evt \<Rightarrow> st \<Rightarrow> st res" where
  "toggleUserDropdown e s =
     deref ''classList'' (userDropdown s) (\<lambda>dd s. Norm (upd_doc (toggle_class ''show'' dd) s))
       (s\<lparr>ev_stopped := True\<rparr>)"

text \<open>\<open>handleOutsideClick(e)\<close>, lines 193-197.\<close>

definition handleOutsideClick :: "evt \<Rightarrow> st \<Rightarrow> st res" where
  "handleOutsideClick e s =
     deref ''contains'' (userMenu s) (\<lambda>um s.
       if \<not> contains (doc s) um (e_target e)
       then deref ''classList'' (userDropdown s) (\<lambda>dd s. Norm (upd_doc (remove_classes [''show''] dd) s)) s
       else Norm s) s"

text \<open>\<open>handleResize()\<close>, lines 199-203, run after the window has taken its
  new width.\<close>

definition handleResize :: "st \<Rightarrow> st res" where
  "handleResize s = (if mobile_bp < innerWidth s then closeMobileSidebar s else Norm s)"

section \<open>Lemmas\<close>

lemma closeMobileSidebar_ok:
  assumes "sidebar s = Some sb" "overlay s = Some ov"
  shows "closeMobileSidebar s =
           Norm (upd_doc (remove_classes [''active''] ov) (upd_doc (remove_classes [''open''] sb) s))"
  using assms by (simp add: closeMobileSidebar_def)

lemma closeMobileSidebar_classes:
  assumes "sidebar s = Some sb" "overlay s = Some ov"
  shows "\<exists>s'. closeMobileSidebar s = Norm s' \<and>
           (\<forall>j c. has_class (doc s') j c \<longleftrightarrow>
              has_class (doc s) j c \<and> \<not> (j = sb \<and> c = ''open'') \<and> \<not> (j = ov \<and> c = ''active''))"
  using assms by (auto simp: closeMobileSidebar_ok has_class_remove)

section \<open>Properties of the user menu and resizing\<close>

text \<open>C8. A click on the user menu (the listener of line 41) completes
  normally when the dropdown exists, stops the click's propagation, so that the
  document's outside-click listener never sees it, and flips the dropdown's
  \<open>show\<close> class, leaving every other class alone.\<close>

lemma toggleUserDropdown_flips:
  assumes dd: "userDropdown s = Some d" and rng: "d < length (doc s)"
  shows "\<exists>s'. toggleUserDropdown e s = Norm s' \<and> ev_stopped s' \<and>
           (\<forall>j c. has_class (doc s') j c \<longleftrightarrow>
              (if j = d \<and> c = ''show'' then \<not> has_class (doc s) d ''show'' else has_class (doc s) j c))"
  using assms by (auto simp: toggleUserDropdown_def has_class_toggle)

text \<open>C9. A document click whose target lies outside the user menu closes
  the dropdown; one whose target lies inside it leaves every class as it
  is.\<close>

lemma handleOutsideClick_closes:
  assumes um: "userMenu s = Some u" and dd: "userDropdown s = Some d"
  shows "\<exists>s'. handleOutsideClick e s = Norm s' \<and>
           (\<not> contains (doc s) u (e_target e) \<longrightarrow> \<not> has_class (doc s') d ''show'') \<and>
           (contains (doc s) u (e_target e) \<longrightarrow> doc s' = doc s)"
  using assms by (auto simp: handleOutsideClick_def has_class_remove)

text \<open>C10. A resize to a window wider than 768 pixels removes \<open>open\<close> from the
  sidebar and \<open>active\<close> from the overlay, whatever they were, and nothing
  else; a resize to a narrow window changes nothing.\<close>

lemma handleResize_wide:
  assumes sb: "sidebar s = Some b" and ov: "overlay s = Some v"
  shows "\<exists>s'. handleResize s = Norm s' \<and>
           (mobile_bp < innerWidth s \<longrightarrow>
              \<not> has_class (doc s') b ''open'' \<and> \<not> has_class (doc s') v ''active'' \<and>
              (\<forall>j c. (j \<noteq> b \<or> c \<noteq> ''open'') \<and> (j \<noteq> v \<or> c \<noteq> ''active'') \<longrightarrow>
                 (has_class (doc s') j c \<longleftrightarrow> has_class (doc s) j c))) \<and>
           (innerWidth s \<le> mobile_bp \<longrightarrow> s' = s)"
proof (cases "mobile_bp < innerWidth s")
  case True
  then show ?thesis using closeMobileSidebar_classes [OF sb ov] by (auto simp: handleResize_def)
next
  case False
  then show ?thesis by (simp add: handleResize_def)
qed

end
