(* ===== verification/Refinement.thy ===== *)
theory Refinement
  imports Dropdown
begin

text \<open>
  The dashboard shell as the specification describes it (spec sections 3 and
  4.1): a layout mode, the set of open submenu nodes, the mobile sidebar's
  visibility and the user dropdown's visibility, with the abstract operations
  of section 4.1. The abstraction function reads these four components off a
  controller state: the mode from \<open>currentLayout\<close>, an open node as an
  element with classes \<open>has-sub\<close> and \<open>open\<close>, the sidebar's \<open>open\<close> class
  and the dropdown's \<open>show\<close> class. The refinement lemmas show that the
  operations of the code change the abstract state as the specification's
  operations do.
\<close>

record shell =
  mode :: "layout_mode option"   \<comment> \<open>\<open>None\<close>: a value outside the four modes\<close>
  open_subs :: "eid set"
  sidebar_open :: bool
  dropdown_open :: bool

definition open_nodes :: "document \<Rightarrow> eid set" where
  "open_nodes d = set (query_all d (\<lambda>d j. has_class d j ''has-sub'' \<and> has_class d j ''open''))"

definition class_of :: "document \<Rightarrow> eid option \<Rightarrow> string \<Rightarrow> bool" where
  "class_of d r c = (case r of Some e \<Rightarrow> has_class d e c | None \<Rightarrow> False)"

definition abs_shell :: "st \<Rightarrow> shell" where
  "abs_shell s =
     \<lparr>mode = parse_mode (currentLayout s), open_subs = open_nodes (doc s),
      sidebar_open = class_of (doc s) (sidebar s) ''open'',
      dropdown_open = class_of (doc s) (userDropdown s) ''show''\<rparr>"

text \<open>\<open>setLayout(mode)\<close> of section 4.1: the new mode, and every submenu
  closed unless the mode is \<open>full\<close>.\<close>

definition a_setLayout :: "layout_mode \<Rightarrow> shell \<Rightarrow> shell" where
  "a_setLayout m \<sigma> = \<sigma>\<lparr>mode := Some m, open_subs := (if m = Full then open_subs \<sigma> else {})\<rparr>"

text \<open>\<open>toggleSidebar()\<close> of section 4.1: on a narrow viewport the sidebar's
  visibility flips; on a wide one the mode becomes \<open>icons\<close> from \<open>full\<close>
  and \<open>full\<close> from anything else.\<close>

definition a_toggleSidebar :: "bool \<Rightarrow> shell \<Rightarrow> shell" where
  "a_toggleSidebar narrow \<sigma> =
     (if narrow then \<sigma>\<lparr>sidebar_open := \<not> sidebar_open \<sigma>\<rparr>
      else a_setLayout (if mode \<sigma> = Some Full then Icons else Full) \<sigma>)"

text \<open>Resize handling: a wide viewport closes the mobile sidebar.\<close>

definition a_resize :: "bool \<Rightarrow> shell \<Rightarrow> shell" where
  "a_resize wide \<sigma> = (if wide then \<sigma>\<lparr>sidebar_open := False\<rparr> else \<sigma>)"

text \<open>The user dropdown: a click on the trigger flips it, a click outside the
  user-menu subtree closes it.\<close>

definition a_toggleDropdown :: "shell \<Rightarrow> shell" where
  "a_toggleDropdown \<sigma> = \<sigma>\<lparr>dropdown_open := \<not> dropdown_open \<sigma>\<rparr>"

definition a_outsideClick :: "bool \<Rightarrow> shell \<Rightarrow> shell" where
  "a_outsideClick inside \<sigma> = (if inside then \<sigma> else \<sigma>\<lparr>dropdown_open := False\<rparr>)"

section \<open>Lemmas\<close>

lemma open_nodes_iff: "j \<in> open_nodes d \<longleftrightarrow> has_class d j ''has-sub'' \<and> has_class d j ''open''"
  by (auto simp: open_nodes_def dest: has_class_in_range)

text \<open>What \<open>setLayout\<close> does to the classes other than the four layout
  classes and \<open>active\<close>.\<close>

lemma mode_name_full [simp]: "mode_name m = ''full'' \<longleftrightarrow> m = Full"
  by (cases m) simp_all

lemma setLayout_other_classes:
  assumes sb: "sidebar s = Some sb" and n: "setLayout (Some (mode_name m)) s = Norm s'"
    and c: "c \<notin> set layout_classes" "c \<noteq> ''active''"
  shows "has_class (doc s') j c =
           (has_class (doc s) j c \<and> \<not> (c = ''open'' \<and> m \<noteq> Full \<and> has_class (doc s) j ''has-sub''))"
proof -
  have te: "token_error (''layout-'' @ js_show (Some (mode_name m))) = None"
    unfolding js_show_Some by (rule token_error_mode)
  note eq = trans [OF sym [OF n] setLayout_ok [OF sb te], simplified res.inject]
  have hs: "''has-sub'' \<notin> set layout_classes" by (simp add: layout_classes_def)
  have x: "''layout-'' @ js_show (Some (mode_name m)) \<in> set layout_classes" unfolding js_show_Some by (rule layout_class_mode)
  have cx: "c \<noteq> ''layout-'' @ js_show (Some (mode_name m))" using c x by auto
  have hx: "''has-sub'' \<noteq> ''layout-'' @ js_show (Some (mode_name m))" using hs x by auto
  have cl: "c \<notin> set layout_classes" "''has-sub'' \<notin> set layout_classes" using c hs by simp_all
  show ?thesis
    using c(2) cx hx cl unfolding eq Let_def
    by (auto simp: closeAllSubmenus_classes sync_layout_buttons_classes has_class_add has_class_remove
        simp del: append_Cons append_Nil)
qed

lemma setLayout_refs:
  "setLayout v s = Norm s' \<Longrightarrow> sidebar s' = sidebar s \<and> userDropdown s' = userDropdown s"
  using setLayout_frame [of v s] by simp

text \<open>Updates of one element's classes, seen through the abstraction: the open
  set changes only where a submenu node's \<open>open\<close> class changes.\<close>

lemma open_nodes_frame:
  assumes "\<And>j. has_class d' j ''has-sub'' = has_class d j ''has-sub''"
    and "\<And>j. has_class d j ''has-sub'' \<Longrightarrow> has_class d' j ''open'' = has_class d j ''open''"
  shows "open_nodes d' = open_nodes d"
  using assms by (auto simp: open_nodes_iff)

lemma setLayout_abs:
  assumes sb: "sidebar s = Some sb" "sb < length (doc s)" and nh: "\<not> has_class (doc s) sb ''has-sub''"
  shows "\<exists>s'. setLayout (Some (mode_name m)) s = Norm s' \<and> abs_shell s' = a_setLayout m (abs_shell s)"
proof -
  obtain s' where n: "setLayout (Some (mode_name m)) s = Norm s'" and cl: "currentLayout s' = Some (mode_name m)"
    using setLayout_valid_norm [OF sb, of m] by auto
  have r: "sidebar s' = Some sb" "userDropdown s' = userDropdown s" using setLayout_refs [OF n] sb by simp_all
  have oc: "has_class (doc s') j ''open'' =
              (has_class (doc s) j ''open'' \<and> \<not> (m \<noteq> Full \<and> has_class (doc s) j ''has-sub''))" for j
    using setLayout_other_classes [OF sb(1) n, of "''open''" j] by (simp add: layout_classes_def)
  have hc: "has_class (doc s') j ''has-sub'' = has_class (doc s) j ''has-sub''" for j
    using setLayout_other_classes [OF sb(1) n, of "''has-sub''" j] by (simp add: layout_classes_def)
  have sc: "has_class (doc s') j ''show'' = has_class (doc s) j ''show''" for j
    using setLayout_other_classes [OF sb(1) n, of "''show''" j] by (simp add: layout_classes_def)
  have on: "open_nodes (doc s') = (if m = Full then open_nodes (doc s) else {})"
    by (auto simp: open_nodes_iff oc hc)
  show ?thesis
    using n cl r on nh sb(1)
    by (simp add: abs_shell_def a_setLayout_def class_of_def oc sc split: option.splits)
qed

lemma toggle_narrow_abs:
  assumes sb: "sidebar s = Some sb" "sb < length (doc s)" and ov: "overlay s = Some ov"
    and nh: "\<not> has_class (doc s) sb ''has-sub''"
  shows "abs_shell (upd_doc (toggle_class ''active'' ov) (upd_doc (toggle_class ''open'' sb) s)) =
           (abs_shell s)\<lparr>sidebar_open := \<not> sidebar_open (abs_shell s)\<rparr>"
proof -
  let ?d = "toggle_class ''active'' ov (toggle_class ''open'' sb (doc s))"
  have "open_nodes ?d = open_nodes (doc s)"
    by (rule open_nodes_frame) (use nh in \<open>auto simp: has_class_toggle\<close>)
  then show ?thesis using sb by (simp add: abs_shell_def class_of_def has_class_toggle split: option.splits)
qed

lemma close_mobile_abs:
  assumes sb: "sidebar s = Some sb" and ov: "overlay s = Some ov"
    and nh: "\<not> has_class (doc s) sb ''has-sub''"
  shows "abs_shell (upd_doc (remove_classes [''active''] ov) (upd_doc (remove_classes [''open''] sb) s)) =
           (abs_shell s)\<lparr>sidebar_open := False\<rparr>"
proof -
  let ?d = "remove_classes [''active''] ov (remove_classes [''open''] sb (doc s))"
  have "open_nodes ?d = open_nodes (doc s)"
    by (rule open_nodes_frame) (use nh in \<open>auto simp: has_class_remove\<close>)
  then show ?thesis using sb by (simp add: abs_shell_def class_of_def has_class_remove split: option.splits)
qed

lemma show_only_abs:
  assumes "userDropdown s = Some dd" and "d = toggle_class ''show'' dd (doc s) \<or> d = remove_classes [''show''] dd (doc s)"
  shows "open_nodes d = open_nodes (doc s) \<and> class_of d (sidebar s) ''open'' = class_of (doc s) (sidebar s) ''open''"
proof -
  have "open_nodes d = open_nodes (doc s)"
    by (rule open_nodes_frame) (use assms(2) in \<open>auto simp: has_class_toggle has_class_remove split: if_splits\<close>)
  then show ?thesis using assms(2)
    by (auto simp: class_of_def has_class_toggle has_class_remove split: option.splits if_splits)
qed

section \<open>Refinement of the specification's operations\<close>

text \<open>C25. For each of the four modes, \<open>setLayout\<close> refines the
  specification's \<open>setLayout(mode)\<close>: on a page whose sidebar is not itself a
  submenu node, it completes normally and its effect on the mode, the open
  submenus, the mobile sidebar and the dropdown is that of the abstract
  operation.\<close>

theorem setLayout_refines:
  assumes "sidebar s = Some sb" and "sb < length (doc s)" and "\<not> has_class (doc s) sb ''has-sub''"
  shows "\<exists>s'. setLayout (Some (mode_name m)) s = Norm s' \<and> abs_shell s' = a_setLayout m (abs_shell s)"
  using setLayout_abs [OF assms] .

text \<open>C26. \<open>toggleSidebar\<close> refines the specification's \<open>toggleSidebar()\<close>
  on both sides of the breakpoint: on a narrow window it flips the sidebar's
  visibility and nothing else, on a wide one it sets \<open>icons\<close> from \<open>full\<close>
  and \<open>full\<close> from every other mode.\<close>

theorem toggleSidebar_refines:
  assumes sb: "sidebar s = Some sb" "sb < length (doc s)" and ov: "overlay s = Some ov"
    and nh: "\<not> has_class (doc s) sb ''has-sub''"
  shows "\<exists>s'. toggleSidebar s = Norm s' \<and>
           abs_shell s' = a_toggleSidebar (innerWidth s \<le> mobile_bp) (abs_shell s)"
proof (cases "innerWidth s \<le> mobile_bp")
  case True
  then show ?thesis using toggle_narrow_abs [OF sb ov nh] sb ov
    by (simp add: toggleSidebar_def a_toggleSidebar_def)
next
  case False
  let ?m = "if currentLayout s = Some ''full'' then Icons else Full"
  have "toggleSidebar s = setLayout (Some (mode_name ?m)) s" using False by (simp add: toggleSidebar_def)
  moreover have "(mode (abs_shell s) = Some Full) = (currentLayout s = Some ''full'')"
    by (auto simp: abs_shell_def parse_mode_def)
  ultimately show ?thesis using setLayout_abs [OF sb nh, of ?m] False
    by (simp add: a_toggleSidebar_def)
qed

text \<open>C27. The user-menu listener refines the specification's dropdown
  toggle, and the document's outside-click listener refines its close: it
  closes the dropdown exactly when the target is outside the user-menu
  subtree.\<close>

theorem dropdown_refines:
  assumes um: "userMenu s = Some u" and dd: "userDropdown s = Some d" and rng: "d < length (doc s)"
  shows "(\<exists>s'. toggleUserDropdown e s = Norm s' \<and> abs_shell s' = a_toggleDropdown (abs_shell s)) \<and>
         (\<exists>s'. handleOutsideClick e s = Norm s' \<and>
               abs_shell s' = a_outsideClick (contains (doc s) u (e_target e)) (abs_shell s))"
proof -
  have t: "open_nodes (toggle_class ''show'' d (doc s)) = open_nodes (doc s) \<and>
           class_of (toggle_class ''show'' d (doc s)) (sidebar s) ''open'' = class_of (doc s) (sidebar s) ''open''"
    using show_only_abs [OF dd] by blast
  have r: "open_nodes (remove_classes [''show''] d (doc s)) = open_nodes (doc s) \<and>
           class_of (remove_classes [''show''] d (doc s)) (sidebar s) ''open'' = class_of (doc s) (sidebar s) ''open''"
    using show_only_abs [OF dd] by blast
  have e1: "toggleUserDropdown e s = Norm (upd_doc (toggle_class ''show'' d) (s\<lparr>ev_stopped := True\<rparr>))"
    using dd by (simp add: toggleUserDropdown_def)
  have e2: "handleOutsideClick e s =
              Norm (if contains (doc s) u (e_target e) then s else upd_doc (remove_classes [''show''] d) s)"
    using um dd by (simp add: handleOutsideClick_def)
  have a1: "abs_shell (upd_doc (toggle_class ''show'' d) (s\<lparr>ev_stopped := True\<rparr>)) = a_toggleDropdown (abs_shell s)"
    using t dd rng by (auto simp: abs_shell_def a_toggleDropdown_def class_of_def has_class_toggle)
  have a2: "abs_shell (upd_doc (remove_classes [''show''] d) s) = (abs_shell s)\<lparr>dropdown_open := False\<rparr>"
    using r dd by (auto simp: abs_shell_def class_of_def has_class_remove)
  show ?thesis using e1 e2 a1 a2 by (simp add: a_outsideClick_def)
qed

text \<open>C28. \<open>handleResize\<close> refines the specification's resize handling: a
  resize to a wide window closes the mobile sidebar and changes nothing else
  of the abstract state; a narrow one changes nothing.\<close>

theorem handleResize_refines:
  assumes sb: "sidebar s = Some sb" and ov: "overlay s = Some ov" and nh: "\<not> has_class (doc s) sb ''has-sub''"
  shows "\<exists>s'. handleResize s = Norm s' \<and> abs_shell s' = a_resize (mobile_bp < innerWidth s) (abs_shell s)"
  using close_mobile_abs [OF sb ov nh] sb ov
  by (simp add: handleResize_def closeMobileSidebar_def a_resize_def)

end
