(* ===== verification/Hover.thy ===== *)
theory Hover
  imports Submenu
begin

text \<open>
  Auto-hover expansion of the icons layout (src/aset/js/admin-polos.js lines
  115-147). Entering the sidebar schedules, after 150 ms, the temporary class
  \<open>layout-full-temp\<close>; leaving it schedules, after 300 ms, its removal
  together with the closing of every submenu. Both handlers first cancel the
  timer named by the one field \<open>hoverTimeout\<close>, so the two debounce channels
  of the spec share one handle: at most one hover callback is ever pending
  (\<open>hover_inv\<close>).
\<close>

definition hover_cb :: "callback \<Rightarrow> bool" where
  "hover_cb cb \<longleftrightarrow> cb = CB_hoverExpand \<or> cb = CB_hoverCollapse"

text \<open>\<open>this.hoverTimeout = setTimeout(cb, delay)\<close>.\<close>

definition schedule_hover :: "callback \<Rightarrow> nat \<Rightarrow> st \<Rightarrow> st" where
  "schedule_hover cb delay s = (case set_timeout cb delay s of (i, s') \<Rightarrow> s'\<lparr>hoverTimeout := Some i\<rparr>)"

text \<open>The \<open>mouseenter\<close> listener, lines 119-129; the sidebar is read only when
  the layout is \<open>icons\<close> (\<open>&&\<close> short-circuits).\<close>

definition sidebar_mouseenter :: "st \<Rightarrow> st res" where
  "sidebar_mouseenter s =
     (let s1 = clear_timeout (hoverTimeout s) (s\<lparr>isHoveringSidebar := True\<rparr>) in
      if currentLayout s1 = Some ''icons'' then
        deref ''classList'' (sidebar s1) (\<lambda>sb s.
          if \<not> has_class (doc s) sb ''layout-full'' then Norm (schedule_hover CB_hoverExpand 150 s)
          else Norm s) s1
      else Norm s1)"

text \<open>The \<open>mouseleave\<close> listener, lines 132-146.\<close>

definition sidebar_mouseleave :: "evt \<Rightarrow> st \<Rightarrow> st res" where
  "sidebar_mouseleave e s =
     (let s1 = clear_timeout (hoverTimeout s) (s\<lparr>isHoveringSidebar := False\<rparr>) in
      deref ''contains'' (sidebar s1) (\<lambda>sb s.
        if \<not> contains (doc s) sb (e_related e) \<and> e_related e \<noteq> Some sb
        then Norm (schedule_hover CB_hoverCollapse 300 s) else Norm s) s1)"

text \<open>The 150 ms callback, lines 125-127: it adds the class without looking
  at the pointer or the layout again.\<close>

definition hoverExpand :: "st \<Rightarrow> st res" where
  "hoverExpand s =
     deref ''classList'' (sidebar s) (\<lambda>sb s. Norm (upd_doc (map_classes (insert ''layout-full-temp'') sb) s)) s"

text \<open>The 300 ms callback, lines 138-144.\<close>

definition hoverCollapse :: "st \<Rightarrow> st res" where
  "hoverCollapse s =
     deref ''classList'' (sidebar s) (\<lambda>sb s.
       if has_class (doc s) sb ''layout-full-temp''
       then Norm (closeAllSubmenus (upd_doc (remove_classes [''layout-full-temp''] sb) s))
       else Norm s) s"

text \<open>\<open>setupAutoHover()\<close>, lines 115-147: nothing on a narrow window.\<close>

definition setupAutoHover :: "st \<Rightarrow> st res" where
  "setupAutoHover s =
     (if innerWidth s \<le> mobile_bp then Norm s
      else deref ''addEventListener'' (sidebar s) (\<lambda>sb s.
             Norm (add_listener (Elt sb) ''mouseleave'' H_mouseleave
                    (add_listener (Elt sb) ''mouseenter'' H_mouseenter s))) s)"

text \<open>Timer ids are distinct and below the next id; every pending hover
  callback is the one \<open>hoverTimeout\<close> names.\<close>

definition timers_wf :: "st \<Rightarrow> bool" where
  "timers_wf s \<longleftrightarrow> distinct (map fst (timers s)) \<and> (\<forall>(i, _, _) \<in> set (timers s). i < next_timer s)"

definition hover_inv :: "st \<Rightarrow> bool" where
  "hover_inv s \<longleftrightarrow> timers_wf s \<and> (\<forall>(i, _, cb) \<in> set (timers s). hover_cb cb \<longrightarrow> hoverTimeout s = Some i)"

definition pending_hover :: "st \<Rightarrow> (nat \<times> nat \<times> callback) list" where
  "pending_hover s = filter (\<lambda>(_, _, cb). hover_cb cb) (timers s)"

section \<open>Lemmas\<close>

lemma timers_clear [simp]:
  "timers (clear_timeout t s) = filter (\<lambda>(i, _, _). Some i \<noteq> t) (timers s)"
  "next_timer (clear_timeout t s) = next_timer s" "hoverTimeout (clear_timeout t s) = hoverTimeout s"
  "doc (clear_timeout t s) = doc s" "sidebar (clear_timeout t s) = sidebar s"
  "currentLayout (clear_timeout t s) = currentLayout s"
  by (simp_all add: clear_timeout_def)

lemma schedule_hover_fields [simp]:
  "timers (schedule_hover cb d s) = timers s @ [(next_timer s, clock s + d, cb)]"
  "next_timer (schedule_hover cb d s) = Suc (next_timer s)"
  "hoverTimeout (schedule_hover cb d s) = Some (next_timer s)"
  "doc (schedule_hover cb d s) = doc s" "sidebar (schedule_hover cb d s) = sidebar s"
  "currentLayout (schedule_hover cb d s) = currentLayout s"
  "clock (schedule_hover cb d s) = clock s"
  by (simp_all add: schedule_hover_def set_timeout_def)

lemma timers_wf_clear:
  "timers_wf s \<Longrightarrow> timers_wf (clear_timeout t s)"
  by (auto simp: timers_wf_def clear_timeout_def distinct_map_filter)

lemma timers_wf_schedule:
  "timers_wf s \<Longrightarrow> timers_wf (schedule_hover cb d s)"
  by (auto simp: timers_wf_def)

lemma hover_inv_schedule_after_clear:
  assumes "timers_wf s" and "\<forall>(i, _, cb) \<in> set (timers s). \<not> hover_cb cb"
  shows "hover_inv (schedule_hover cb d s)"
  using assms by (auto simp: hover_inv_def timers_wf_def)

lemma hover_inv_no_hover:
  assumes "timers_wf s" and "\<forall>(i, _, cb) \<in> set (timers s). \<not> hover_cb cb"
  shows "hover_inv s"
  using assms by (auto simp: hover_inv_def)


lemma clear_hover_none:
  assumes "hover_inv s"
  shows "\<forall>(i, _, cb) \<in> set (timers (clear_timeout (hoverTimeout s) (s\<lparr>isHoveringSidebar := b\<rparr>))). \<not> hover_cb cb"
  using assms by (auto simp: hover_inv_def)

lemma timers_wf_hovering:
  "timers_wf s \<Longrightarrow> timers_wf (clear_timeout t (s\<lparr>isHoveringSidebar := b\<rparr>))"
  by (rule timers_wf_clear) (simp add: timers_wf_def)

lemma hover_inv_enter:
  assumes "hover_inv s" shows "hover_inv (st_of (sidebar_mouseenter s))"
proof -
  let ?s1 = "clear_timeout (hoverTimeout s) (s\<lparr>isHoveringSidebar := True\<rparr>)"
  have wf: "timers_wf ?s1" using assms by (simp add: hover_inv_def timers_wf_hovering)
  have nh: "\<forall>(i, _, cb) \<in> set (timers ?s1). \<not> hover_cb cb" using assms by (rule clear_hover_none)
  show ?thesis
    using hover_inv_schedule_after_clear [OF wf nh] hover_inv_no_hover [OF wf nh]
    by (auto simp: sidebar_mouseenter_def Let_def deref_def split: option.splits)
qed

lemma hover_inv_leave:
  assumes "hover_inv s" shows "hover_inv (st_of (sidebar_mouseleave e s))"
proof -
  let ?s1 = "clear_timeout (hoverTimeout s) (s\<lparr>isHoveringSidebar := False\<rparr>)"
  have wf: "timers_wf ?s1" using assms by (simp add: hover_inv_def timers_wf_hovering)
  have nh: "\<forall>(i, _, cb) \<in> set (timers ?s1). \<not> hover_cb cb" using assms by (rule clear_hover_none)
  show ?thesis
    using hover_inv_schedule_after_clear [OF wf nh] hover_inv_no_hover [OF wf nh]
    by (auto simp: sidebar_mouseleave_def Let_def deref_def split: option.splits)
qed

lemma pending_hover_le1:
  assumes "hover_inv s" shows "length (pending_hover s) \<le> 1"
proof -
  have d: "distinct (map fst (timers s))" and h: "\<forall>(i, _, cb) \<in> set (timers s). hover_cb cb \<longrightarrow> hoverTimeout s = Some i"
    using assms by (auto simp: hover_inv_def timers_wf_def)
  have dp: "distinct (map fst (pending_hover s))"
    using d by (simp add: pending_hover_def distinct_map_filter)
  have "set (map fst (pending_hover s)) \<subseteq> {the (hoverTimeout s)}"
    using h by (force simp: pending_hover_def)
  then have "card (set (map fst (pending_hover s))) \<le> card {the (hoverTimeout s)}"
    by (rule card_mono [rotated]) simp
  then have "card (set (map fst (pending_hover s))) \<le> 1" by simp
  moreover have "card (set (map fst (pending_hover s))) = length (pending_hover s)"
    using distinct_card [OF dp] by simp
  ultimately show ?thesis by simp
qed

lemma sidebar_mouseenter_norm:
  assumes "sidebar s = Some b"
  shows "\<exists>s1. sidebar_mouseenter s = Norm s1 \<and> doc s1 = doc s \<and> sidebar s1 = Some b"
proof (cases "currentLayout s = Some ''icons'' \<and> \<not> has_class (doc s) b ''layout-full''")
  case True
  then show ?thesis using assms by (simp add: sidebar_mouseenter_def)
next
  case False
  then show ?thesis using assms by (auto simp: sidebar_mouseenter_def Let_def)
qed

lemma sidebar_mouseleave_eq:
  assumes "sidebar s = Some b"
  shows "sidebar_mouseleave e s =
           Norm (if \<not> contains (doc s) b (e_related e) \<and> e_related e \<noteq> Some b
                 then schedule_hover CB_hoverCollapse 300 (clear_timeout (hoverTimeout s) (s\<lparr>isHoveringSidebar := False\<rparr>))
                 else clear_timeout (hoverTimeout s) (s\<lparr>isHoveringSidebar := False\<rparr>))"
  using assms by (simp add: sidebar_mouseleave_def)

lemma no_expand_after_leave:
  assumes "\<forall>(i, _, cb) \<in> set (timers s). \<not> hover_cb cb"
  shows "\<forall>(i, t, cb) \<in> set (timers (if P then schedule_hover CB_hoverCollapse d s else s)). cb \<noteq> CB_hoverExpand"
  using assms by (auto simp: hover_cb_def)


section \<open>Properties of auto-hover\<close>

text \<open>C11. Entering the sidebar and leaving it again before any timer fires
  leaves no expansion callback pending and no class changed, and keeps the
  hover invariant: the expansion scheduled by the entry is cancelled by the
  exit (spec testable property 6).\<close>

lemma enter_leave_cancels:
  assumes inv: "hover_inv s" and sb: "sidebar s = Some b"
  shows "\<exists>s1 s2. sidebar_mouseenter s = Norm s1 \<and> sidebar_mouseleave e s1 = Norm s2 \<and>
           doc s2 = doc s \<and> (\<forall>(i, t, cb) \<in> set (timers s2). cb \<noteq> CB_hoverExpand) \<and> hover_inv s2"
proof -
  obtain s1 where e1: "sidebar_mouseenter s = Norm s1" and d1: "doc s1 = doc s" and sb1: "sidebar s1 = Some b"
    using sidebar_mouseenter_norm [OF sb] by blast
  have inv1: "hover_inv s1" using hover_inv_enter [OF inv] e1 by simp
  let ?c = "clear_timeout (hoverTimeout s1) (s1\<lparr>isHoveringSidebar := False\<rparr>)"
  have nh: "\<forall>(i, _, cb) \<in> set (timers ?c). \<not> hover_cb cb" using inv1 by (rule clear_hover_none)
  let ?s2 = "if \<not> contains (doc s1) b (e_related e) \<and> e_related e \<noteq> Some b
             then schedule_hover CB_hoverCollapse 300 ?c else ?c"
  have e2: "sidebar_mouseleave e s1 = Norm ?s2" by (rule sidebar_mouseleave_eq [OF sb1])
  have d2: "doc ?s2 = doc s1" by simp
  have t2: "\<forall>(i, t, cb) \<in> set (timers ?s2). cb \<noteq> CB_hoverExpand"
    using no_expand_after_leave [OF nh] .
  have i2: "hover_inv ?s2" using hover_inv_leave [OF inv1, of e] unfolding e2 by simp
  have d: "doc ?s2 = doc s" using d1 d2 by simp
  show ?thesis
    by (rule exI [of _ s1], rule exI [of _ ?s2]) (intro conjI e1 e2 d t2 i2)
qed

text \<open>C12. Entering the sidebar in the icons layout, when it does not show
  \<open>layout-full\<close>, leaves exactly one hover callback pending: the expansion,
  due 150 ms from now, under the id \<open>hoverTimeout\<close> records.\<close>

lemma sidebar_mouseenter_icons:
  assumes inv: "hover_inv s" and lay: "currentLayout s = Some ''icons''" and sb: "sidebar s = Some b"
    and nf: "\<not> has_class (doc s) b ''layout-full''"
  shows "\<exists>s'. sidebar_mouseenter s = Norm s' \<and> isHoveringSidebar s' \<and>
           pending_hover s' = [(next_timer s, clock s + 150, CB_hoverExpand)] \<and>
           hoverTimeout s' = Some (next_timer s) \<and> doc s' = doc s"
proof -
  let ?s1 = "clear_timeout (hoverTimeout s) (s\<lparr>isHoveringSidebar := True\<rparr>)"
  have nh: "\<forall>(i, _, cb) \<in> set (timers ?s1). \<not> hover_cb cb" using inv by (rule clear_hover_none)
  then have "pending_hover ?s1 = []" by (auto simp: pending_hover_def filter_empty_conv)
  then show ?thesis using lay sb nf
    by (simp add: sidebar_mouseenter_def Let_def pending_hover_def hover_cb_def clear_timeout_def
        schedule_hover_def set_timeout_def)
qed


text \<open>C13. The 300 ms callback removes \<open>layout-full-temp\<close> from the sidebar
  and closes every submenu when the class is there, and changes nothing
  otherwise.\<close>

lemma hoverCollapse_spec:
  assumes sb: "sidebar s = Some b"
  shows "\<exists>s'. hoverCollapse s = Norm s' \<and>
           (has_class (doc s) b ''layout-full-temp'' \<longrightarrow>
              \<not> has_class (doc s') b ''layout-full-temp'' \<and>
              (\<forall>j. has_class (doc s) j ''has-sub'' \<longrightarrow> \<not> has_class (doc s') j ''open'')) \<and>
           (\<not> has_class (doc s) b ''layout-full-temp'' \<longrightarrow> s' = s)"
  using sb by (auto simp: hoverCollapse_def closeAllSubmenus_classes has_class_remove)

text \<open>C14. The 150 ms callback adds \<open>layout-full-temp\<close> to the sidebar
  whatever the layout is when it fires, \<open>full\<close> included, and does not
  change the layout: it does not re-check the pointer or the layout.\<close>

lemma hoverExpand_any_layout:
  assumes sb: "sidebar s = Some b" and rng: "b < length (doc s)"
  shows "\<exists>s'. hoverExpand s = Norm s' \<and> has_class (doc s') b ''layout-full-temp'' \<and>
           currentLayout s' = currentLayout s"
  using assms by (simp add: hoverExpand_def has_class_add)

end
