(* ===== verification/Polos.thy ===== *)
theory Polos
  imports Layout
begin

text \<open>
  Integration with the external Polos framework and the public methods
  (src/aset/js/admin-polos.js lines 205-288). The framework is a
  collaborator: the model records its subscriptions (\<open>Polos.on\<close>) and the
  calls made to it (\<open>Polos.setLoading\<close>, and \<open>alert\<close>) in the world's effect
  log, and does not model what it does with them. Each call of
  \<open>enhanceInteractiveElements\<close> creates new arrow functions, so its listeners
  carry the number of the call (\<open>closure_gen\<close>) and are never the same
  listener twice.
\<close>

definition emit :: "effect \<Rightarrow> st \<Rightarrow> st" where
  "emit fx s = s\<lparr>effects := effects s @ [fx]\<rparr>"

definition chart :: load_target where
  "chart = Selector ''#chartContainer''"

text \<open>\<open>enhanceInteractiveElements()\<close>, lines 220-266.\<close>

definition enhanceInteractiveElements :: "st \<Rightarrow> st" where
  "enhanceInteractiveElements s =
     (let g = closure_gen s; d = doc s;
          s1 = fold (\<lambda>el s. add_listener (Elt el) ''click'' (H_interactive g) s)
                 (query_all d (sel_class ''js-interactive'')) (s\<lparr>closure_gen := Suc g\<rparr>);
          s2 = fold (\<lambda>c s. add_listener (Elt c) ''click'' (H_stats g) s) (query_all d (sel_attr ''data-stats'')) s1;
          s3 = (case get_element_by_id d ''exportBtn'' of
                  Some b \<Rightarrow> add_listener (Elt b) ''click'' (H_export g) s2 | None \<Rightarrow> s2)
      in fold (\<lambda>b s. add_listener (Elt b) ''click'' (H_period g) s) (query_all d (sel_attr ''data-period'')) s3)"

text \<open>The click listener of a \<open>.js-interactive\<close> element, lines 223-228: it
  starts the loading state on the element and schedules its end.\<close>

definition interactive_click :: "evt \<Rightarrow> st \<Rightarrow> st" where
  "interactive_click e s =
     (if polos s then snd (set_timeout CB_stopLoading 1000 (emit (SetLoading (Element (e_current e)) True None) s))
      else s)"

text \<open>The listener of a \<open>[data-stats]\<close> card, lines 233-236, only logs; the
  listener of \<open>#exportBtn\<close>, lines 242-250; the listener of a \<open>[data-period]\<close>
  button, lines 255-264 (\<open>getAttribute\<close> yields \<open>null\<close>, printed \<open>null\<close>, for a
  button that lost the attribute).\<close>

definition stats_click :: "evt \<Rightarrow> st \<Rightarrow> st res" where
  "stats_click e s = deref ''getAttribute'' (e_current e) (\<lambda>c s. Norm s) s"

definition export_click :: "st \<Rightarrow> st" where
  "export_click s =
     (if polos s then snd (set_timeout CB_exportDone 2000 (emit (SetLoading chart True (Some ''Generating report...'')) s))
      else s)"

definition period_click :: "evt \<Rightarrow> st \<Rightarrow> st res" where
  "period_click e s = deref ''getAttribute'' (e_current e) (\<lambda>c s.
     let period = (case get_attr (doc s) c ''data-period'' of Some p \<Rightarrow> p | None \<Rightarrow> ''null'') in
     Norm (if polos s
           then snd (set_timeout CB_periodDone 1000
                  (emit (SetLoading chart True (Some (''Loading '' @ period @ '' data...''))) s))
           else s)) s"

text \<open>The timer callbacks. The one of line 226 reads \<open>e.currentTarget\<close>
  when it fires, after the dispatch of the click has ended, when the DOM has
  reset it to \<open>null\<close>: it stops the loading state of \<open>null\<close>.\<close>

definition cb_stopLoading :: "st \<Rightarrow> st" where
  "cb_stopLoading s = emit (SetLoading (Element None) False None) s"

definition cb_exportDone :: "st \<Rightarrow> st" where
  "cb_exportDone s = emit (Alert ''Report exported successfully!'') (emit (SetLoading chart False None) s)"

definition cb_periodDone :: "st \<Rightarrow> st" where
  "cb_periodDone s = emit (SetLoading chart False None) s"

text \<open>\<open>setupPolosEvents()\<close>, lines 268-274, and the \<open>initialized\<close> callback
  of lines 208-211.\<close>

definition setupPolosEvents :: "st \<Rightarrow> st" where
  "setupPolosEvents s =
     (if polos s then s\<lparr>polos_subs := polos_subs s @ [(''screenChange'', H_screenChange)]\<rparr> else s)"

definition polos_initialized :: "st \<Rightarrow> st" where
  "polos_initialized s = setupPolosEvents (enhanceInteractiveElements s)"

text \<open>\<open>setupPolosIntegration()\<close>, lines 205-218: subscribe when the framework
  is loaded, otherwise enhance the elements after 100 ms (\<open>cb_fallbackInit\<close>).\<close>

definition setupPolosIntegration :: "st \<Rightarrow> st" where
  "setupPolosIntegration s =
     (if polos s then s\<lparr>polos_subs := polos_subs s @ [(''initialized'', H_polosInitialized)]\<rparr>
      else snd (set_timeout CB_fallbackInit 100 s))"

definition cb_fallbackInit :: "st \<Rightarrow> st" where
  "cb_fallbackInit s = enhanceInteractiveElements s"

text \<open>The public methods, lines 277-288.\<close>

definition refresh :: "st \<Rightarrow> st" where
  "refresh s = enhanceInteractiveElements (setupSubmenuToggle s)"

definition getCurrentLayout :: "st \<Rightarrow> jsstr" where
  "getCurrentLayout s = currentLayout s"

definition setLayoutManually :: "jsstr \<Rightarrow> st \<Rightarrow> st res" where
  "setLayoutManually l s = setLayout l s"

text \<open>The number of click listeners on an element that satisfy a test on the
  closure.\<close>

definition click_listeners :: "(handler \<Rightarrow> bool) \<Rightarrow> eid \<Rightarrow> st \<Rightarrow> nat" where
  "click_listeners P el s = length (filter (\<lambda>(t, ty, h). t = Elt el \<and> ty = ''click'' \<and> P h) (listeners s))"

primrec is_interactive :: "handler \<Rightarrow> bool" where
  "is_interactive H_toggleSidebar = False" | "is_interactive H_closeMobile = False"
| "is_interactive H_userMenu = False" | "is_interactive H_outsideClick = False"
| "is_interactive H_resize = False" | "is_interactive H_changeLayout = False"
| "is_interactive H_mouseenter = False" | "is_interactive H_mouseleave = False"
| "is_interactive H_submenuClick = False" | "is_interactive (H_interactive g) = True"
| "is_interactive (H_stats g) = False" | "is_interactive (H_export g) = False"
| "is_interactive (H_period g) = False" | "is_interactive H_polosInitialized = False"
| "is_interactive H_screenChange = False" | "is_interactive H_domReady = False"

primrec closure_of :: "handler \<Rightarrow> nat option" where
  "closure_of H_toggleSidebar = None" | "closure_of H_closeMobile = None"
| "closure_of H_userMenu = None" | "closure_of H_outsideClick = None"
| "closure_of H_resize = None" | "closure_of H_changeLayout = None"
| "closure_of H_mouseenter = None" | "closure_of H_mouseleave = None"
| "closure_of H_submenuClick = None" | "closure_of (H_interactive g) = Some g"
| "closure_of (H_stats g) = Some g" | "closure_of (H_export g) = Some g"
| "closure_of (H_period g) = Some g" | "closure_of H_polosInitialized = None"
| "closure_of H_screenChange = None" | "closure_of H_domReady = None"

abbreviation submenu_links :: "document \<Rightarrow> eid list" where
  "submenu_links d \<equiv> query_all d (sel_child ''has-sub'' (sel_tag ''a''))"

text \<open>Every per-call closure registered so far comes from an earlier call.\<close>

definition closures_fresh :: "st \<Rightarrow> bool" where
  "closures_fresh s \<longleftrightarrow> (\<forall>(t, ty, h) \<in> set (listeners s). \<forall>g. closure_of h = Some g \<longrightarrow> g < closure_gen s)"

section \<open>Lemmas\<close>

lemma listeners_add_count:
  "count_list (listeners (add_listener t ty h s)) x =
     count_list (listeners s) x + (if x = (t, ty, h) \<and> (t, ty, h) \<notin> set (listeners s) then 1 else 0)"
  by (auto simp: add_listener_def)

lemma listeners_remove_count:
  "count_list (listeners (remove_listener t ty h s)) x = (if x = (t, ty, h) then 0 else count_list (listeners s) x)"
  by (simp add: remove_listener_def)

lemma click_listeners_add:
  "click_listeners P el (add_listener t ty h s) =
     click_listeners P el s + (if t = Elt el \<and> ty = ''click'' \<and> P h \<and> (t, ty, h) \<notin> set (listeners s) then 1 else 0)"
  by (auto simp: click_listeners_def add_listener_def)

lemma add_listener_fields [simp]:
  "doc (add_listener t ty h s) = doc s" "closure_gen (add_listener t ty h s) = closure_gen s"
  "polos (add_listener t ty h s) = polos s" "timers (add_listener t ty h s) = timers s"
  "currentLayout (add_listener t ty h s) = currentLayout s" "sidebar (add_listener t ty h s) = sidebar s"
  "set (listeners (add_listener t ty h s)) = insert (t, ty, h) (set (listeners s))"
  by (auto simp: add_listener_def)

lemma remove_listener_fields [simp]:
  "doc (remove_listener t ty h s) = doc s" "closure_gen (remove_listener t ty h s) = closure_gen s"
  by (simp_all add: remove_listener_def)

text \<open>A \<open>forEach\<close> that registers one closure on each element of a list of
  distinct elements, none of which has it yet, adds one listener per element.\<close>

lemma click_listeners_fold_add:
  assumes "distinct xs" and "\<forall>x \<in> set xs. (Elt x, ''click'', h) \<notin> set (listeners s)"
  shows "click_listeners P el (fold (\<lambda>x s. add_listener (Elt x) ''click'' h s) xs s) =
           click_listeners P el s + (if el \<in> set xs \<and> P h then 1 else 0)"
  using assms
proof (induction xs arbitrary: s)
  case Nil
  then show ?case by simp
next
  case (Cons x xs)
  let ?s1 = "add_listener (Elt x) ''click'' h s"
  have "\<forall>y \<in> set xs. (Elt y, ''click'', h) \<notin> set (listeners ?s1)"
    using Cons.prems by auto
  then have "click_listeners P el (fold (\<lambda>x s. add_listener (Elt x) ''click'' h s) xs ?s1) =
               click_listeners P el ?s1 + (if el \<in> set xs \<and> P h then 1 else 0)"
    using Cons.prems(1) by (intro Cons.IH) auto
  then show ?case using Cons.prems by (auto simp: click_listeners_add)
qed

lemma click_listeners_fold_other:
  assumes "\<not> P h"
  shows "click_listeners P el (fold (\<lambda>x s. add_listener (Elt x) ''click'' h s) xs s) = click_listeners P el s"
  using assms by (induction xs arbitrary: s) (auto simp: click_listeners_add)

lemma fold_add_listener_fields [simp]:
  "doc (fold (\<lambda>x s. add_listener (Elt x) ty h s) xs s) = doc s"
  "closure_gen (fold (\<lambda>x s. add_listener (Elt x) ty h s) xs s) = closure_gen s"
  by (induction xs arbitrary: s) simp_all

lemma click_listeners_gen [simp]:
  "click_listeners P el (s\<lparr>closure_gen := g\<rparr>) = click_listeners P el s"
  by (simp add: click_listeners_def)

lemma rebind_count:
  "count_list (listeners (add_listener (Elt x) ''click'' H_submenuClick (remove_listener (Elt x) ''click'' H_submenuClick s)))
      (Elt l, ''click'', H_submenuClick) =
   (if x = l then 1 else count_list (listeners s) (Elt l, ''click'', H_submenuClick))"
proof -
  have "(Elt x, ''click'', H_submenuClick) \<notin> set (listeners (remove_listener (Elt x) ''click'' H_submenuClick s))"
    by (simp add: remove_listener_def)
  then show ?thesis by (simp add: listeners_add_count listeners_remove_count)
qed

lemma fold_rebind:
  "count_list (listeners (fold (\<lambda>l s. add_listener (Elt l) ''click'' H_submenuClick
                   (remove_listener (Elt l) ''click'' H_submenuClick s)) xs s)) (Elt l, ''click'', H_submenuClick) =
   (if l \<in> set xs then 1 else count_list (listeners s) (Elt l, ''click'', H_submenuClick))"
  by (induction xs arbitrary: s) (auto simp: rebind_count)

lemma fold_rebind_doc:
  "doc (fold (\<lambda>l s. add_listener (Elt l) ''click'' H_submenuClick
              (remove_listener (Elt l) ''click'' H_submenuClick s)) xs s) = doc s"
  by (induction xs arbitrary: s) (simp_all add: add_listener_def remove_listener_def)

lemma setupSubmenuToggle_doc [simp]: "doc (setupSubmenuToggle s) = doc s"
  by (simp add: setupSubmenuToggle_def fold_rebind_doc)

lemma fold_add_count_other:
  "h \<noteq> h' \<Longrightarrow> count_list (listeners (fold (\<lambda>x s. add_listener (Elt x) ''click'' h s) xs s)) (t, ty, h') =
     count_list (listeners s) (t, ty, h')"
  by (induction xs arbitrary: s) (auto simp: listeners_add_count)

lemma enhance_submenu_count:
  "count_list (listeners (enhanceInteractiveElements s)) (Elt l, ''click'', H_submenuClick) =
   count_list (listeners s) (Elt l, ''click'', H_submenuClick)"
  by (simp add: enhanceInteractiveElements_def Let_def fold_add_count_other listeners_add_count
      split: option.splits)

lemma enhance_doc [simp]: "doc (enhanceInteractiveElements s) = doc s"
  by (simp add: enhanceInteractiveElements_def Let_def split: option.splits)

lemma refresh_doc [simp]: "doc (refresh s) = doc s"
  by (simp add: refresh_def)


lemma set_add_listener [simp]:
  "set (listeners (add_listener t ty h w)) = insert (t, ty, h) (set (listeners w))"
  by (auto simp: add_listener_def)

lemma set_fold_add_listener:
  "set (listeners (fold (\<lambda>x s. add_listener (Elt x) ty h s) xs s)) =
     set (listeners s) \<union> (\<lambda>x. (Elt x, ty, h)) ` set xs"
  by (induction xs arbitrary: s) auto

text \<open>The closures one call of \<open>enhanceInteractiveElements\<close> creates carry
  its generation, which the call retires.\<close>

lemma closures_fresh_enhance:
  assumes "closures_fresh s" shows "closures_fresh (enhanceInteractiveElements s)"
proof -
  have "\<forall>(t, ty, h) \<in> set (listeners (enhanceInteractiveElements s)).
          (t, ty, h) \<in> set (listeners s) \<or> closure_of h = Some (closure_gen s)"
    by (auto simp: enhanceInteractiveElements_def Let_def set_fold_add_listener split: option.splits)
  moreover have "closure_gen (enhanceInteractiveElements s) = Suc (closure_gen s)"
    by (simp add: enhanceInteractiveElements_def Let_def split: option.splits)
  ultimately show ?thesis using assms by (fastforce simp: closures_fresh_def)
qed

section \<open>Properties of the integration and the public methods\<close>

text \<open>C15. Every call of \<open>enhanceInteractiveElements\<close> adds one more
  loading listener to each \<open>.js-interactive\<close> element: after \<open>refresh()\<close>
  (or the framework's \<open>initialized\<close> event) on an already enhanced page, one
  click triggers the loading feedback once per call made so far.\<close>

lemma enhance_interactive_count:
  assumes fresh: "closures_fresh s" and el: "has_class (doc s) el ''js-interactive''"
  shows "click_listeners is_interactive el (enhanceInteractiveElements s) = Suc (click_listeners is_interactive el s)"
proof -
  let ?g = "closure_gen s" and ?d = "doc s"
  let ?xs = "query_all ?d (sel_class ''js-interactive'')"
  let ?s0 = "s\<lparr>closure_gen := Suc ?g\<rparr>"
  let ?s1 = "fold (\<lambda>el s. add_listener (Elt el) ''click'' (H_interactive ?g) s) ?xs ?s0"
  have nf: "\<forall>x \<in> set ?xs. (Elt x, ''click'', H_interactive ?g) \<notin> set (listeners ?s0)"
    using fresh by (fastforce simp: closures_fresh_def)
  have mem: "el \<in> set ?xs" using el by (simp add: sel_class_def has_class_in_range)
  have c1: "click_listeners is_interactive el ?s1 = Suc (click_listeners is_interactive el s)"
    using click_listeners_fold_add [OF distinct_query_all nf, of is_interactive el] mem by simp
  let ?s2 = "fold (\<lambda>c s. add_listener (Elt c) ''click'' (H_stats ?g) s) (query_all ?d (sel_attr ''data-stats'')) ?s1"
  have c2: "click_listeners is_interactive el ?s2 = click_listeners is_interactive el ?s1"
    by (rule click_listeners_fold_other) simp
  let ?s3 = "case get_element_by_id ?d ''exportBtn'' of Some b \<Rightarrow> add_listener (Elt b) ''click'' (H_export ?g) ?s2 | None \<Rightarrow> ?s2"
  have c3: "click_listeners is_interactive el ?s3 = click_listeners is_interactive el ?s2"
    by (simp add: click_listeners_add split: option.splits)
  have c4: "click_listeners is_interactive el
              (fold (\<lambda>b s. add_listener (Elt b) ''click'' (H_period ?g) s) (query_all ?d (sel_attr ''data-period'')) ?s3)
            = click_listeners is_interactive el ?s3"
    by (rule click_listeners_fold_other) simp
  show ?thesis using c1 c2 c3 c4 by (simp add: enhanceInteractiveElements_def Let_def)
qed



text \<open>C16. \<open>refresh()\<close> leaves exactly one \<open>handleSubmenuClick\<close> listener on
  each \<open>.has-sub > a\<close> link, however often it runs: the class field is one
  function object and \<open>setupSubmenuToggle\<close> removes it before adding it.\<close>

lemma refresh_one_submenu_listener:
  assumes "l \<in> set (submenu_links (doc s))"
  shows "count_list (listeners (refresh s)) (Elt l, ''click'', H_submenuClick) = 1 \<and>
         count_list (listeners (refresh (refresh s))) (Elt l, ''click'', H_submenuClick) = 1"
  using assms by (simp add: refresh_def enhance_submenu_count setupSubmenuToggle_def fold_rebind)


text \<open>C17. With the framework loaded, a click on a \<open>.js-interactive\<close> element
  starts the loading state on that element and schedules, 1000 ms later, a
  stop of the loading state of \<open>null\<close>: the stop never names the element.\<close>

lemma interactive_loading_not_cleared:
  assumes "polos s" and "e_current e = Some el"
  shows "timers (interactive_click e s) = timers s @ [(next_timer s, clock s + 1000, CB_stopLoading)] \<and>
         effects (cb_stopLoading (interactive_click e s)) =
           effects s @ [SetLoading (Element (Some el)) True None, SetLoading (Element None) False None]"
  using assms by (simp add: interactive_click_def cb_stopLoading_def emit_def set_timeout_def)


text \<open>C18. With the framework loaded, \<open>setupPolosIntegration\<close> subscribes to
  its \<open>initialized\<close> event and schedules nothing; without it, it schedules
  the fallback enhancement 100 ms from now and subscribes to nothing.\<close>

lemma setupPolosIntegration_spec:
  "(polos s \<longrightarrow> polos_subs (setupPolosIntegration s) = polos_subs s @ [(''initialized'', H_polosInitialized)] \<and>
                timers (setupPolosIntegration s) = timers s) \<and>
   (\<not> polos s \<longrightarrow> timers (setupPolosIntegration s) = timers s @ [(next_timer s, clock s + 100, CB_fallbackInit)] \<and>
                  polos_subs (setupPolosIntegration s) = polos_subs s)"
  by (simp add: setupPolosIntegration_def set_timeout_def)

end
