(* ===== verification/Controller.thy ===== *)
theory Controller
  imports Dropdown Hover Polos
begin

text \<open>
  Construction of the controller and the event loop around it
  (src/aset/js/admin-polos.js lines 9-53 and 290-294). The constructor reads
  the five elements by id and the layout buttons, then \<open>init\<close> registers the
  listeners, applies the layout, sets up auto-hover and the framework
  integration; \<open>DOMContentLoaded\<close> assigns the instance to
  \<open>window.adminPolos\<close>. An exception in the constructor leaves the listeners
  registered before it in place, and they keep acting on the partly built
  instance, so a thrown construction still yields a live state.

  The browser side is a step function on events: a click is dispatched along
  the target's ancestor chain, then to the document and the window, each
  target running its click listeners in registration order; a listener that
  called \<open>stopPropagation\<close> ends the dispatch after its target; an exception
  escaping a listener or a timer callback is reported and the dispatch goes
  on. A tick runs the timer due first.
\<close>

type_synonym page = "(handler, callback) world"

text \<open>\<open>setupEventListeners()\<close>, lines 33-53.\<close>

definition setupEventListeners :: "st \<Rightarrow> st res" where
  "setupEventListeners s =
     bind_res (deref ''addEventListener'' (sidebarToggle s)
                 (\<lambda>t s. Norm (add_listener (Elt t) ''click'' H_toggleSidebar s)) s) (\<lambda>s.
     bind_res (deref ''addEventListener'' (overlay s)
                 (\<lambda>ov s. Norm (add_listener (Elt ov) ''click'' H_closeMobile s)) s) (\<lambda>s.
     bind_res (deref ''addEventListener'' (userMenu s)
                 (\<lambda>u s. Norm (add_listener (Elt u) ''click'' H_userMenu s)) s) (\<lambda>s.
     Norm (fold (\<lambda>b s. add_listener (Elt b) ''click'' H_changeLayout s) (layoutButtons s)
             (add_listener Win ''resize'' H_resize (add_listener Doc ''click'' H_outsideClick s))))))"

text \<open>\<open>init()\<close>, lines 24-31 (the console message is not modelled).\<close>

definition init :: "st \<Rightarrow> st res" where
  "init s =
     bind_res (setupEventListeners s) (\<lambda>s.
     bind_res (setupLayoutSystem s) (\<lambda>s.
     bind_res (setupAutoHover s) (\<lambda>s.
     Norm (setupPolosIntegration s))))"

text \<open>\<open>new AdminPolos()\<close>, constructor lines 9-22: the fields are read from the
  page, then \<open>init\<close> runs.\<close>

definition new_AdminPolos :: "page \<Rightarrow> st res" where
  "new_AdminPolos w =
     (let d = doc w in
      init (world.extend w
        (st.fields (get_element_by_id d ''sidebar'') (get_element_by_id d ''sidebarToggle'')
           (get_element_by_id d ''overlay'') (get_element_by_id d ''userMenu'')
           (get_element_by_id d ''userDropdown'') (query_all d (sel_class ''layout-btn''))
           None False (Some ''full'') 0 False)))"

text \<open>The \<open>DOMContentLoaded\<close> listener, lines 292-294: the assignment to
  \<open>window.adminPolos\<close> happens only when the constructor returns.\<close>

definition domContentLoaded :: "page \<Rightarrow> st res" where
  "domContentLoaded w =
     (case new_AdminPolos w of Norm s \<Rightarrow> Norm (s\<lparr>adminPolos := True\<rparr>) | Thrown e s \<Rightarrow> Thrown e s)"

text \<open>The page after the script has run (lines 292-297): one listener on the
  document, no timers yet.\<close>

definition page_load :: "document \<Rightarrow> (string \<rightharpoonup> string) \<Rightarrow> int \<Rightarrow> bool \<Rightarrow> page" where
  "page_load d store w p =
     \<lparr>doc = d, storage = store, innerWidth = w,
      listeners = [(Doc, ''DOMContentLoaded'', H_domReady)], timers = [], next_timer = 1, clock = 0,
      polos = p, polos_subs = [], effects = [], ev_stopped = False, ev_prevented = False\<rparr>"

section \<open>Dispatch\<close>

text \<open>What each registered closure runs. \<open>H_domReady\<close> fires once, before
  any instance exists (\<open>domContentLoaded\<close>); the \<open>screenChange\<close> callback only
  logs.\<close>

primrec run_handler :: "handler \<Rightarrow> evt \<Rightarrow> st \<Rightarrow> st res" where
  "run_handler H_toggleSidebar e s = toggleSidebar s"
| "run_handler H_closeMobile e s = closeMobileSidebar s"
| "run_handler H_userMenu e s = toggleUserDropdown e s"
| "run_handler H_outsideClick e s = handleOutsideClick e s"
| "run_handler H_resize e s = handleResize s"
| "run_handler H_changeLayout e s = changeLayout e s"
| "run_handler H_mouseenter e s = sidebar_mouseenter s"
| "run_handler H_mouseleave e s = sidebar_mouseleave e s"
| "run_handler H_submenuClick e s = handleSubmenuClick e s"
| "run_handler (H_interactive g) e s = Norm (interactive_click e s)"
| "run_handler (H_stats g) e s = stats_click e s"
| "run_handler (H_export g) e s = Norm (export_click s)"
| "run_handler (H_period g) e s = period_click e s"
| "run_handler H_polosInitialized e s = Norm (polos_initialized s)"
| "run_handler H_screenChange e s = Norm s"
| "run_handler H_domReady e s = Norm s"

primrec run_callback :: "callback \<Rightarrow> st \<Rightarrow> st res" where
  "run_callback CB_hoverExpand s = hoverExpand s"
| "run_callback CB_hoverCollapse s = hoverCollapse s"
| "run_callback CB_fallbackInit s = Norm (cb_fallbackInit s)"
| "run_callback CB_stopLoading s = Norm (cb_stopLoading s)"
| "run_callback CB_exportDone s = Norm (cb_exportDone s)"
| "run_callback CB_periodDone s = Norm (cb_periodDone s)"

text \<open>An exception that escapes a listener is reported; the host goes on.\<close>

definition settle :: "st res \<Rightarrow> st" where
  "settle r = (case r of Norm s \<Rightarrow> s | Thrown e s \<Rightarrow> s\<lparr>effects := effects s @ [ReportError e]\<rparr>)"

definition current_of :: "target \<Rightarrow> eid option" where
  "current_of t = (case t of Elt x \<Rightarrow> Some x | _ \<Rightarrow> None)"

definition handlers_at :: "target \<Rightarrow> string \<Rightarrow> st \<Rightarrow> handler list" where
  "handlers_at t ty s = map (\<lambda>(_, _, h). h) (filter (\<lambda>(t', ty', _). t' = t \<and> ty' = ty) (listeners s))"

text \<open>The listeners of one target, as registered when the event reaches it.\<close>

definition fire :: "target \<Rightarrow> string \<Rightarrow> evt \<Rightarrow> st \<Rightarrow> st" where
  "fire t ty e s =
     fold (\<lambda>h s. settle (run_handler h (e\<lparr>e_current := current_of t\<rparr>) s)) (handlers_at t ty s) s"

fun propagate :: "target list \<Rightarrow> string \<Rightarrow> evt \<Rightarrow> st \<Rightarrow> st" where
  "propagate [] ty e s = s"
| "propagate (t # ts) ty e s = (let s' = fire t ty e s in if ev_stopped s' then s' else propagate ts ty e s')"

text \<open>The element and its ancestors, innermost first; the number of nodes
  is enough fuel in a well-formed document.\<close>

fun anc_path :: "nat \<Rightarrow> document \<Rightarrow> eid \<Rightarrow> eid list" where
  "anc_path 0 d i = [i]"
| "anc_path (Suc n) d i = i # (case parent_of d i of Some p \<Rightarrow> anc_path n d p | None \<Rightarrow> [])"

definition click_path :: "document \<Rightarrow> eid \<Rightarrow> target list" where
  "click_path d i = map Elt (anc_path (length d) d i) @ [Doc, Win]"

definition new_event :: "st \<Rightarrow> st" where
  "new_event s = s\<lparr>ev_stopped := False, ev_prevented := False\<rparr>"

definition dispatch_click :: "eid \<Rightarrow> st \<Rightarrow> st" where
  "dispatch_click i s =
     propagate (click_path (doc s) i) ''click''
       \<lparr>e_target = Some i, e_current = None, e_related = None\<rparr> (new_event s)"

text \<open>The timer due first: the earliest due time, and among equal ones the
  earliest scheduled (\<open>sort_key\<close> is stable and timers are kept in the order
  they were set).\<close>

definition next_due :: "st \<Rightarrow> (nat \<times> nat \<times> callback) option" where
  "next_due s = (case sort_key (\<lambda>(_, t, _). t) (timers s) of [] \<Rightarrow> None | x # _ \<Rightarrow> Some x)"

definition tick :: "st \<Rightarrow> st" where
  "tick s = (case next_due s of None \<Rightarrow> s
     | Some (i, t, cb) \<Rightarrow>
         settle (run_callback cb (s\<lparr>timers := filter (\<lambda>(j, _, _). j \<noteq> i) (timers s),
                                    clock := max (clock s) t\<rparr>)))"

text \<open>The framework emitting one of its events to its subscribers.\<close>

definition polos_emit :: "string \<Rightarrow> st \<Rightarrow> st" where
  "polos_emit name s =
     fold (\<lambda>h s. settle (run_handler h \<lparr>e_target = None, e_current = None, e_related = None\<rparr> s))
          (map snd (filter (\<lambda>(n, _). n = name) (polos_subs s))) s"

datatype ui_event =
    Click eid
  | Resize int
  | MouseEnter eid
  | MouseLeave eid "eid option"
  | Tick
  | PolosEvent string
  | CallRefresh
  | CallSetLayout jsstr

primrec step :: "ui_event \<Rightarrow> st \<Rightarrow> st" where
  "step (Click i) s = dispatch_click i s"
| "step (Resize w) s =
     fire Win ''resize'' \<lparr>e_target = None, e_current = None, e_related = None\<rparr> (new_event (s\<lparr>innerWidth := w\<rparr>))"
| "step (MouseEnter i) s =
     fire (Elt i) ''mouseenter'' \<lparr>e_target = Some i, e_current = None, e_related = None\<rparr> (new_event s)"
| "step (MouseLeave i r) s =
     fire (Elt i) ''mouseleave'' \<lparr>e_target = Some i, e_current = None, e_related = r\<rparr> (new_event s)"
| "step Tick s = tick s"
| "step (PolosEvent n) s = polos_emit n s"
| "step CallRefresh s = refresh s"
| "step (CallSetLayout l) s = settle (setLayoutManually l s)"

definition run :: "ui_event list \<Rightarrow> st \<Rightarrow> st" where
  "run evs s = fold step evs s"

text \<open>The states of a loaded page whose controller was constructed without an
  exception, under any sequence of events.\<close>

inductive reachable :: "st \<Rightarrow> bool" where
  start: "domContentLoaded (page_load d store w p) = Norm s \<Longrightarrow> reachable s"
| step: "reachable s \<Longrightarrow> reachable (step ev s)"

section \<open>Invariants of the controller\<close>

text \<open>The fields no DOM-only handler changes: the listener list, the timer
  queue and its counter, the hover handle, the closure generation and the
  element references.\<close>

definition frame_of :: "st \<Rightarrow> (target \<times> string \<times> handler) list \<times> (nat \<times> nat \<times> callback) list \<times> nat \<times>
                         nat option \<times> nat \<times> eid option \<times> eid option \<times> eid option \<times> eid option \<times> eid list" where
  "frame_of s = (listeners s, timers s, next_timer s, hoverTimeout s, closure_gen s, sidebar s,
                 overlay s, userMenu s, userDropdown s, layoutButtons s)"

text \<open>Each node's share of the four layout classes.\<close>

definition layout_view :: "document \<Rightarrow> string set list" where
  "layout_view d = map (\<lambda>n. classes n \<inter> set layout_classes) d"

text \<open>The sidebar shows no layout class other than that of
  \<open>currentLayout\<close>.\<close>

definition layout_ok :: "st \<Rightarrow> bool" where
  "layout_ok s = (case sidebar s of None \<Rightarrow> True
     | Some sb \<Rightarrow> list_all (\<lambda>c. has_class (doc s) sb c \<longrightarrow> c = ''layout-'' @ js_show (currentLayout s)) layout_classes)"

text \<open>A step that changes neither the frame, nor any layout class, nor the
  current layout.\<close>

definition quiet :: "st \<Rightarrow> st \<Rightarrow> bool" where
  "quiet s s' \<longleftrightarrow> frame_of s' = frame_of s \<and> layout_view (doc s') = layout_view (doc s) \<and>
                   currentLayout s' = currentLayout s"

definition ctl_inv :: "st \<Rightarrow> bool" where
  "ctl_inv s \<longleftrightarrow> hover_inv s \<and> distinct (listeners s) \<and> closures_fresh s \<and> layout_ok s"

section \<open>Lemmas\<close>

lemma layout_view_map_classes:
  assumes "\<And>C. f C \<inter> set layout_classes = C \<inter> set layout_classes"
  shows "layout_view (map_classes f i d) = layout_view d"
proof (cases "i < length d")
  case True
  show ?thesis unfolding layout_view_def map_classes_def
    using True assms by (intro nth_equalityI) (auto simp: nth_list_update)
qed (simp add: map_classes_def)

lemma layout_view_ops [simp]:
  "set cs \<inter> set layout_classes = {} \<Longrightarrow> layout_view (remove_classes cs i d) = layout_view d"
  "c \<notin> set layout_classes \<Longrightarrow> layout_view (toggle_class c i d) = layout_view d"
  "c \<notin> set layout_classes \<Longrightarrow> layout_view (toggle_force c b i d) = layout_view d"
  "c \<notin> set layout_classes \<Longrightarrow> layout_view (map_classes (insert c) i d) = layout_view d"
  by (auto simp: remove_classes_def toggle_class_def toggle_force_def split: if_splits intro!: layout_view_map_classes)

lemma layout_view_fold:
  "(\<And>x d. layout_view (g x d) = layout_view d) \<Longrightarrow> layout_view (fold g xs d) = layout_view d"
  by (induction xs arbitrary: d) simp_all

lemma has_class_layout_view:
  assumes "layout_view d' = layout_view d" and "c \<in> set layout_classes"
  shows "has_class d' j c = has_class d j c"
proof -
  have l: "length d' = length d" using arg_cong [OF assms(1), of length] by (simp add: layout_view_def)
  have "j < length d \<Longrightarrow> classes (d' ! j) \<inter> set layout_classes = classes (d ! j) \<inter> set layout_classes"
    using arg_cong [OF assms(1), of "\<lambda>xs. xs ! j"] l by (simp add: layout_view_def)
  then show ?thesis using l assms(2) by (auto simp: has_class_def node_at_def)
qed

lemma quiet_refl [simp]: "quiet s s"
  by (simp add: quiet_def)

lemma quiet_trans: "quiet s s1 \<Longrightarrow> quiet s1 s2 \<Longrightarrow> quiet s s2"
  by (simp add: quiet_def)

lemma hover_inv_cong:
  "timers s' = timers s \<Longrightarrow> next_timer s' = next_timer s \<Longrightarrow> hoverTimeout s' = hoverTimeout s \<Longrightarrow>
   hover_inv s' = hover_inv s"
  by (simp add: hover_inv_def timers_wf_def)

lemma closures_fresh_cong:
  "listeners s' = listeners s \<Longrightarrow> closure_gen s' = closure_gen s \<Longrightarrow> closures_fresh s' = closures_fresh s"
  by (simp add: closures_fresh_def)

lemma layout_ok_cong:
  assumes "sidebar s' = sidebar s" "doc s' = doc s" "currentLayout s' = currentLayout s"
  shows "layout_ok s' = layout_ok s"
  unfolding layout_ok_def assms ..

text \<open>A step that keeps the listeners, the closure generation and what the
  sidebar shows keeps the invariant when it keeps the hover part.\<close>

lemma ctl_inv_hover:
  assumes "ctl_inv s" "hover_inv s'" "listeners s' = listeners s" "closure_gen s' = closure_gen s"
    "sidebar s' = sidebar s" "doc s' = doc s" "currentLayout s' = currentLayout s"
  shows "ctl_inv s'"
  using assms(1,2,3) closures_fresh_cong [OF assms(3,4)] layout_ok_cong [OF assms(5-7)]
  by (simp add: ctl_inv_def)

lemma ctl_inv_same:
  assumes "listeners s' = listeners s" "closure_gen s' = closure_gen s" "timers s' = timers s"
    "next_timer s' = next_timer s" "hoverTimeout s' = hoverTimeout s"
    "sidebar s' = sidebar s" "doc s' = doc s" "currentLayout s' = currentLayout s"
  shows "ctl_inv s' = ctl_inv s"
  using assms(1) hover_inv_cong [OF assms(3-5)] closures_fresh_cong [OF assms(1,2)] layout_ok_cong [OF assms(6-8)]
  by (simp add: ctl_inv_def)

lemma layout_ok_quiet:
  assumes "quiet s s'" shows "layout_ok s' = layout_ok s"
proof -
  have sb: "sidebar s' = sidebar s" and cl: "currentLayout s' = currentLayout s"
    and lv: "layout_view (doc s') = layout_view (doc s)"
    using assms by (simp_all add: quiet_def frame_of_def)
  have "\<And>j. list_all (\<lambda>c. has_class (doc s') j c \<longrightarrow> P c) layout_classes =
             list_all (\<lambda>c. has_class (doc s) j c \<longrightarrow> P c) layout_classes" for P
    using has_class_layout_view [OF lv] by (auto simp: list_all_iff)
  then show ?thesis using sb cl by (simp add: layout_ok_def split: option.splits)
qed

lemma ctl_inv_quiet:
  assumes "quiet s s'" shows "ctl_inv s' = ctl_inv s"
proof -
  have "listeners s' = listeners s" "timers s' = timers s" "next_timer s' = next_timer s"
    "hoverTimeout s' = hoverTimeout s" "closure_gen s' = closure_gen s"
    using assms by (simp_all add: quiet_def frame_of_def)
  then show ?thesis using layout_ok_quiet [OF assms]
    by (simp add: ctl_inv_def hover_inv_def timers_wf_def closures_fresh_def)
qed

text \<open>The DOM-only operations are quiet.\<close>

lemma quiet_closeAllSubmenus [simp]: "quiet s (closeAllSubmenus s)"
  by (simp add: quiet_def frame_of_def closeAllSubmenus_def layout_view_fold layout_classes_def)

lemma quiet_closeOtherSubmenus [simp]: "quiet s (closeOtherSubmenus p s)"
  by (simp add: quiet_def frame_of_def closeOtherSubmenus_def layout_view_fold layout_classes_def)

lemma quiet_sync_layout_buttons [simp]: "quiet s (sync_layout_buttons v s)"
  by (simp add: quiet_def frame_of_def sync_layout_buttons_def layout_view_fold layout_classes_def)

lemma quiet_closeMobileSidebar: "quiet s (st_of (closeMobileSidebar s))"
  by (simp add: quiet_def frame_of_def closeMobileSidebar_def deref_def layout_classes_def split: option.splits)

lemma quiet_toggleUserDropdown: "quiet s (st_of (toggleUserDropdown e s))"
  by (simp add: quiet_def frame_of_def toggleUserDropdown_def deref_def layout_classes_def split: option.splits)

lemma quiet_handleOutsideClick: "quiet s (st_of (handleOutsideClick e s))"
  by (simp add: quiet_def frame_of_def handleOutsideClick_def deref_def layout_classes_def split: option.splits)

lemma quiet_handleResize: "quiet s (st_of (handleResize s))"
  using quiet_closeMobileSidebar by (simp add: handleResize_def)

lemma quiet_handleSubmenuClick: "quiet s (st_of (handleSubmenuClick e s))"
proof -
  have b: "quiet s (st_of (submenu_body e s))" for s
    using quiet_trans [OF _ quiet_closeOtherSubmenus]
    by (simp add: submenu_body_def deref_def Let_def quiet_def frame_of_def layout_classes_def
        split: option.splits)
  show ?thesis using b by (simp add: handleSubmenuClick_def deref_def split: option.splits)
qed

lemma quiet_hoverExpand: "quiet s (st_of (hoverExpand s))"
  by (simp add: quiet_def frame_of_def hoverExpand_def deref_def layout_classes_def split: option.splits)

lemma quiet_hoverCollapse: "quiet s (st_of (hoverCollapse s))"
proof -
  have "quiet s (upd_doc (remove_classes [''layout-full-temp''] b) s)" for b
    by (simp add: quiet_def frame_of_def layout_classes_def)
  then show ?thesis using quiet_trans [OF _ quiet_closeAllSubmenus]
    by (simp add: hoverCollapse_def deref_def split: option.splits)
qed

lemma frame_setLayout: "frame_of (st_of (setLayout v s)) = frame_of s"
  by (auto simp: setLayout_def add_class_def Let_def closeAllSubmenus_def sync_layout_buttons_def
        frame_of_def deref_def split: option.splits sum.splits)

text \<open>After \<open>setLayout\<close> the sidebar shows at most the new layout's class: a
  throw of \<open>classList.add\<close> leaves none of the four.\<close>

lemma layout_ok_setLayout: "layout_ok (st_of (setLayout v s))"
proof (cases "sidebar s")
  case None
  then show ?thesis by (simp add: setLayout_def layout_ok_def)
next
  case (Some sb)
  let ?X = "''layout-'' @ js_show v"
  let ?s1 = "upd_doc (remove_classes layout_classes sb) s"
  show ?thesis
  proof (cases "token_error ?X")
    case (Some e)
    then show ?thesis using \<open>sidebar s = Some sb\<close>
      by (simp add: setLayout_def add_class_def layout_ok_def list_all_iff has_class_remove)
  next
    case None
    let ?s2 = "?s1\<lparr>doc := map_classes (insert ?X) sb (remove_classes layout_classes sb (doc s)), currentLayout := v\<rparr>"
    let ?s3 = "if v \<noteq> Some ''full'' then closeAllSubmenus (sync_layout_buttons v ?s2) else sync_layout_buttons v ?s2"
    have q: "quiet ?s2 ?s3"
      using quiet_trans [OF quiet_sync_layout_buttons quiet_closeAllSubmenus] by simp
    have ok2: "layout_ok ?s2"
      using \<open>sidebar s = Some sb\<close>
      by (auto simp: layout_ok_def list_all_iff has_class_add has_class_remove)
    have "layout_ok ?s3" using layout_ok_quiet [OF q] ok2 by simp
    then have "layout_ok (?s3\<lparr>storage := (storage ?s3)(storage_key \<mapsto> js_show v)\<rparr>)"
      by (subst layout_ok_cong) simp_all
    moreover have "setLayout v s = Norm (?s3\<lparr>storage := (storage ?s3)(storage_key \<mapsto> js_show v)\<rparr>)"
      using None \<open>sidebar s = Some sb\<close> by (simp add: setLayout_ok Let_def)
    ultimately show ?thesis by simp
  qed
qed

lemma ctl_inv_frame:
  assumes "frame_of s' = frame_of s" and "layout_ok s'"
    and "hover_inv s" "distinct (listeners s)" "closures_fresh s"
  shows "ctl_inv s'"
proof -
  have "listeners s' = listeners s" "timers s' = timers s" "next_timer s' = next_timer s"
    "hoverTimeout s' = hoverTimeout s" "closure_gen s' = closure_gen s"
    using assms(1) by (simp_all add: frame_of_def)
  then show ?thesis using assms(2-)
    by (simp add: ctl_inv_def hover_inv_def timers_wf_def closures_fresh_def)
qed

text \<open>\<open>setLayout\<close> establishes the layout part of the invariant, whatever the
  sidebar showed before.\<close>

lemma ctl_inv_setLayout':
  "hover_inv s \<Longrightarrow> distinct (listeners s) \<Longrightarrow> closures_fresh s \<Longrightarrow> ctl_inv (st_of (setLayout v s))"
  by (rule ctl_inv_frame [OF frame_setLayout layout_ok_setLayout])

lemma ctl_inv_setLayout: "ctl_inv s \<Longrightarrow> ctl_inv (st_of (setLayout v s))"
  by (rule ctl_inv_setLayout') (simp_all add: ctl_inv_def)

text \<open>Registering or removing a listener changes only the listener list.\<close>

lemma add_listener_more [simp]:
  "next_timer (add_listener t ty h s) = next_timer s" "hoverTimeout (add_listener t ty h s) = hoverTimeout s"
  "distinct (listeners s) \<Longrightarrow> distinct (listeners (add_listener t ty h s))"
  by (simp_all add: add_listener_def)

lemma remove_listener_more [simp]:
  "timers (remove_listener t ty h s) = timers s" "next_timer (remove_listener t ty h s) = next_timer s"
  "hoverTimeout (remove_listener t ty h s) = hoverTimeout s" "sidebar (remove_listener t ty h s) = sidebar s"
  "currentLayout (remove_listener t ty h s) = currentLayout s"
  "set (listeners (remove_listener t ty h s)) = set (listeners s) - {(t, ty, h)}"
  "distinct (listeners s) \<Longrightarrow> distinct (listeners (remove_listener t ty h s))"
  by (auto simp: remove_listener_def)

lemma ctl_inv_listeners:
  assumes "ctl_inv s" and "distinct (listeners s')" and "closures_fresh s'"
    and "timers s' = timers s" "next_timer s' = next_timer s" "hoverTimeout s' = hoverTimeout s"
    and "doc s' = doc s" "sidebar s' = sidebar s" "currentLayout s' = currentLayout s"
  shows "ctl_inv s'"
  using assms(1-3) hover_inv_cong [OF assms(4-6)] layout_ok_cong [OF assms(8,7,9)] by (simp add: ctl_inv_def)

lemma fold_add_listener_more:
  "timers (fold (\<lambda>x s. add_listener (Elt x) ty h s) xs s) = timers s"
  "next_timer (fold (\<lambda>x s. add_listener (Elt x) ty h s) xs s) = next_timer s"
  "hoverTimeout (fold (\<lambda>x s. add_listener (Elt x) ty h s) xs s) = hoverTimeout s"
  "sidebar (fold (\<lambda>x s. add_listener (Elt x) ty h s) xs s) = sidebar s"
  "currentLayout (fold (\<lambda>x s. add_listener (Elt x) ty h s) xs s) = currentLayout s"
  "distinct (listeners s) \<Longrightarrow> distinct (listeners (fold (\<lambda>x s. add_listener (Elt x) ty h s) xs s))"
  by (induction xs arbitrary: s) simp_all

lemma enhance_more:
  "timers (enhanceInteractiveElements s) = timers s" "next_timer (enhanceInteractiveElements s) = next_timer s"
  "hoverTimeout (enhanceInteractiveElements s) = hoverTimeout s"
  "sidebar (enhanceInteractiveElements s) = sidebar s"
  "currentLayout (enhanceInteractiveElements s) = currentLayout s"
  "distinct (listeners s) \<Longrightarrow> distinct (listeners (enhanceInteractiveElements s))"
  by (simp_all add: enhanceInteractiveElements_def Let_def fold_add_listener_more split: option.splits)

lemma ctl_inv_enhance: "ctl_inv s \<Longrightarrow> ctl_inv (enhanceInteractiveElements s)"
  by (rule ctl_inv_listeners) (simp_all add: enhance_more closures_fresh_enhance ctl_inv_def)

lemma fold_rebind_inv:
  "timers (fold (\<lambda>l s. add_listener (Elt l) ''click'' H_submenuClick
      (remove_listener (Elt l) ''click'' H_submenuClick s)) xs s) = timers s \<and>
   next_timer (fold (\<lambda>l s. add_listener (Elt l) ''click'' H_submenuClick
      (remove_listener (Elt l) ''click'' H_submenuClick s)) xs s) = next_timer s \<and>
   hoverTimeout (fold (\<lambda>l s. add_listener (Elt l) ''click'' H_submenuClick
      (remove_listener (Elt l) ''click'' H_submenuClick s)) xs s) = hoverTimeout s \<and>
   sidebar (fold (\<lambda>l s. add_listener (Elt l) ''click'' H_submenuClick
      (remove_listener (Elt l) ''click'' H_submenuClick s)) xs s) = sidebar s \<and>
   currentLayout (fold (\<lambda>l s. add_listener (Elt l) ''click'' H_submenuClick
      (remove_listener (Elt l) ''click'' H_submenuClick s)) xs s) = currentLayout s \<and>
   closure_gen (fold (\<lambda>l s. add_listener (Elt l) ''click'' H_submenuClick
      (remove_listener (Elt l) ''click'' H_submenuClick s)) xs s) = closure_gen s \<and>
   (distinct (listeners s) \<longrightarrow> distinct (listeners (fold (\<lambda>l s. add_listener (Elt l) ''click'' H_submenuClick
      (remove_listener (Elt l) ''click'' H_submenuClick s)) xs s))) \<and>
   set (listeners (fold (\<lambda>l s. add_listener (Elt l) ''click'' H_submenuClick
      (remove_listener (Elt l) ''click'' H_submenuClick s)) xs s)) \<subseteq>
     set (listeners s) \<union> {(t, ty, h). h = H_submenuClick}"
  by (induction xs arbitrary: s) (simp, fastforce)

lemma setupSubmenuToggle_inv:
  "timers (setupSubmenuToggle s) = timers s \<and> next_timer (setupSubmenuToggle s) = next_timer s \<and>
   hoverTimeout (setupSubmenuToggle s) = hoverTimeout s \<and> sidebar (setupSubmenuToggle s) = sidebar s \<and>
   currentLayout (setupSubmenuToggle s) = currentLayout s \<and> closure_gen (setupSubmenuToggle s) = closure_gen s \<and>
   (distinct (listeners s) \<longrightarrow> distinct (listeners (setupSubmenuToggle s))) \<and>
   set (listeners (setupSubmenuToggle s)) \<subseteq> set (listeners s) \<union> {(t, ty, h). h = H_submenuClick}"
  unfolding setupSubmenuToggle_def by (rule fold_rebind_inv)

lemma ctl_inv_setupSubmenuToggle: "ctl_inv s \<Longrightarrow> ctl_inv (setupSubmenuToggle s)"
proof (rule ctl_inv_listeners)
  assume "ctl_inv s"
  then show "closures_fresh (setupSubmenuToggle s)"
    using setupSubmenuToggle_inv [of s] by (fastforce simp: ctl_inv_def closures_fresh_def)
qed (insert setupSubmenuToggle_inv [of s], simp_all add: ctl_inv_def)

lemma ctl_inv_refresh: "ctl_inv s \<Longrightarrow> ctl_inv (refresh s)"
  by (simp add: refresh_def ctl_inv_enhance ctl_inv_setupSubmenuToggle)

lemma quiet_emit [simp]: "quiet s (emit x s)"
  by (simp add: quiet_def frame_of_def emit_def)

text \<open>A timer that is not a hover callback keeps the invariant.\<close>

lemma ctl_inv_set_timeout:
  assumes "ctl_inv s" and "\<not> hover_cb cb"
  shows "ctl_inv (snd (set_timeout cb d s))"
proof (rule ctl_inv_hover [OF assms(1)])
  show "hover_inv (snd (set_timeout cb d s))"
    using assms by (auto simp: ctl_inv_def hover_inv_def timers_wf_def set_timeout_def)
qed (simp_all add: set_timeout_def)

lemma ctl_inv_emit: "ctl_inv s \<Longrightarrow> ctl_inv (emit x s)"
  using ctl_inv_quiet [OF quiet_emit] by simp

lemma ctl_inv_clicks:
  assumes "ctl_inv s"
  shows "ctl_inv (interactive_click e s)" "ctl_inv (export_click s)" "ctl_inv (st_of (period_click e s))"
  using assms
  by (simp_all add: interactive_click_def export_click_def period_click_def deref_def Let_def hover_cb_def
      ctl_inv_set_timeout ctl_inv_emit split: option.splits)

lemma mouse_more:
  "listeners (st_of (sidebar_mouseenter s)) = listeners s \<and> closure_gen (st_of (sidebar_mouseenter s)) = closure_gen s \<and>
   doc (st_of (sidebar_mouseenter s)) = doc s \<and> sidebar (st_of (sidebar_mouseenter s)) = sidebar s \<and>
   currentLayout (st_of (sidebar_mouseenter s)) = currentLayout s"
  "listeners (st_of (sidebar_mouseleave e s)) = listeners s \<and> closure_gen (st_of (sidebar_mouseleave e s)) = closure_gen s \<and>
   doc (st_of (sidebar_mouseleave e s)) = doc s \<and> sidebar (st_of (sidebar_mouseleave e s)) = sidebar s \<and>
   currentLayout (st_of (sidebar_mouseleave e s)) = currentLayout s"
  by (auto simp: sidebar_mouseenter_def sidebar_mouseleave_def Let_def deref_def schedule_hover_def
        set_timeout_def clear_timeout_def split: option.splits)

lemma ctl_inv_mouse:
  assumes "ctl_inv s"
  shows "ctl_inv (st_of (sidebar_mouseenter s))" "ctl_inv (st_of (sidebar_mouseleave e s))"
proof -
  have h: "hover_inv s" using assms by (simp add: ctl_inv_def)
  show "ctl_inv (st_of (sidebar_mouseenter s))"
    using mouse_more(1) [of s] by (intro ctl_inv_hover [OF assms hover_inv_enter [OF h]]) simp_all
  show "ctl_inv (st_of (sidebar_mouseleave e s))"
    using mouse_more(2) [of e s] by (intro ctl_inv_hover [OF assms hover_inv_leave [OF h]]) simp_all
qed

lemma ctl_inv_setupPolosEvents: "ctl_inv (setupPolosEvents s) = ctl_inv s"
  by (rule ctl_inv_same) (simp_all add: setupPolosEvents_def)

lemma ctl_inv_quiet_step: "ctl_inv s \<Longrightarrow> quiet s s' \<Longrightarrow> ctl_inv s'"
  using ctl_inv_quiet by blast

text \<open>Every listener the controller registers keeps the invariant, whichever
  way it completes.\<close>

lemma ctl_inv_run_handler:
  assumes "ctl_inv s" shows "ctl_inv (st_of (run_handler h e s))"
proof (cases h)
  case H_toggleSidebar
  have "quiet s (st_of (deref ''classList'' (sidebar s) (\<lambda>sb s.
          deref ''classList'' (overlay s) (\<lambda>ov s. Norm (upd_doc (toggle_class ''active'' ov) s))
            (upd_doc (toggle_class ''open'' sb) s)) s))"
    by (simp add: quiet_def frame_of_def deref_def layout_classes_def split: option.splits)
  then show ?thesis using assms H_toggleSidebar ctl_inv_setLayout
    by (auto simp: toggleSidebar_def intro: ctl_inv_quiet_step)
next
  case H_changeLayout
  then show ?thesis using assms ctl_inv_setLayout by (simp add: changeLayout_def deref_def split: option.splits)
next
  case H_polosInitialized
  then show ?thesis using assms ctl_inv_enhance
    by (simp add: polos_initialized_def ctl_inv_setupPolosEvents)
qed (use assms in \<open>simp_all add: ctl_inv_clicks ctl_inv_mouse stats_click_def deref_def
      ctl_inv_quiet_step [OF _ quiet_closeMobileSidebar] ctl_inv_quiet_step [OF _ quiet_toggleUserDropdown]
      ctl_inv_quiet_step [OF _ quiet_handleOutsideClick] ctl_inv_quiet_step [OF _ quiet_handleResize]
      ctl_inv_quiet_step [OF _ quiet_handleSubmenuClick] split: option.splits\<close>)

lemma ctl_inv_run_callback:
  assumes "ctl_inv s" shows "ctl_inv (st_of (run_callback cb s))"
  using assms ctl_inv_quiet_step [OF assms quiet_hoverExpand] ctl_inv_quiet_step [OF assms quiet_hoverCollapse]
  by (cases cb) (simp_all add: cb_fallbackInit_def ctl_inv_enhance cb_stopLoading_def cb_exportDone_def
        cb_periodDone_def ctl_inv_emit)

subsection \<open>The event loop keeps the invariant\<close>

lemma ctl_inv_settle: "ctl_inv (st_of r) \<Longrightarrow> ctl_inv (settle r)"
  by (cases r) (simp_all add: settle_def ctl_inv_emit [unfolded emit_def])

lemma ctl_inv_fire: "ctl_inv s \<Longrightarrow> ctl_inv (fire t ty e s)"
proof -
  have "ctl_inv s \<Longrightarrow> ctl_inv (fold (\<lambda>h s. settle (run_handler h e' s)) hs s)" for hs e' s
    by (induction hs arbitrary: s) (simp_all add: ctl_inv_settle ctl_inv_run_handler)
  then show "ctl_inv s \<Longrightarrow> ctl_inv (fire t ty e s)" by (simp add: fire_def)
qed

lemma ctl_inv_propagate: "ctl_inv s \<Longrightarrow> ctl_inv (propagate ts ty e s)"
  by (induction ts ty e s rule: propagate.induct) (simp_all add: ctl_inv_fire Let_def)

lemma ctl_inv_fields:
  "ctl_inv (new_event s) = ctl_inv s" "ctl_inv (s\<lparr>innerWidth := w\<rparr>) = ctl_inv s"
  "ctl_inv (s\<lparr>adminPolos := b\<rparr>) = ctl_inv s"
  by (rule ctl_inv_same; simp add: new_event_def)+

lemma ctl_inv_tick: "ctl_inv s \<Longrightarrow> ctl_inv (tick s)"
proof -
  assume inv: "ctl_inv s"
  have "ctl_inv (s\<lparr>timers := filter (\<lambda>(j, _, _). j \<noteq> i) (timers s), clock := c\<rparr>)" for i c
  proof (rule ctl_inv_hover [OF inv])
    show "hover_inv (s\<lparr>timers := filter (\<lambda>(j, _, _). j \<noteq> i) (timers s), clock := c\<rparr>)"
      using inv by (auto simp: ctl_inv_def hover_inv_def timers_wf_def distinct_map_filter)
  qed simp_all
  then show ?thesis using inv
    by (auto simp: tick_def ctl_inv_settle ctl_inv_run_callback split: option.splits)
qed

lemma ctl_inv_polos_emit: "ctl_inv s \<Longrightarrow> ctl_inv (polos_emit n s)"
proof -
  have "ctl_inv s \<Longrightarrow> ctl_inv (fold (\<lambda>h s. settle (run_handler h e s)) hs s)" for hs e s
    by (induction hs arbitrary: s) (simp_all add: ctl_inv_settle ctl_inv_run_handler)
  then show "ctl_inv s \<Longrightarrow> ctl_inv (polos_emit n s)" by (simp add: polos_emit_def)
qed

lemma ctl_inv_step: "ctl_inv s \<Longrightarrow> ctl_inv (step ev s)"
  by (cases ev) (simp_all add: dispatch_click_def ctl_inv_propagate ctl_inv_fire ctl_inv_fields ctl_inv_tick
      ctl_inv_polos_emit ctl_inv_refresh setLayoutManually_def ctl_inv_settle ctl_inv_setLayout)

subsection \<open>Construction establishes the invariant\<close>

lemma closures_fresh_mono:
  assumes "closures_fresh s" and "closure_gen s' = closure_gen s"
    and "set (listeners s') \<subseteq> set (listeners s) \<union> {(t, ty, h). closure_of h = None}"
  shows "closures_fresh s'"
  using assms by (fastforce simp: closures_fresh_def)

lemma setupEventListeners_more:
  "timers (st_of (setupEventListeners s)) = timers s \<and> next_timer (st_of (setupEventListeners s)) = next_timer s \<and>
   hoverTimeout (st_of (setupEventListeners s)) = hoverTimeout s \<and>
   closure_gen (st_of (setupEventListeners s)) = closure_gen s \<and>
   (distinct (listeners s) \<longrightarrow> distinct (listeners (st_of (setupEventListeners s)))) \<and>
   set (listeners (st_of (setupEventListeners s))) \<subseteq> set (listeners s) \<union> {(t, ty, h). closure_of h = None}"
  by (auto simp: setupEventListeners_def bind_res_def deref_def fold_add_listener_more set_fold_add_listener
        split: option.splits res.splits)

lemma ctl_inv_setupAutoHover:
  assumes i: "ctl_inv s" shows "ctl_inv (st_of (setupAutoHover s))"
proof (cases "innerWidth s \<le> mobile_bp \<or> sidebar s = None")
  case True
  then show ?thesis using i by (auto simp: setupAutoHover_def)
next
  case False
  then obtain sb where "sidebar s = Some sb" "\<not> innerWidth s \<le> mobile_bp" by auto
  then have "setupAutoHover s = Norm (add_listener (Elt sb) ''mouseleave'' H_mouseleave
                                     (add_listener (Elt sb) ''mouseenter'' H_mouseenter s))"
    by (simp add: setupAutoHover_def)
  moreover have "ctl_inv (add_listener (Elt sb) ''mouseleave'' H_mouseleave
                            (add_listener (Elt sb) ''mouseenter'' H_mouseenter s))"
    by (rule ctl_inv_listeners [OF i]) (use i in \<open>auto simp: ctl_inv_def closures_fresh_def\<close>)
  ultimately show ?thesis by simp
qed

lemma ctl_inv_setupPolosIntegration: "ctl_inv s \<Longrightarrow> ctl_inv (setupPolosIntegration s)"
proof -
  assume i: "ctl_inv s"
  have "ctl_inv (s\<lparr>polos_subs := x\<rparr>)" for x using i by (subst ctl_inv_same) simp_all
  then show ?thesis using i by (simp add: setupPolosIntegration_def hover_cb_def ctl_inv_set_timeout)
qed

lemma ctl_inv_setupLayoutSystem:
  assumes "hover_inv s" "distinct (listeners s)" "closures_fresh s"
  shows "ctl_inv (st_of (setupLayoutSystem s))"
proof -
  have i: "ctl_inv (st_of (setLayout (Some ''full'') s))" using assms by (rule ctl_inv_setLayout')
  show ?thesis
  proof (cases "setLayout (Some ''full'') s")
    case (Norm s1)
    then show ?thesis using i
      by (auto simp: setupLayoutSystem_def ctl_inv_setLayout split: option.splits)
  next
    case (Thrown e s1)
    then show ?thesis using i by (simp add: setupLayoutSystem_def)
  qed
qed

lemma ctl_inv_init:
  assumes "init s = Norm s'" and "hover_inv s" "distinct (listeners s)" "closures_fresh s"
  shows "ctl_inv s'"
proof -
  obtain s1 where e: "setupEventListeners s = Norm s1"
    using assms(1) by (cases "setupEventListeners s") (simp_all add: init_def)
  have m: "timers s1 = timers s" "next_timer s1 = next_timer s" "hoverTimeout s1 = hoverTimeout s"
    "distinct (listeners s1)" "closures_fresh s1"
    using setupEventListeners_more [of s] e assms(3,4) closures_fresh_mono [of s s1] by auto
  have h1: "hover_inv s1" using assms(2) m(1-3) by (simp add: hover_inv_def timers_wf_def)
  obtain s2 where l: "setupLayoutSystem s1 = Norm s2"
    using assms(1) e by (cases "setupLayoutSystem s1") (simp_all add: init_def)
  have i2: "ctl_inv s2" using ctl_inv_setupLayoutSystem [OF h1 m(4,5)] l by simp
  obtain s3 where a: "setupAutoHover s2 = Norm s3"
    using assms(1) e l by (cases "setupAutoHover s2") (simp_all add: init_def)
  have "ctl_inv s3" using ctl_inv_setupAutoHover [OF i2] a by simp
  moreover have "s' = setupPolosIntegration s3" using assms(1) e l a by (simp add: init_def)
  ultimately show ?thesis by (simp add: ctl_inv_setupPolosIntegration)
qed

lemma ctl_inv_start:
  assumes "domContentLoaded (page_load d store w p) = Norm s" shows "ctl_inv s"
proof -
  obtain s' where n: "new_AdminPolos (page_load d store w p) = Norm s'" and s: "s = s'\<lparr>adminPolos := True\<rparr>"
    using assms by (cases "new_AdminPolos (page_load d store w p)") (simp_all add: domContentLoaded_def)
  have "ctl_inv s'"
    using n unfolding new_AdminPolos_def Let_def
    by (rule ctl_inv_init)
       (simp_all add: page_load_def hover_inv_def timers_wf_def closures_fresh_def world.defs st.defs)
  then show ?thesis using s by (simp add: ctl_inv_fields)
qed

lemma reachable_ctl_inv: "reachable s \<Longrightarrow> ctl_inv s"
  by (induction rule: reachable.induct) (simp_all add: ctl_inv_start ctl_inv_step)

lemma reachable_run: "reachable s \<Longrightarrow> reachable (run evs s)"
  unfolding run_def by (induction evs arbitrary: s) (simp_all add: reachable.step)

subsection \<open>Construction outcomes\<close>

lemma get_element_by_id_range: "get_element_by_id d x = Some i \<Longrightarrow> i < length d"
  by (auto simp: get_element_by_id_def find_Some_iff)

lemma add_listener_st_fields [simp]:
  "overlay (add_listener t ty h s) = overlay s" "userMenu (add_listener t ty h s) = userMenu s"
  "userDropdown (add_listener t ty h s) = userDropdown s" "sidebarToggle (add_listener t ty h s) = sidebarToggle s"
  "layoutButtons (add_listener t ty h s) = layoutButtons s" "innerWidth (add_listener t ty h s) = innerWidth s"
  "storage (add_listener t ty h s) = storage s" "adminPolos (add_listener t ty h s) = adminPolos s"
  by (simp_all add: add_listener_def)

lemma fold_add_listener_innerWidth [simp]:
  "innerWidth (fold (\<lambda>x s. add_listener (Elt x) ty h s) xs (s::st)) = innerWidth s"
  by (induction xs arbitrary: s) simp_all

lemma is_norm_setupEventListeners:
  "is_norm (setupEventListeners s) \<longleftrightarrow> sidebarToggle s \<noteq> None \<and> overlay s \<noteq> None \<and> userMenu s \<noteq> None"
  by (cases "sidebarToggle s"; cases "overlay s"; cases "userMenu s")
     (simp_all add: setupEventListeners_def add_listener_def)

lemma setupEventListeners_fields:
  "sidebar (st_of (setupEventListeners s)) = sidebar s \<and> doc (st_of (setupEventListeners s)) = doc s \<and>
   innerWidth (st_of (setupEventListeners s)) = innerWidth s"
  by (auto simp: setupEventListeners_def deref_def bind_res_def fold_add_listener_more
        split: option.splits res.splits)

lemma setupLayoutSystem_norm:
  assumes "sidebar s = Some sb" and "sb < length (doc s)"
  shows "is_norm (setupLayoutSystem s) \<and> sidebar (st_of (setupLayoutSystem s)) = Some sb \<and>
           sb < length (doc (st_of (setupLayoutSystem s)))"
proof -
  obtain s1 where n1: "setLayout (Some ''full'') s = Norm s1"
    and st1: "storage s1 storage_key = Some ''full''"
    using setLayout_valid_norm [OF assms, of Full] by auto
  have f1: "sidebar s1 = Some sb" "sb < length (doc s1)"
    using setLayout_frame [of "Some ''full''" s] n1 assms shape_length [of "doc s1" "doc s"] by simp_all
  obtain s2 where n2: "setLayout (Some ''full'') s1 = Norm s2"
    using setLayout_valid_norm [OF f1, of Full] by auto
  have "sidebar s2 = Some sb" "sb < length (doc s2)"
    using setLayout_frame [of "Some ''full''" s1] n2 f1 shape_length [of "doc s2" "doc s1"] by simp_all
  then show ?thesis using n1 n2 st1 by (simp add: setupLayoutSystem_def)
qed

lemma setupLayoutSystem_no_sidebar: "sidebar s = None \<Longrightarrow> \<not> is_norm (setupLayoutSystem s)"
  by (simp add: setupLayoutSystem_def setLayout_def)

lemma is_norm_setupAutoHover: "sidebar s \<noteq> None \<Longrightarrow> is_norm (setupAutoHover s)"
  by (auto simp: setupAutoHover_def)

lemma is_norm_init:
  "is_norm (init s) \<longleftrightarrow>
     is_norm (setupEventListeners s) \<and> is_norm (setupLayoutSystem (st_of (setupEventListeners s))) \<and>
     is_norm (setupAutoHover (st_of (setupLayoutSystem (st_of (setupEventListeners s)))))"
  by (simp add: init_def bind_res_norm_iff)

lemma is_norm_domContentLoaded: "is_norm (domContentLoaded w) = is_norm (new_AdminPolos w)"
  by (cases "new_AdminPolos w") (simp_all add: domContentLoaded_def)

subsection \<open>Listeners bound by the constructor\<close>

lemma init_listeners:
  assumes "\<forall>(t, ty, h) \<in> set (listeners s). h \<noteq> H_submenuClick"
  shows "\<forall>(t, ty, h) \<in> set (listeners (st_of (init s))). h \<noteq> H_submenuClick"
proof -
  let ?P = "\<lambda>s::st. \<forall>(t, ty, h) \<in> set (listeners s). h \<noteq> H_submenuClick"
  have e: "?P (st_of (setupEventListeners s))"
    using assms by (auto simp: setupEventListeners_def deref_def bind_res_def set_fold_add_listener
        split: option.splits res.splits)
  have sl: "?P (st_of (setLayout v s))" if "?P s" for v s
    using that frame_setLayout [of v s] by (simp add: frame_of_def)
  have l: "?P (st_of (setupLayoutSystem s))" if "?P s" for s
    unfolding setupLayoutSystem_def
    by (rule bind_res_preserves [where P = ?P, OF sl [OF that]]) (simp add: sl split: option.splits)
  have a: "?P (st_of (setupAutoHover s))" if "?P s" for s
    using that by (auto simp: setupAutoHover_def deref_def split: option.splits)
  have p: "?P (setupPolosIntegration s)" if "?P s" for s
    using that by (simp add: setupPolosIntegration_def set_timeout_def)
  show ?thesis unfolding init_def
    by (intro bind_res_preserves [where P = ?P] e l a) (assumption, assumption, simp only: st_of.simps, rule p)
qed

subsection \<open>The dispatch path\<close>

lemma is_anc_anc_path: "is_anc n d a b \<longleftrightarrow> a \<in> set (anc_path n d b)"
  by (induction n arbitrary: b) (auto split: option.splits)

lemma wf_doc_parent: "wf_doc d \<Longrightarrow> parent_of d i = Some p \<Longrightarrow> p < i"
  by (fastforce simp: wf_doc_def parent_of_def node_at_def split: if_splits option.splits)

lemma anc_path_last_root:
  "wf_doc d \<Longrightarrow> i < n \<Longrightarrow> parent_of d (last (anc_path n d i)) = None"
proof (induction n arbitrary: i)
  case 0
  then show ?case by simp
next
  case (Suc n)
  show ?case
  proof (cases "parent_of d i")
    case None
    then show ?thesis by simp
  next
    case (Some p)
    then have "p < n" using wf_doc_parent [OF Suc.prems(1) Some] Suc.prems(2) by simp
    then show ?thesis using Suc.IH [OF Suc.prems(1)] Some by (cases n) auto
  qed
qed

subsection \<open>Timers\<close>

lemma run_callback_timers: "timers (st_of (run_callback cb s)) = timers s"
  by (cases cb) (auto simp: hoverExpand_def hoverCollapse_def deref_def closeAllSubmenus_def cb_fallbackInit_def
      enhance_more cb_stopLoading_def cb_exportDone_def cb_periodDone_def emit_def split: option.splits)

lemma settle_timers [simp]: "timers (settle r) = timers (st_of r)"
  by (cases r) (simp_all add: settle_def)

lemma next_due_Some:
  assumes "next_due s = Some (i, t, cb)"
  shows "(i, t, cb) \<in> set (timers s) \<and> (\<forall>(j, t', c) \<in> set (timers s). t \<le> t')"
proof -
  obtain xs where xs: "sort_key (\<lambda>(_, t, _). t) (timers s) = (i, t, cb) # xs"
    using assms by (auto simp: next_due_def split: list.splits)
  have "sorted (map (\<lambda>(_, t, _). t) ((i, t, cb) # xs))"
    using sorted_sort_key [of "\<lambda>(_, t, _). t" "timers s"] xs by simp
  moreover have "set (timers s) = set ((i, t, cb) # xs)"
    using set_sort [of "\<lambda>(_, t, _). t" "timers s"] xs by simp
  ultimately show ?thesis by auto
qed

lemma next_due_None: "next_due s = None \<longleftrightarrow> timers s = []"
  by (auto simp: next_due_def split: list.splits) (metis length_0_conv length_sort)

lemma tick_timers:
  "timers (tick s) = (case next_due s of None \<Rightarrow> timers s
                      | Some (i, t, cb) \<Rightarrow> filter (\<lambda>(j, _, _). j \<noteq> i) (timers s))"
  by (auto simp: tick_def run_callback_timers split: option.splits)

lemma tick_shrinks: "timers s \<noteq> [] \<Longrightarrow> length (timers (tick s)) < length (timers s)"
proof -
  assume ne: "timers s \<noteq> []"
  then obtain i t cb where nd: "next_due s = Some (i, t, cb)"
    using next_due_None [of s] by (cases "next_due s") auto
  then have "(i, t, cb) \<in> set (timers s)" using next_due_Some by blast
  then have "length (filter (\<lambda>(j, _, _). j \<noteq> i) (timers s)) < length (timers s)"
    by (intro length_filter_less) auto
  then show ?thesis using nd by (simp add: tick_timers)
qed

lemma doc_page_load [simp]: "doc (page_load d store w p) = d"
  by (simp add: page_load_def)

lemma construct_fields:
  "sidebar (world.extend (page_load d store w p) (st.fields a b c e f g h i j k l)) = a"
  "sidebarToggle (world.extend (page_load d store w p) (st.fields a b c e f g h i j k l)) = b"
  "overlay (world.extend (page_load d store w p) (st.fields a b c e f g h i j k l)) = c"
  "userMenu (world.extend (page_load d store w p) (st.fields a b c e f g h i j k l)) = e"
  "doc (world.extend (page_load d store w p) (st.fields a b c e f g h i j k l)) = d"
  by (simp_all add: page_load_def world.defs st.defs)

text \<open>A page with the four required elements constructs normally, and the
  instance refers to the page's sidebar.\<close>

lemma construct_norm:
  assumes sb: "get_element_by_id d ''sidebar'' = Some sb"
    and "get_element_by_id d ''sidebarToggle'' \<noteq> None" "get_element_by_id d ''overlay'' \<noteq> None"
    "get_element_by_id d ''userMenu'' \<noteq> None"
  shows "\<exists>s. domContentLoaded (page_load d store w p) = Norm s \<and> sidebar s = Some sb \<and> sb < length (doc s)"
proof -
  define s0 where "s0 = world.extend (page_load d store w p)
        (st.fields (get_element_by_id d ''sidebar'') (get_element_by_id d ''sidebarToggle'')
           (get_element_by_id d ''overlay'') (get_element_by_id d ''userMenu'')
           (get_element_by_id d ''userDropdown'') (query_all d (sel_class ''layout-btn''))
           None False (Some ''full'') 0 False)"
  obtain s1 where e: "setupEventListeners s0 = Norm s1"
    using is_norm_setupEventListeners [of s0] assms
    by (cases "setupEventListeners s0") (simp_all add: s0_def construct_fields)
  have f1: "sidebar s1 = Some sb" "sb < length (doc s1)"
    using setupEventListeners_fields [of s0] e sb get_element_by_id_range [OF sb]
    by (simp_all add: s0_def construct_fields)
  obtain s2 where l: "setupLayoutSystem s1 = Norm s2" and f2: "sidebar s2 = Some sb" "sb < length (doc s2)"
    using setupLayoutSystem_norm [OF f1] by (cases "setupLayoutSystem s1") simp_all
  obtain s3 where a: "setupAutoHover s2 = Norm s3" and f3: "sidebar s3 = Some sb" "sb < length (doc s3)"
    using f2 by (cases "innerWidth s2 \<le> mobile_bp") (simp_all add: setupAutoHover_def)
  have "init s0 = Norm (setupPolosIntegration s3)" using e l a by (simp add: init_def)
  moreover have "sidebar (setupPolosIntegration s3) = Some sb" "sb < length (doc (setupPolosIntegration s3))"
    using f3 by (simp_all add: setupPolosIntegration_def set_timeout_def)
  ultimately show ?thesis
    by (simp add: domContentLoaded_def new_AdminPolos_def s0_def Let_def)
qed

section \<open>Properties of the running controller\<close>

text \<open>C19. In every state reachable from a successful construction, at most
  one hover callback (expansion or collapse) is pending: the two debounce
  channels share the handle \<open>hoverTimeout\<close>.\<close>

theorem reachable_single_hover_callback:
  assumes "reachable s" shows "length (pending_hover s) \<le> 1"
proof -
  have "hover_inv s" using reachable_ctl_inv [OF assms] by (simp add: ctl_inv_def)
  then show ?thesis by (rule pending_hover_le1)
qed

text \<open>C20. In every reachable state, the only one of the four layout classes
  the sidebar can show is the class of \<open>currentLayout\<close>: no event sequence
  leaves a stale layout class on the sidebar.\<close>

theorem reachable_layout_class:
  assumes "reachable s" and "sidebar s = Some sb" and "c \<in> set layout_classes"
    and "has_class (doc s) sb c"
  shows "c = ''layout-'' @ js_show (currentLayout s)"
  using reachable_ctl_inv [OF assms(1)] assms(2-4) by (auto simp: ctl_inv_def layout_ok_def list_all_iff)

text \<open>C21. The constructor completes normally exactly when the page has the
  elements \<open>#sidebar\<close>, \<open>#sidebarToggle\<close>, \<open>#overlay\<close> and \<open>#userMenu\<close>;
  \<open>#userDropdown\<close> and the layout buttons are optional at construction.\<close>

theorem construct_norm_iff:
  "is_norm (domContentLoaded (page_load d store w p)) \<longleftrightarrow>
     get_element_by_id d ''sidebar'' \<noteq> None \<and> get_element_by_id d ''sidebarToggle'' \<noteq> None \<and>
     get_element_by_id d ''overlay'' \<noteq> None \<and> get_element_by_id d ''userMenu'' \<noteq> None"
proof -
  let ?s0 = "world.extend (page_load d store w p)
        (st.fields (get_element_by_id d ''sidebar'') (get_element_by_id d ''sidebarToggle'')
           (get_element_by_id d ''overlay'') (get_element_by_id d ''userMenu'')
           (get_element_by_id d ''userDropdown'') (query_all d (sel_class ''layout-btn''))
           None False (Some ''full'') 0 False)"
  let ?s1 = "st_of (setupEventListeners ?s0)"
  have f: "sidebar ?s0 = get_element_by_id d ''sidebar''" "sidebarToggle ?s0 = get_element_by_id d ''sidebarToggle''"
    "overlay ?s0 = get_element_by_id d ''overlay''" "userMenu ?s0 = get_element_by_id d ''userMenu''"
    "doc ?s0 = d"
    by (simp_all add: page_load_def world.defs st.defs)
  have f1: "sidebar ?s1 = get_element_by_id d ''sidebar''" "doc ?s1 = d"
    using setupEventListeners_fields [of ?s0] f by simp_all
  have dn: "is_norm (domContentLoaded (page_load d store w p)) = is_norm (init ?s0)"
    by (simp add: is_norm_domContentLoaded new_AdminPolos_def page_load_def)
  show ?thesis
  proof (cases "get_element_by_id d ''sidebar''")
    case None
    then show ?thesis using dn f1 setupLayoutSystem_no_sidebar [of ?s1]
      by (simp add: is_norm_init)
  next
    case (Some sb)
    have r: "sb < length (doc ?s1)" using get_element_by_id_range [OF Some] f1 by simp
    obtain n where "is_norm (setupLayoutSystem ?s1)" "sidebar (st_of (setupLayoutSystem ?s1)) = Some sb"
      using setupLayoutSystem_norm [of ?s1 sb] f1 Some r by simp
    then show ?thesis using dn Some f is_norm_setupAutoHover
      by (simp add: is_norm_init is_norm_setupEventListeners)
  qed
qed

text \<open>C22. On a page without \<open>#overlay\<close>, construction throws a TypeError
  from line 38, after the sidebar toggle's listener was bound on line 35:
  that listener stays live, \<open>window.adminPolos\<close> is never assigned, and no
  timer is scheduled (the layout, auto-hover and framework set-up never
  run).\<close>

theorem construct_missing_overlay:
  assumes "get_element_by_id d ''sidebarToggle'' = Some t" and "get_element_by_id d ''overlay'' = None"
  shows "\<exists>s. domContentLoaded (page_load d store w p) = Thrown (TypeError ''addEventListener'') s \<and>
             (Elt t, ''click'', H_toggleSidebar) \<in> set (listeners s) \<and> \<not> adminPolos s \<and> timers s = []"
  using assms
  by (simp add: domContentLoaded_def new_AdminPolos_def init_def setupEventListeners_def page_load_def
      world.defs st.defs)

text \<open>C23. Construction never binds a submenu click listener: however the
  constructor completes, no element carries \<open>handleSubmenuClick\<close>, so
  submenu links do nothing until \<open>refresh()\<close> is called.\<close>

theorem construct_no_submenu_listener:
  "(t, ty, H_submenuClick) \<notin> set (listeners (st_of (domContentLoaded (page_load d store w p))))"
proof -
  have "\<forall>(t, ty, h) \<in> set (listeners (st_of (new_AdminPolos (page_load d store w p)))). h \<noteq> H_submenuClick"
    unfolding new_AdminPolos_def Let_def
    by (rule init_listeners) (simp add: page_load_def world.defs st.defs)
  then show ?thesis
    by (cases "new_AdminPolos (page_load d store w p)") (auto simp: domContentLoaded_def)
qed

text \<open>C24. The timer queue drains: no timer callback schedules another
  timer, so as many ticks as there are pending timers fire all of them.\<close>

theorem timers_drain:
  assumes "length (timers s) \<le> n" shows "timers (run (replicate n Tick) s) = []"
  using assms
proof (induction n arbitrary: s)
  case 0
  then show ?case by (simp add: run_def)
next
  case (Suc n)
  have "length (timers (tick s)) \<le> n"
  proof (cases "timers s = []")
    case True
    then have "next_due s = None" by (simp add: next_due_None)
    then show ?thesis using True by (simp add: tick_timers)
  next
    case False
    then show ?thesis using tick_shrinks [OF False] Suc.prems by simp
  qed
  then show ?case using Suc.IH by (simp add: run_def)
qed

end
