(* ===== verification/Events.thy ===== *)
theory Events
  imports Controller
begin

text \<open>
  Whole clicks, as the browser dispatches them (Controller's
  \<open>dispatch_click\<close>): the listeners of the target and of each ancestor, then
  of the document and the window, with \<open>stopPropagation\<close> ending the
  dispatch. The properties here compose the user menu's listener, the
  document's outside-click listener and the submenu listener through the
  dispatch, where spec testable property 7 is stated, and follow the export
  and chart-period listeners through the dispatch and the timer tick that
  runs their delayed callback.
\<close>

section \<open>Lemmas\<close>

lemma fire_none: "handlers_at t ty s = [] \<Longrightarrow> fire t ty e s = s"
  by (simp add: fire_def)

lemma fire_single:
  "handlers_at t ty s = [h] \<Longrightarrow> fire t ty e s = settle (run_handler h (e\<lparr>e_current := current_of t\<rparr>) s)"
  by (simp add: fire_def)

lemma anc_path_hd: "\<exists>rest. anc_path n d i = i # rest"
  by (cases n) auto

lemma click_path_cons: "\<exists>rest. click_path d i = Elt i # rest"
  using anc_path_hd [of "length d" d i] by (auto simp: click_path_def)

text \<open>Targets without listeners for the event pass it on unchanged.\<close>

lemma propagate_silent:
  assumes "\<forall>t \<in> set ts. handlers_at t ty s = []" and "\<not> ev_stopped s"
  shows "propagate (ts @ ts') ty e s = propagate ts' ty e s"
  using assms by (induction ts) (simp_all add: fire_none)

lemma new_event_fields [simp]:
  "doc (new_event s) = doc s" "listeners (new_event s) = listeners s" "userMenu (new_event s) = userMenu s"
  "userDropdown (new_event s) = userDropdown s" "ev_stopped (new_event s) = False"
  "innerWidth (new_event s) = innerWidth s" "sidebar (new_event s) = sidebar s"
  by (simp_all add: new_event_def)

lemma handlers_at_new_event [simp]: "handlers_at t ty (new_event s) = handlers_at t ty s"
  by (simp add: handlers_at_def)

lemma handlers_at_cong: "listeners s' = listeners s \<Longrightarrow> handlers_at t ty s' = handlers_at t ty s"
  by (simp add: handlers_at_def)

text \<open>With both user-menu elements present the outside-click listener
  completes normally and changes the document only.\<close>

lemma handleOutsideClick_frame:
  assumes "userMenu s = Some u" and "userDropdown s = Some d"
  shows "\<exists>s'. handleOutsideClick e s = Norm s' \<and> effects s' = effects s \<and> timers s' = timers s \<and>
           clock s' = clock s \<and> listeners s' = listeners s \<and> ev_stopped s' = ev_stopped s"
  using assms by (simp add: handleOutsideClick_def upd_doc_def)

text \<open>A click on an element with one click listener that completes normally
  without stopping propagation, on a path with no other listeners than the
  document's outside-click listener: the effects, the timers and the clock
  after the whole dispatch are those left by the one listener.\<close>

lemma dispatch_click_single:
  assumes h: "handlers_at (Elt b) ''click'' s = [hx]"
    and r: "run_handler hx \<lparr>e_target = Some b, e_current = Some b, e_related = None\<rparr> (new_event s) = Norm s1"
    and ns: "\<not> ev_stopped s1" and l: "listeners s1 = listeners s"
    and anc: "\<forall>y \<in> set (tl (anc_path (length (doc s)) (doc s) b)). handlers_at (Elt y) ''click'' s = []"
    and docl: "handlers_at Doc ''click'' s = [H_outsideClick]" and winl: "handlers_at Win ''click'' s = []"
    and um: "userMenu s1 = Some u" and dd: "userDropdown s1 = Some d"
  shows "effects (dispatch_click b s) = effects s1 \<and> timers (dispatch_click b s) = timers s1 \<and>
         clock (dispatch_click b s) = clock s1"
proof -
  let ?e = "\<lparr>e_target = Some b, e_current = None, e_related = None\<rparr>"
  obtain rest where p: "anc_path (length (doc s)) (doc s) b = b # rest" using anc_path_hd by blast
  have hs: "handlers_at t ty s1 = handlers_at t ty s" for t ty by (rule handlers_at_cong [OF l])
  have f1: "fire (Elt b) ''click'' ?e (new_event s) = s1"
    using h r by (simp add: fire_single settle_def current_of_def)
  have d: "dispatch_click b s = propagate (map Elt rest @ [Doc, Win]) ''click'' ?e s1"
    using p f1 ns by (simp add: dispatch_click_def click_path_def)
  have sil: "propagate (map Elt rest @ [Doc, Win]) ''click'' ?e s1 = propagate [Doc, Win] ''click'' ?e s1"
    by (rule propagate_silent) (use anc p ns in \<open>auto simp: hs\<close>)
  obtain s2 where o: "handleOutsideClick (?e\<lparr>e_current := None\<rparr>) s1 = Norm s2" and
    f2: "effects s2 = effects s1" "timers s2 = timers s1" "clock s2 = clock s1" "listeners s2 = listeners s"
        "ev_stopped s2 = ev_stopped s1"
    using handleOutsideClick_frame [OF um dd] l by metis
  have fd: "fire Doc ''click'' ?e s1 = s2"
    using docl o by (simp add: fire_single hs settle_def current_of_def)
  have fw: "fire Win ''click'' ?e s2 = s2"
    using winl handlers_at_cong [OF f2(4)] by (simp add: fire_none)
  show ?thesis using d sil fd fw f2 ns by simp
qed

section \<open>Properties of whole clicks\<close>

text \<open>C29. A click on the user-menu element, whose only click listener is
  the one of line 41, flips the dropdown and ends there: the listener's
  \<open>stopPropagation\<close> keeps the click from the document's outside-click
  listener, which would close the dropdown again (spec property 7, first
  half). The state after the whole dispatch is that after the one
  listener.\<close>

theorem user_menu_click_dispatch:
  assumes h: "handlers_at (Elt u) ''click'' s = [H_userMenu]" and dd: "userDropdown s = Some d"
  shows "dispatch_click u s = upd_doc (toggle_class ''show'' d) ((new_event s)\<lparr>ev_stopped := True\<rparr>)"
proof -
  obtain rest where p: "click_path (doc s) u = Elt u # rest" using click_path_cons by blast
  have "fire (Elt u) ''click'' \<lparr>e_target = Some u, e_current = None, e_related = None\<rparr> (new_event s) =
          upd_doc (toggle_class ''show'' d) ((new_event s)\<lparr>ev_stopped := True\<rparr>)"
    using h dd by (simp add: fire_single toggleUserDropdown_def settle_def)
  then show ?thesis using p by (simp add: dispatch_click_def)
qed

text \<open>C30. A click on an element outside the user-menu subtree, on a path
  where no element has a click listener and the document has only the
  outside-click listener, closes the dropdown and changes nothing else (spec
  property 7, second half).\<close>

theorem outside_click_dispatch:
  assumes um: "userMenu s = Some u" and dd: "userDropdown s = Some d"
    and quiet: "\<forall>y \<in> set (anc_path (length (doc s)) (doc s) x). handlers_at (Elt y) ''click'' s = []"
    and docl: "handlers_at Doc ''click'' s = [H_outsideClick]" and winl: "handlers_at Win ''click'' s = []"
    and out: "\<not> contains (doc s) u (Some x)"
  shows "dispatch_click x s = upd_doc (remove_classes [''show''] d) (new_event s)"
proof -
  let ?e = "\<lparr>e_target = Some x, e_current = None, e_related = None\<rparr>"
  have sil: "propagate (map Elt (anc_path (length (doc s)) (doc s) x) @ [Doc, Win]) ''click'' ?e (new_event s) =
               propagate [Doc, Win] ''click'' ?e (new_event s)"
    by (rule propagate_silent) (use quiet in auto)
  have f: "fire Doc ''click'' ?e (new_event s) = upd_doc (remove_classes [''show''] d) (new_event s)"
    using docl um dd out by (simp add: fire_single handleOutsideClick_def settle_def)
  have w: "handlers_at Win ''click'' (upd_doc (remove_classes [''show''] d) (new_event s)) = []"
    using winl by (simp add: handlers_at_def)
  show ?thesis
    using sil f w by (simp add: dispatch_click_def click_path_def fire_none new_event_def)
qed

text \<open>C31. A click on a submenu link on a wide window ends at the link's
  listener, which calls \<open>stopPropagation\<close> (line 160): the document's
  outside-click listener never sees it, so an open user dropdown stays open,
  although the link lies outside the user menu. The state after the whole
  dispatch is that after the submenu listener.\<close>

theorem submenu_click_keeps_dropdown:
  assumes h: "handlers_at (Elt l) ''click'' s = [H_submenuClick]" and wide: "mobile_bp < innerWidth s"
    and par: "parent_of (doc s) l = Some p" and gp: "parent_of (doc s) p = Some g"
  shows "dispatch_click l s = st_of (handleSubmenuClick \<lparr>e_target = Some l, e_current = Some l, e_related = None\<rparr> (new_event s)) \<and>
         (\<forall>j. has_class (doc (dispatch_click l s)) j ''show'' = has_class (doc s) j ''show'')"
proof -
  let ?e = "\<lparr>e_target = Some l, e_current = Some l, e_related = None\<rparr>"
  obtain rest where p: "click_path (doc s) l = Elt l # rest" using click_path_cons by blast
  have en: "mobile_bp < innerWidth (new_event s) \<or>
              (sidebar (new_event s) = Some 0 \<and> \<not> has_class (doc (new_event s)) 0 ''layout-icons'')"
    using wide by simp
  have eq: "handleSubmenuClick ?e (new_event s) =
     Norm (upd_doc (toggle_class ''open'' p)
            (if has_class (doc s) g ''menu''
             then closeOtherSubmenus p ((new_event s)\<lparr>ev_prevented := True, ev_stopped := True\<rparr>)
             else (new_event s)\<lparr>ev_prevented := True, ev_stopped := True\<rparr>))"
    using handleSubmenuClick_enabled [OF en, of ?e l p g] par gp by simp
  have f: "fire (Elt l) ''click'' \<lparr>e_target = Some l, e_current = None, e_related = None\<rparr> (new_event s) =
             st_of (handleSubmenuClick ?e (new_event s))"
    using h eq by (simp add: fire_single settle_def current_of_def)
  have stop: "ev_stopped (st_of (handleSubmenuClick ?e (new_event s)))" using eq by simp
  have d: "dispatch_click l s = st_of (handleSubmenuClick ?e (new_event s))"
    using p f stop by (simp add: dispatch_click_def)
  have "has_class (doc (st_of (handleSubmenuClick ?e (new_event s)))) j ''show'' = has_class (doc s) j ''show''" for j
    using eq by (simp add: has_class_toggle closeOtherSubmenus_classes)
  then show ?thesis using d by simp
qed


text \<open>C34. With the framework loaded, a click on the export button whose only
  click listener is the one of lines 243-249, followed by the timer tick,
  shows the loading state of \<open>#chartContainer\<close> with the text
  \<open>Generating report...\<close>, then clears it and alerts that the report was
  exported, 2000 ms after the click, and leaves no timer pending.\<close>

theorem export_click_report:
  assumes h: "handlers_at (Elt b) ''click'' s = [H_export g]"
    and anc: "\<forall>y \<in> set (tl (anc_path (length (doc s)) (doc s) b)). handlers_at (Elt y) ''click'' s = []"
    and docl: "handlers_at Doc ''click'' s = [H_outsideClick]" and winl: "handlers_at Win ''click'' s = []"
    and um: "userMenu s = Some u" and dd: "userDropdown s = Some d"
    and pl: "polos s" and nt: "timers s = []"
  shows "effects (run [Click b, Tick] s) =
           effects s @ [SetLoading chart True (Some ''Generating report...''), SetLoading chart False None,
                        Alert ''Report exported successfully!''] \<and>
         timers (run [Click b, Tick] s) = [] \<and> clock (run [Click b, Tick] s) = clock s + 2000"
proof -
  let ?s1 = "export_click (new_event s)"
  have r: "run_handler (H_export g) \<lparr>e_target = Some b, e_current = Some b, e_related = None\<rparr> (new_event s) = Norm ?s1"
    by simp
  have f: "\<not> ev_stopped ?s1" "listeners ?s1 = listeners s" "userMenu ?s1 = Some u" "userDropdown ?s1 = Some d"
    using pl um dd by (simp_all add: export_click_def set_timeout_def emit_def new_event_def)
  obtain s' where s': "dispatch_click b s = s'" by blast
  have e': "effects s' = effects s @ [SetLoading chart True (Some ''Generating report...'')]"
    "timers s' = [(next_timer s, clock s + 2000, CB_exportDone)]" "clock s' = clock s"
    using dispatch_click_single [OF h r f(1,2) anc docl winl f(3,4)] s' pl nt
    by (simp_all add: export_click_def set_timeout_def emit_def new_event_def)
  have "next_due s' = Some (next_timer s, clock s + 2000, CB_exportDone)"
    using e' by (simp add: next_due_def)
  then show ?thesis using s' e'
    by (simp add: run_def tick_def settle_def cb_exportDone_def emit_def)
qed

text \<open>C35. With the framework loaded, a click on a chart period button
  whose only click listener is the one of lines 256-263, followed by the
  timer tick, shows the loading state of \<open>#chartContainer\<close> with the text
  \<open>Loading <period> data...\<close> naming the button's \<open>data-period\<close>, then
  clears it 1000 ms after the click, and leaves no timer pending.\<close>

theorem period_click_loading:
  assumes h: "handlers_at (Elt b) ''click'' s = [H_period g]"
    and attr: "get_attr (doc s) b ''data-period'' = Some per"
    and anc: "\<forall>y \<in> set (tl (anc_path (length (doc s)) (doc s) b)). handlers_at (Elt y) ''click'' s = []"
    and docl: "handlers_at Doc ''click'' s = [H_outsideClick]" and winl: "handlers_at Win ''click'' s = []"
    and um: "userMenu s = Some u" and dd: "userDropdown s = Some d"
    and pl: "polos s" and nt: "timers s = []"
  shows "effects (run [Click b, Tick] s) =
           effects s @ [SetLoading chart True (Some (''Loading '' @ per @ '' data...'')), SetLoading chart False None] \<and>
         timers (run [Click b, Tick] s) = [] \<and> clock (run [Click b, Tick] s) = clock s + 1000"
proof -
  let ?s1 = "snd (set_timeout CB_periodDone 1000
               (emit (SetLoading chart True (Some (''Loading '' @ per @ '' data...''))) (new_event s)))"
  have r: "run_handler (H_period g) \<lparr>e_target = Some b, e_current = Some b, e_related = None\<rparr> (new_event s) = Norm ?s1"
    using attr pl by (simp add: period_click_def new_event_def)
  have f: "\<not> ev_stopped ?s1" "listeners ?s1 = listeners s" "userMenu ?s1 = Some u" "userDropdown ?s1 = Some d"
    using um dd by (simp_all add: set_timeout_def emit_def new_event_def)
  obtain s' where s': "dispatch_click b s = s'" by blast
  have e': "effects s' = effects s @ [SetLoading chart True (Some (''Loading '' @ per @ '' data...''))]"
    "timers s' = [(next_timer s, clock s + 1000, CB_periodDone)]" "clock s' = clock s"
    using dispatch_click_single [OF h r f(1,2) anc docl winl f(3,4)] s' nt
    by (simp_all add: set_timeout_def emit_def new_event_def)
  have "next_due s' = Some (next_timer s, clock s + 1000, CB_periodDone)"
    using e' by (simp add: next_due_def)
  then show ?thesis using s' e'
    by (simp add: run_def tick_def settle_def cb_periodDone_def emit_def)
qed

end
