(* ===== verification/Demo.thy ===== *)
theory Demo
  imports Refinement Events
begin

text \<open>
  A concrete dashboard page of the shape the script expects, used to apply
  the properties at a concrete input. Node numbers are tree order:
  0 the sidebar, 1 its \<open>.menu\<close>, 2 and 4 top-level submenu nodes (4 open)
  with links 3 and 5, 6 a nested list in node 4 holding submenu node 7 with
  link 8, then the toggle, the overlay, the user menu with its dropdown
  (open), two layout buttons, a \<open>.js-interactive\<close> statistics card
  (15), the export button (16) and a period button (17).
\<close>

definition mk :: "string \<Rightarrow> (string \<times> string) list \<Rightarrow> string list \<Rightarrow> eid option \<Rightarrow> node" where
  "mk t as cs p = \<lparr>tag = t, attrs = map_of as, classes = set cs, parent = p\<rparr>"

definition demo_doc_with :: "string list \<Rightarrow> document" where
  "demo_doc_with sidebar_classes =
    [mk ''aside'' [(''id'', ''sidebar'')] sidebar_classes None,
     mk ''ul'' [] [''menu''] (Some 0),
     mk ''li'' [] [''has-sub''] (Some 1),
     mk ''a'' [] [] (Some 2),
     mk ''li'' [] [''has-sub'', ''open''] (Some 1),
     mk ''a'' [] [] (Some 4),
     mk ''ul'' [] [''submenu''] (Some 4),
     mk ''li'' [] [''has-sub''] (Some 6),
     mk ''a'' [] [] (Some 7),
     mk ''button'' [(''id'', ''sidebarToggle'')] [] None,
     mk ''div'' [(''id'', ''overlay'')] [] None,
     mk ''div'' [(''id'', ''userMenu'')] [] None,
     mk ''div'' [(''id'', ''userDropdown'')] [''dropdown'', ''show''] (Some 11),
     mk ''button'' [(''data-layout'', ''full'')] [''layout-btn'', ''active''] None,
     mk ''button'' [(''data-layout'', ''icons'')] [''layout-btn''] None,
     mk ''div'' [(''data-stats'', ''revenue'')] [''card'', ''js-interactive''] None,
     mk ''button'' [(''id'', ''exportBtn'')] [] None,
     mk ''button'' [(''data-period'', ''weekly'')] [] None]"

definition demo_doc :: document where
  "demo_doc = demo_doc_with [''sidebar'', ''layout-full'']"

definition demo :: "int \<Rightarrow> (string \<rightharpoonup> string) \<Rightarrow> st" where
  "demo w store =
    \<lparr>doc = demo_doc, storage = store, innerWidth = w, listeners = [], timers = [],
     next_timer = 1, clock = 0, polos = False, polos_subs = [], effects = [],
     ev_stopped = False, ev_prevented = False,
     sidebar = Some 0, sidebarToggle = Some 9, overlay = Some 10, userMenu = Some 11,
     userDropdown = Some 12, layoutButtons = [13, 14], hoverTimeout = None,
     isHoveringSidebar = False, currentLayout = Some ''full'', closure_gen = 0, adminPolos = False\<rparr>"

text \<open>The same page with other classes on the sidebar and another layout.\<close>

definition demo_in :: "string list \<Rightarrow> jsstr \<Rightarrow> st" where
  "demo_in cs l = (demo 1024 Map.empty)\<lparr>doc := demo_doc_with cs, currentLayout := l\<rparr>"

text \<open>The page with the second layout button's \<open>data-layout\<close> replaced:
  by a value with a space, or removed.\<close>

definition demo_btn :: "(string \<times> string) list \<Rightarrow> st" where
  "demo_btn as = (demo 1024 Map.empty)\<lparr>doc := demo_doc[14 := mk ''button'' as [''layout-btn''] None]\<rparr>"

definition click_on :: "eid \<Rightarrow> evt" where
  "click_on i = \<lparr>e_target = Some i, e_current = Some i, e_related = None\<rparr>"

lemmas demo_simps = demo_def demo_doc_def demo_doc_with_def demo_in_def mk_def click_on_def

lemma demo_facts:
  "sidebar (demo w m) = Some 0" "overlay (demo w m) = Some 10" "innerWidth (demo w m) = w"
  "length (doc (demo w m)) = 18" "storage (demo w m) = m" "currentLayout (demo w m) = Some ''full''"
  by (simp_all add: demo_simps)

lemma setLayout_mode_witness:
  "sidebar (demo 1024 Map.empty) = Some 0 \<and> 0 < length (doc (demo 1024 Map.empty)) \<and>
   (\<exists>s'. setLayout (Some ''icons'') (demo 1024 Map.empty) = Norm s' \<and>
         currentLayout s' = Some ''icons'' \<and> shows_layout (doc s') 0 ''icons'' \<and>
         storage s' storage_key = Some ''icons'')"
proof -
  have h: "sidebar (demo 1024 Map.empty) = Some 0" "0 < length (doc (demo 1024 Map.empty))"
    by (simp_all add: demo_facts)
  show ?thesis using setLayout_mode [OF h, of Icons] h by auto
qed

lemma setLayout_submenus_witness:
  "sidebar (demo 1024 Map.empty) = Some 0 \<and> 0 < length (doc (demo 1024 Map.empty)) \<and>
   (\<exists>s'. setLayout (Some ''compact'') (demo 1024 Map.empty) = Norm s' \<and>
         \<not> has_class (doc s') 4 ''open'')"
proof -
  have h: "sidebar (demo 1024 Map.empty) = Some 0" "0 < length (doc (demo 1024 Map.empty))"
    by (simp_all add: demo_facts)
  have hs: "has_class (doc (demo 1024 Map.empty)) 4 ''has-sub''"
    by (simp add: demo_simps has_class_def node_at_def)
  show ?thesis using setLayout_submenus [OF h, of Compact] h hs by auto
qed

lemma toggleSidebar_wide_witness:
  "mobile_bp < innerWidth (demo 1024 Map.empty) \<and>
   (\<exists>s'. toggleSidebar (demo 1024 Map.empty) = Norm s' \<and> currentLayout s' = Some ''icons'')"
proof -
  have h: "sidebar (demo 1024 Map.empty) = Some 0" "0 < length (doc (demo 1024 Map.empty))"
    "mobile_bp < innerWidth (demo 1024 Map.empty)"
    by (simp_all add: demo_facts)
  show ?thesis using toggleSidebar_wide [OF h] h(3) by (simp add: demo_facts)
qed

lemma toggleSidebar_narrow_witness:
  "innerWidth (demo 500 Map.empty) \<le> mobile_bp \<and>
   (\<exists>s'. toggleSidebar (demo 500 Map.empty) = Norm s' \<and> currentLayout s' = Some ''full'' \<and>
         has_class (doc s') 0 ''open'' \<and> has_class (doc s') 10 ''active'')"
proof -
  have h: "sidebar (demo 500 Map.empty) = Some 0" "overlay (demo 500 Map.empty) = Some 10" "(0::nat) \<noteq> 10"
    "0 < length (doc (demo 500 Map.empty))" "10 < length (doc (demo 500 Map.empty))"
    "innerWidth (demo 500 Map.empty) \<le> mobile_bp"
    by (simp_all add: demo_facts)
  have c: "\<not> has_class (doc (demo 500 Map.empty)) 0 ''open''" "\<not> has_class (doc (demo 500 Map.empty)) 10 ''active''"
    by (simp_all add: demo_simps has_class_def node_at_def)
  show ?thesis using toggleSidebar_narrow [OF h] h(6) c by (auto simp: demo_facts)
qed

lemma setupLayoutSystem_full_witness:
  "storage (demo 1024 [storage_key \<mapsto> ''icons'']) storage_key = Some ''icons'' \<and>
   (\<exists>s'. setupLayoutSystem (demo 1024 [storage_key \<mapsto> ''icons'']) = Norm s' \<and>
         currentLayout s' = Some ''full'')"
proof -
  have h: "sidebar (demo 1024 [storage_key \<mapsto> ''icons'']) = Some 0"
    "0 < length (doc (demo 1024 [storage_key \<mapsto> ''icons'']))"
    by (simp_all add: demo_facts)
  show ?thesis using setupLayoutSystem_full [OF h] by (auto simp: demo_facts)
qed

lemma handleSubmenuClick_top_witness:
  "top_sub (doc (demo 1024 Map.empty)) 2 \<and>
   (\<exists>s'. handleSubmenuClick (click_on 3) (demo 1024 Map.empty) = Norm s' \<and>
         has_class (doc s') 2 ''open'' \<and> \<not> has_class (doc s') 4 ''open'')"
proof -
  let ?D = "demo 1024 Map.empty"
  have h: "mobile_bp < innerWidth ?D \<or> (sidebar ?D = Some 0 \<and> \<not> has_class (doc ?D) 0 ''layout-icons'')"
    "e_current (click_on 3) = Some 3" "parent_of (doc ?D) 3 = Some 2" "top_sub (doc ?D) 2"
    by (simp_all add: demo_simps parent_of_def node_at_def sel_child_def sel_class_def has_class_def)
  have f: "\<not> has_class (doc ?D) 2 ''open''" "top_sub (doc ?D) 4" "\<not> contains (doc ?D) 2 (Some 4)"
    by (simp_all add: demo_simps parent_of_def node_at_def sel_child_def sel_class_def has_class_def
        contains_def numeral_eq_Suc)
  show ?thesis using handleSubmenuClick_top [OF h] h(4) f by auto
qed

lemma handleSubmenuClick_nested_witness:
  "\<not> has_class (doc (demo 1024 Map.empty)) 6 ''menu'' \<and>
   (\<exists>s'. handleSubmenuClick (click_on 8) (demo 1024 Map.empty) = Norm s' \<and>
         has_class (doc s') 7 ''open'' \<and> has_class (doc s') 4 ''open'')"
proof -
  let ?D = "demo 1024 Map.empty"
  have h: "mobile_bp < innerWidth ?D \<or> (sidebar ?D = Some 0 \<and> \<not> has_class (doc ?D) 0 ''layout-icons'')"
    "e_current (click_on 8) = Some 8" "parent_of (doc ?D) 8 = Some 7" "parent_of (doc ?D) 7 = Some 6"
    "\<not> has_class (doc ?D) 6 ''menu''" "7 < length (doc ?D)"
    by (simp_all add: demo_simps parent_of_def node_at_def has_class_def)
  have f: "\<not> has_class (doc ?D) 7 ''open''" "has_class (doc ?D) 4 ''open''"
    by (simp_all add: demo_simps node_at_def has_class_def)
  show ?thesis using handleSubmenuClick_nested [OF h] h(5) f by auto
qed

lemma toggleUserDropdown_flips_witness:
  "userDropdown (demo 1024 Map.empty) = Some 12 \<and>
   (\<exists>s'. toggleUserDropdown (click_on 11) (demo 1024 Map.empty) = Norm s' \<and> ev_stopped s' \<and>
         \<not> has_class (doc s') 12 ''show'')"
proof -
  let ?D = "demo 1024 Map.empty"
  have h: "userDropdown ?D = Some 12" "12 < length (doc ?D)" by (simp_all add: demo_simps)
  have f: "has_class (doc ?D) 12 ''show''" by (simp add: demo_simps has_class_def node_at_def)
  show ?thesis using toggleUserDropdown_flips [OF h, of "click_on 11"] h(1) f by auto
qed

lemma handleOutsideClick_closes_witness:
  "\<not> contains (doc (demo 1024 Map.empty)) 11 (Some 3) \<and>
   (\<exists>s'. handleOutsideClick (click_on 3) (demo 1024 Map.empty) = Norm s' \<and>
         \<not> has_class (doc s') 12 ''show'')"
proof -
  let ?D = "demo 1024 Map.empty"
  have h: "userMenu ?D = Some 11" "userDropdown ?D = Some 12" by (simp_all add: demo_simps)
  have f: "\<not> contains (doc ?D) 11 (e_target (click_on 3))"
    by (simp add: demo_simps contains_def parent_of_def node_at_def numeral_eq_Suc)
  show ?thesis using handleOutsideClick_closes [OF h, of "click_on 3"] f by (auto simp: click_on_def)
qed

lemma handleResize_wide_witness:
  "mobile_bp < innerWidth (demo 1024 Map.empty) \<and>
   (\<exists>s'. handleResize (demo 1024 Map.empty) = Norm s' \<and>
         \<not> has_class (doc s') 0 ''open'' \<and> \<not> has_class (doc s') 10 ''active'')"
proof -
  let ?D = "demo 1024 Map.empty"
  have h: "sidebar ?D = Some 0" "overlay ?D = Some 10" by (simp_all add: demo_simps)
  have w: "mobile_bp < innerWidth ?D" by (simp add: demo_simps)
  show ?thesis using handleResize_wide [OF h] w by auto
qed

lemma hover_inv_demo: "hover_inv (demo w m)" "hover_inv (demo_in cs l)"
  by (simp_all add: demo_simps hover_inv_def timers_wf_def)

lemma enter_leave_cancels_witness:
  "hover_inv (demo 1024 Map.empty) \<and>
   (\<exists>s1 s2. sidebar_mouseenter (demo 1024 Map.empty) = Norm s1 \<and>
      sidebar_mouseleave \<lparr>e_target = Some 0, e_current = Some 0, e_related = None\<rparr> s1 = Norm s2 \<and>
      (\<forall>(i, t, cb) \<in> set (timers s2). cb \<noteq> CB_hoverExpand))"
proof -
  have h: "hover_inv (demo 1024 Map.empty)" "sidebar (demo 1024 Map.empty) = Some 0"
    by (simp_all add: hover_inv_demo demo_facts)
  show ?thesis using enter_leave_cancels [OF h, of "\<lparr>e_target = Some 0, e_current = Some 0, e_related = None\<rparr>"] h(1)
    by blast
qed

lemma sidebar_mouseenter_icons_witness:
  "currentLayout (demo_in [''sidebar'', ''layout-icons''] (Some ''icons'')) = Some ''icons'' \<and>
   (\<exists>s'. sidebar_mouseenter (demo_in [''sidebar'', ''layout-icons''] (Some ''icons'')) = Norm s' \<and>
         pending_hover s' = [(1, 150, CB_hoverExpand)])"
proof -
  let ?D = "demo_in [''sidebar'', ''layout-icons''] (Some ''icons'')"
  have h0: "hover_inv ?D" by (rule hover_inv_demo)
  have h: "currentLayout ?D = Some ''icons''" "sidebar ?D = Some 0"
    "\<not> has_class (doc ?D) 0 ''layout-full''"
    by (simp_all add: demo_simps has_class_def node_at_def)
  have n: "next_timer ?D = 1" "clock ?D = 0" by (simp_all add: demo_simps)
  show ?thesis using sidebar_mouseenter_icons [OF h0 h] h(1) n by auto
qed

lemma hoverCollapse_spec_witness:
  "has_class (doc (demo_in [''sidebar'', ''layout-icons'', ''layout-full-temp''] (Some ''icons''))) 0 ''layout-full-temp'' \<and>
   (\<exists>s'. hoverCollapse (demo_in [''sidebar'', ''layout-icons'', ''layout-full-temp''] (Some ''icons'')) = Norm s' \<and>
         \<not> has_class (doc s') 0 ''layout-full-temp'' \<and> \<not> has_class (doc s') 4 ''open'')"
proof -
  let ?D = "demo_in [''sidebar'', ''layout-icons'', ''layout-full-temp''] (Some ''icons'')"
  have h: "sidebar ?D = Some 0" by (simp add: demo_simps)
  have t: "has_class (doc ?D) 0 ''layout-full-temp''" "has_class (doc ?D) 4 ''has-sub''"
    by (simp_all add: demo_simps has_class_def node_at_def)
  show ?thesis using hoverCollapse_spec [OF h] t by blast
qed

lemma hoverExpand_any_layout_witness:
  "currentLayout (demo 1024 Map.empty) = Some ''full'' \<and>
   (\<exists>s'. hoverExpand (demo 1024 Map.empty) = Norm s' \<and>
         has_class (doc s') 0 ''layout-full-temp'' \<and> currentLayout s' = Some ''full'')"
proof -
  have h: "sidebar (demo 1024 Map.empty) = Some 0" "0 < length (doc (demo 1024 Map.empty))"
    by (simp_all add: demo_facts)
  show ?thesis using hoverExpand_any_layout [OF h] by (simp add: demo_facts)
qed

lemma enhance_interactive_count_witness:
  "closures_fresh (demo 1024 Map.empty) \<and> has_class (doc (demo 1024 Map.empty)) 15 ''js-interactive'' \<and>
   click_listeners is_interactive 15 (enhanceInteractiveElements (demo 1024 Map.empty)) = 1 \<and>
   click_listeners is_interactive 15
     (enhanceInteractiveElements (enhanceInteractiveElements (demo 1024 Map.empty))) = 2"
proof -
  let ?D = "demo 1024 Map.empty"
  have f: "closures_fresh ?D" by (simp add: demo_simps closures_fresh_def)
  have c: "has_class (doc ?D) 15 ''js-interactive''" by (simp add: demo_simps has_class_def node_at_def)
  have z: "click_listeners is_interactive 15 ?D = 0" by (simp add: demo_simps click_listeners_def)
  have e1: "click_listeners is_interactive 15 (enhanceInteractiveElements ?D) = 1"
    using enhance_interactive_count [OF f c] z by simp
  have e2: "click_listeners is_interactive 15 (enhanceInteractiveElements (enhanceInteractiveElements ?D)) = 2"
    using enhance_interactive_count [OF closures_fresh_enhance [OF f], of 15] c e1 by simp
  show ?thesis using f c e1 e2 by blast
qed

lemma refresh_one_submenu_listener_witness:
  "3 \<in> set (submenu_links (doc (demo 1024 Map.empty))) \<and>
   count_list (listeners (refresh (refresh (demo 1024 Map.empty)))) (Elt 3, ''click'', H_submenuClick) = 1"
proof -
  have h: "3 \<in> set (submenu_links (doc (demo 1024 Map.empty)))"
    by (simp add: demo_simps sel_child_def sel_tag_def sel_class_def has_class_def node_at_def parent_of_def)
  show ?thesis using refresh_one_submenu_listener [OF h] h by simp
qed

lemma interactive_loading_not_cleared_witness:
  "polos ((demo 1024 Map.empty)\<lparr>polos := True\<rparr>) \<and>
   timers (interactive_click (click_on 15) ((demo 1024 Map.empty)\<lparr>polos := True\<rparr>)) = [(1, 1000, CB_stopLoading)] \<and>
   effects (cb_stopLoading (interactive_click (click_on 15) ((demo 1024 Map.empty)\<lparr>polos := True\<rparr>))) =
     [SetLoading (Element (Some 15)) True None, SetLoading (Element None) False None]"
proof -
  let ?D = "(demo 1024 Map.empty)\<lparr>polos := True\<rparr>"
  have h: "polos ?D" "e_current (click_on 15) = Some 15" by (simp_all add: click_on_def)
  have z: "timers ?D = []" "effects ?D = []" "next_timer ?D = 1" "clock ?D = 0" by (simp_all add: demo_def)
  show ?thesis using interactive_loading_not_cleared [OF h] h(1) z by simp
qed

lemma setupPolosIntegration_spec_witness:
  "\<not> polos (demo 1024 Map.empty) \<and>
   timers (setupPolosIntegration (demo 1024 Map.empty)) = [(1, 100, CB_fallbackInit)] \<and>
   polos_subs (setupPolosIntegration ((demo 1024 Map.empty)\<lparr>polos := True\<rparr>)) = [(''initialized'', H_polosInitialized)]"
proof -
  have z: "\<not> polos (demo 1024 Map.empty)" "timers (demo 1024 Map.empty) = []"
    "next_timer (demo 1024 Map.empty) = 1" "clock (demo 1024 Map.empty) = 0"
    "polos_subs (demo 1024 Map.empty) = []" by (simp_all add: demo_def)
  show ?thesis
    using setupPolosIntegration_spec [of "demo 1024 Map.empty"]
          setupPolosIntegration_spec [of "(demo 1024 Map.empty)\<lparr>polos := True\<rparr>"] z by simp
qed

text \<open>The demo page has the four elements construction needs, and is well
  formed.\<close>

lemma demo_ids:
  "get_element_by_id demo_doc ''sidebar'' = Some 0" "get_element_by_id demo_doc ''sidebarToggle'' = Some 9"
  "get_element_by_id demo_doc ''overlay'' = Some 10" "get_element_by_id demo_doc ''userMenu'' = Some 11"
  by code_simp+

lemma demo_constructs:
  "\<exists>s. domContentLoaded (page_load demo_doc store w p) = Norm s \<and> sidebar s = Some 0 \<and> 0 < length (doc s)"
  using construct_norm [OF demo_ids(1)] demo_ids(2-4) by simp

lemma reachable_single_hover_callback_witness:
  "\<exists>s. domContentLoaded (page_load demo_doc Map.empty 1024 False) = Norm s \<and>
       reachable (run [Click 9, MouseEnter 0] s) \<and>
       length (pending_hover (run [Click 9, MouseEnter 0] s)) \<le> 1"
proof -
  obtain s where n: "domContentLoaded (page_load demo_doc Map.empty 1024 False) = Norm s"
    using demo_constructs by blast
  have r: "reachable (run [Click 9, MouseEnter 0] s)" using reachable_run [OF reachable.start [OF n]] .
  show ?thesis using n r reachable_single_hover_callback [OF r] by blast
qed

lemma reachable_layout_class_witness:
  "\<exists>s. domContentLoaded (page_load demo_doc Map.empty 1024 False) = Norm s \<and>
       reachable (step (CallSetLayout (Some ''icons'')) s) \<and>
       sidebar (step (CallSetLayout (Some ''icons'')) s) = Some 0 \<and>
       has_class (doc (step (CallSetLayout (Some ''icons'')) s)) 0 ''layout-icons'' \<and>
       ''layout-icons'' = ''layout-'' @ js_show (currentLayout (step (CallSetLayout (Some ''icons'')) s))"
proof -
  obtain s where n: "domContentLoaded (page_load demo_doc Map.empty 1024 False) = Norm s"
    and sb: "sidebar s = Some 0" and rng: "0 < length (doc s)"
    using demo_constructs by blast
  let ?s' = "step (CallSetLayout (Some ''icons'')) s"
  have r: "reachable ?s'" using reachable.step [OF reachable.start [OF n]] .
  have te: "token_error (''layout-'' @ js_show (Some ''icons'')) = None"
    by (simp add: token_error_def ascii_ws_def)
  have eq: "setLayout (Some ''icons'') s =
     Norm (let s2 = sync_layout_buttons (Some ''icons'') ((upd_doc (remove_classes layout_classes 0) s)
                      \<lparr>doc := map_classes (insert (''layout-'' @ js_show (Some ''icons''))) 0
                                (remove_classes layout_classes 0 (doc s)), currentLayout := Some ''icons''\<rparr>);
               s3 = (if Some ''icons'' \<noteq> Some ''full'' then closeAllSubmenus s2 else s2)
           in s3\<lparr>storage := (storage s3)(storage_key \<mapsto> js_show (Some ''icons''))\<rparr>)"
    by (rule setLayout_ok [OF sb te])
  have sb': "sidebar ?s' = Some 0" using sb eq by (simp add: setLayoutManually_def settle_def)
  have cl: "currentLayout ?s' = Some ''icons''" using eq by (simp add: setLayoutManually_def settle_def)
  have hc: "has_class (doc ?s') 0 ''layout-icons''"
    using eq rng by (simp add: setLayoutManually_def settle_def closeAllSubmenus_classes
        sync_layout_buttons_classes has_class_add)
  have c: "''layout-icons'' \<in> set layout_classes" by (simp add: layout_classes_def)
  show ?thesis using n r sb' hc cl reachable_layout_class [OF r sb' c hc] by auto
qed

definition demo_doc_no_overlay :: document where
  "demo_doc_no_overlay = demo_doc[10 := mk ''div'' [] [] None]"

lemma construct_missing_overlay_witness:
  "get_element_by_id demo_doc_no_overlay ''sidebarToggle'' = Some 9 \<and>
   get_element_by_id demo_doc_no_overlay ''overlay'' = None \<and>
   (\<exists>s. domContentLoaded (page_load demo_doc_no_overlay Map.empty 1024 False) =
          Thrown (TypeError ''addEventListener'') s \<and>
        (Elt 9, ''click'', H_toggleSidebar) \<in> set (listeners s) \<and> \<not> adminPolos s \<and> timers s = [])"
proof -
  have h: "get_element_by_id demo_doc_no_overlay ''sidebarToggle'' = Some 9"
    "get_element_by_id demo_doc_no_overlay ''overlay'' = None"
    by (simp_all add: demo_doc_no_overlay_def, code_simp+)
  show ?thesis using h construct_missing_overlay [OF h, of Map.empty 1024 False] by blast
qed

definition demo_timed :: st where
  "demo_timed = (demo 1024 Map.empty)\<lparr>timers := [(1, 100, CB_fallbackInit), (2, 50, CB_stopLoading)],
                                       next_timer := 3\<rparr>"

lemma timers_drain_witness:
  "length (timers demo_timed) \<le> 2 \<and> timers (run (replicate 2 Tick) demo_timed) = []"
proof -
  have h: "length (timers demo_timed) \<le> 2" by (simp add: demo_timed_def)
  show ?thesis using h timers_drain [OF h] by blast
qed

lemma demo_sidebar_plain: "\<not> has_class (doc (demo w m)) 0 ''has-sub''"
  by (simp add: demo_simps has_class_def node_at_def)

lemma setLayout_refines_witness:
  "sidebar (demo 1024 Map.empty) = Some 0 \<and> 0 < length (doc (demo 1024 Map.empty)) \<and>
   \<not> has_class (doc (demo 1024 Map.empty)) 0 ''has-sub'' \<and>
   (\<exists>s'. setLayout (Some ''compact'') (demo 1024 Map.empty) = Norm s' \<and>
         abs_shell s' = a_setLayout Compact (abs_shell (demo 1024 Map.empty)))"
proof -
  have h: "sidebar (demo 1024 Map.empty) = Some 0" "0 < length (doc (demo 1024 Map.empty))"
    "\<not> has_class (doc (demo 1024 Map.empty)) 0 ''has-sub''"
    by (simp_all add: demo_facts demo_sidebar_plain)
  show ?thesis using h setLayout_refines [OF h, of Compact] by simp
qed

lemma toggleSidebar_refines_witness:
  "sidebar (demo 500 Map.empty) = Some 0 \<and> overlay (demo 500 Map.empty) = Some 10 \<and>
   (\<exists>s'. toggleSidebar (demo 500 Map.empty) = Norm s' \<and>
         abs_shell s' = a_toggleSidebar True (abs_shell (demo 500 Map.empty)))"
proof -
  have h: "sidebar (demo 500 Map.empty) = Some 0" "0 < length (doc (demo 500 Map.empty))"
    "overlay (demo 500 Map.empty) = Some 10" "\<not> has_class (doc (demo 500 Map.empty)) 0 ''has-sub''"
    by (simp_all add: demo_facts demo_sidebar_plain)
  have w: "innerWidth (demo 500 Map.empty) \<le> mobile_bp" by (simp add: demo_facts)
  show ?thesis using h toggleSidebar_refines [OF h] w by simp
qed

lemma dropdown_refines_witness:
  "userMenu (demo 1024 Map.empty) = Some 11 \<and> userDropdown (demo 1024 Map.empty) = Some 12 \<and>
   (\<exists>s'. handleOutsideClick (click_on 3) (demo 1024 Map.empty) = Norm s' \<and>
         abs_shell s' = a_outsideClick (contains (doc (demo 1024 Map.empty)) 11 (Some 3))
                          (abs_shell (demo 1024 Map.empty)))"
proof -
  have h: "userMenu (demo 1024 Map.empty) = Some 11" "userDropdown (demo 1024 Map.empty) = Some 12"
    "12 < length (doc (demo 1024 Map.empty))"
    by (simp_all add: demo_simps)
  show ?thesis using h dropdown_refines [OF h, of "click_on 3"] by (simp add: click_on_def)
qed

lemma handleResize_refines_witness:
  "sidebar (demo 1024 Map.empty) = Some 0 \<and> overlay (demo 1024 Map.empty) = Some 10 \<and>
   (\<exists>s'. handleResize (demo 1024 Map.empty) = Norm s' \<and>
         abs_shell s' = (abs_shell (demo 1024 Map.empty))\<lparr>sidebar_open := False\<rparr>)"
proof -
  have h: "sidebar (demo 1024 Map.empty) = Some 0" "overlay (demo 1024 Map.empty) = Some 10"
    "\<not> has_class (doc (demo 1024 Map.empty)) 0 ''has-sub''"
    by (simp_all add: demo_facts demo_sidebar_plain)
  have w: "mobile_bp < innerWidth (demo 1024 Map.empty)" by (simp add: demo_facts)
  show ?thesis using h handleResize_refines [OF h] w by (simp add: a_resize_def)
qed

text \<open>The demo page with the user menu's, the document's and the window's
  listeners of \<open>setupEventListeners\<close> and the submenu listener of link 3
  bound by \<open>refresh()\<close>.\<close>

definition demo_wired :: st where
  "demo_wired = (demo 1024 Map.empty)\<lparr>listeners :=
     [(Elt 11, ''click'', H_userMenu), (Doc, ''click'', H_outsideClick), (Win, ''resize'', H_resize),
      (Elt 3, ''click'', H_submenuClick)]\<rparr>"

text \<open>The same page with the framework loaded and the export and period
  buttons' listeners bound, as \<open>enhanceInteractiveElements\<close> binds them.\<close>

definition demo_charts :: st where
  "demo_charts = demo_wired\<lparr>polos := True,
     listeners := listeners demo_wired @ [(Elt 16, ''click'', H_export 1), (Elt 17, ''click'', H_period 1)]\<rparr>"

lemma user_menu_click_dispatch_witness:
  "handlers_at (Elt 11) ''click'' demo_wired = [H_userMenu] \<and> userDropdown demo_wired = Some 12 \<and>
   \<not> has_class (doc (dispatch_click 11 demo_wired)) 12 ''show''"
proof -
  have h: "handlers_at (Elt 11) ''click'' demo_wired = [H_userMenu]" "userDropdown demo_wired = Some 12"
    by (simp_all add: demo_wired_def demo_def handlers_at_def)
  have s: "has_class (doc demo_wired) 12 ''show''" "12 < length (doc demo_wired)"
    by (simp_all add: demo_wired_def demo_simps has_class_def node_at_def)
  show ?thesis using h s user_menu_click_dispatch [OF h] by (simp add: has_class_toggle)
qed

lemma outside_click_dispatch_witness:
  "\<not> contains (doc demo_wired) 11 (Some 1) \<and>
   \<not> has_class (doc (dispatch_click 1 demo_wired)) 12 ''show''"
proof -
  have h: "userMenu demo_wired = Some 11" "userDropdown demo_wired = Some 12"
    "\<forall>y \<in> set (anc_path (length (doc demo_wired)) (doc demo_wired) 1). handlers_at (Elt y) ''click'' demo_wired = []"
    "handlers_at Doc ''click'' demo_wired = [H_outsideClick]" "handlers_at Win ''click'' demo_wired = []"
    "\<not> contains (doc demo_wired) 11 (Some 1)"
    by (simp_all add: demo_wired_def demo_def handlers_at_def, code_simp+)
  show ?thesis using h outside_click_dispatch [OF h] by (simp add: has_class_remove)
qed

lemma submenu_click_keeps_dropdown_witness:
  "handlers_at (Elt 3) ''click'' demo_wired = [H_submenuClick] \<and>
   has_class (doc demo_wired) 12 ''show'' \<and> has_class (doc (dispatch_click 3 demo_wired)) 12 ''show''"
proof -
  have h: "handlers_at (Elt 3) ''click'' demo_wired = [H_submenuClick]" "mobile_bp < innerWidth demo_wired"
    "parent_of (doc demo_wired) 3 = Some 2" "parent_of (doc demo_wired) 2 = Some 1"
    by (simp_all add: demo_wired_def demo_def handlers_at_def, code_simp+)
  have s: "has_class (doc demo_wired) 12 ''show''"
    by (simp add: demo_wired_def demo_simps has_class_def node_at_def)
  show ?thesis using h s submenu_click_keeps_dropdown [OF h] by blast
qed


lemma changeLayout_whitespace_throws_witness:
  "e_current (click_on 14) = Some 14 \<and>
   get_attr (doc (demo_btn [(''data-layout'', ''wide icons'')])) 14 ''data-layout'' = Some ''wide icons'' \<and>
   sidebar (demo_btn [(''data-layout'', ''wide icons'')]) = Some 0 \<and> (\<exists>x \<in> set ''wide icons''. ascii_ws x) \<and>
   (\<exists>s'. changeLayout (click_on 14) (demo_btn [(''data-layout'', ''wide icons'')]) =
           Thrown (DOMException ''InvalidCharacterError'') s' \<and>
         currentLayout s' = Some ''full'' \<and> \<not> has_class (doc s') 0 ''layout-full'')"
proof -
  have h: "e_current (click_on 14) = Some 14"
    "get_attr (doc (demo_btn [(''data-layout'', ''wide icons'')])) 14 ''data-layout'' = Some ''wide icons''"
    "sidebar (demo_btn [(''data-layout'', ''wide icons'')]) = Some 0" "\<exists>x \<in> set ''wide icons''. ascii_ws x"
    by (simp_all add: demo_btn_def demo_simps get_attr_def node_at_def)
  have c: "currentLayout (demo_btn [(''data-layout'', ''wide icons'')]) = Some ''full''"
    by (simp add: demo_btn_def demo_simps)
  show ?thesis using h c changeLayout_whitespace_throws [OF h] by (auto simp: layout_classes_def)
qed

lemma changeLayout_missing_attr_witness:
  "e_current (click_on 14) = Some 14 \<and> get_attr (doc (demo_btn [])) 14 ''data-layout'' = None \<and>
   sidebar (demo_btn []) = Some 0 \<and> 0 < length (doc (demo_btn [])) \<and>
   (\<exists>s'. changeLayout (click_on 14) (demo_btn []) = Norm s' \<and> currentLayout s' = None \<and>
         has_class (doc s') 0 ''layout-undefined'' \<and> \<not> has_class (doc s') 0 ''layout-full'' \<and>
         storage s' storage_key = Some ''undefined'' \<and>
         has_class (doc s') 14 ''active'' \<and> \<not> has_class (doc s') 13 ''active'')"
proof -
  have h: "e_current (click_on 14) = Some 14" "get_attr (doc (demo_btn [])) 14 ''data-layout'' = None"
    "sidebar (demo_btn []) = Some 0" "0 < length (doc (demo_btn []))"
    by (simp_all add: demo_btn_def demo_simps get_attr_def node_at_def)
  have b: "layoutButtons (demo_btn []) = [13, 14]" "length (doc (demo_btn [])) = 18"
    "get_attr (doc (demo_btn [])) 13 ''data-layout'' = Some ''full''"
    by (simp_all add: demo_btn_def demo_simps get_attr_def node_at_def)
  show ?thesis using h changeLayout_missing_attr [OF h] b by (auto simp: layout_classes_def)
qed


lemma export_click_report_witness:
  "handlers_at (Elt 16) ''click'' demo_charts = [H_export 1] \<and> polos demo_charts \<and>
   effects (run [Click 16, Tick] demo_charts) =
     [SetLoading chart True (Some ''Generating report...''), SetLoading chart False None,
      Alert ''Report exported successfully!''] \<and>
   timers (run [Click 16, Tick] demo_charts) = [] \<and> clock (run [Click 16, Tick] demo_charts) = 2000"
proof -
  have h: "handlers_at (Elt 16) ''click'' demo_charts = [H_export 1]"
    "\<forall>y \<in> set (tl (anc_path (length (doc demo_charts)) (doc demo_charts) 16)). handlers_at (Elt y) ''click'' demo_charts = []"
    "handlers_at Doc ''click'' demo_charts = [H_outsideClick]" "handlers_at Win ''click'' demo_charts = []"
    "userMenu demo_charts = Some 11" "userDropdown demo_charts = Some 12" "polos demo_charts" "timers demo_charts = []"
    by (simp_all add: demo_charts_def demo_wired_def demo_def handlers_at_def, code_simp+)
  have z: "effects demo_charts = []" "clock demo_charts = 0"
    by (simp_all add: demo_charts_def demo_wired_def demo_def)
  show ?thesis using h z export_click_report [OF h] by simp
qed

lemma period_click_loading_witness:
  "handlers_at (Elt 17) ''click'' demo_charts = [H_period 1] \<and>
   get_attr (doc demo_charts) 17 ''data-period'' = Some ''weekly'' \<and>
   effects (run [Click 17, Tick] demo_charts) =
     [SetLoading chart True (Some ''Loading weekly data...''), SetLoading chart False None] \<and>
   timers (run [Click 17, Tick] demo_charts) = [] \<and> clock (run [Click 17, Tick] demo_charts) = 1000"
proof -
  have h: "handlers_at (Elt 17) ''click'' demo_charts = [H_period 1]"
    "get_attr (doc demo_charts) 17 ''data-period'' = Some ''weekly''"
    "\<forall>y \<in> set (tl (anc_path (length (doc demo_charts)) (doc demo_charts) 17)). handlers_at (Elt y) ''click'' demo_charts = []"
    "handlers_at Doc ''click'' demo_charts = [H_outsideClick]" "handlers_at Win ''click'' demo_charts = []"
    "userMenu demo_charts = Some 11" "userDropdown demo_charts = Some 12" "polos demo_charts" "timers demo_charts = []"
    by (simp_all add: demo_charts_def demo_wired_def demo_def handlers_at_def, code_simp+)
  have z: "effects demo_charts = []" "clock demo_charts = 0"
    by (simp_all add: demo_charts_def demo_wired_def demo_def)
  show ?thesis using h z period_click_loading [OF h] by simp
qed

end
