(* ===== verification/Spec2Isabelle.thy ===== *)
theory Spec2Isabelle
  imports Demo
begin

text \<open>
  \<^bold>\<open>Admin Polos dashboard shell: a verification development.\<close>

  The program is one class, \<open>AdminPolos\<close> in src/aset/js/admin-polos.js.
  It drives an admin dashboard page: the sidebar layout (four modes and a
  mobile drawer), nested submenus, a user dropdown, auto-hover expansion of
  the icons layout, and loading feedback through the optional Polos UI
  framework. A \<open>DOMContentLoaded\<close> listener constructs one instance. The
  constructor reads the page's elements and \<open>init\<close> registers listeners on
  them. From then on the instance reacts to clicks, resizes, pointer
  movements, timers and framework events.

  \<^medskip>\<^bold>\<open>Theories and what they model.\<close>
  \<^item> \<open>Prelude\<close>: the completion model of JavaScript statements. A statement
    completes \<open>Norm s\<close>, or \<open>Thrown e s\<close> with the state reached at the
    throw, since mutations made before an exception stay. \<open>bind_res\<close>
    sequences statements and \<open>deref\<close> reads a property of a possibly
    \<open>null\<close> reference, throwing a TypeError.
  \<^item> \<open>Browser\<close>: the platform as the code uses it, taken from the DOM and
    HTML standards. The document is a node list in tree order with parent
    links and class sets. It provides classList \<open>add\<close> (with token
    validation), \<open>remove\<close> and \<open>toggle\<close>; \<open>contains\<close> (an ancestor walk with
    the node count as fuel); \<open>querySelectorAll\<close>, \<open>getElementById\<close> and the
    selectors the code uses. The \<open>world\<close> record holds the document,
    localStorage, the window width, the listener list (\<open>addEventListener\<close>
    ignores duplicates), the timer queue, the clock, the Polos
    subscriptions and the effects shown to the user.
  \<^item> \<open>State\<close>: the instance (constructor lines 9-22) as the record \<open>st\<close>
    extending the world. Every closure the code registers is a constructor
    of \<open>handler\<close> or \<open>callback\<close>. The closures created afresh on each call
    of \<open>enhanceInteractiveElements\<close> carry the number of that call, so two
    registrations are two listeners, as two arrow functions are.
  \<^item> \<open>Submenu\<close> (lines 149-186), \<open>Layout\<close> (55-113), \<open>Dropdown\<close>
    (188-203), \<open>Hover\<close> (115-147) and \<open>Polos\<close> (205-288): one definition
    per method or listener body, under the source's name. Guards and early
    returns become branches, and null dereferences become \<open>Thrown\<close>.
  \<^item> \<open>Controller\<close>: the constructor \<open>new_AdminPolos\<close>, \<open>init\<close>,
    \<open>setupEventListeners\<close> and the \<open>DOMContentLoaded\<close> listener. The
    browser's event loop is \<open>step\<close>. A click is dispatched along the
    target's ancestor path, then to the document and the window. Each target
    runs its click listeners in registration order, and \<open>stopPropagation\<close>
    ends the dispatch after the current target. An exception escaping a
    listener or a timer is reported (\<open>settle\<close>) and the dispatch goes on.
    A tick runs the timer due first; a resize, pointer events, framework
    events and calls of the public methods are steps too. \<open>reachable\<close>
    is the inductive set of states reachable from a normally completed
    construction.
  \<^item> \<open>Events\<close>: whole clicks through the dispatch, composing the user menu,
    outside-click, submenu, export and chart-period listeners; the last two
    together with the timer tick that runs their delayed callback.
  \<^item> \<open>Refinement\<close>: the abstract dashboard shell of spec sections 3 and 4.1:
    layout mode, open submenus, mobile sidebar visibility and dropdown
    visibility, with the specification's operations. \<open>abs_shell\<close> reads
    this state off a controller state.
  \<^item> \<open>Demo\<close>: a concrete 18-node dashboard page. The witnesses apply every
    property with hypotheses to it.

  \<^medskip>\<^bold>\<open>What is proved.\<close>
  \<^item> Functional behaviour of the main operations on the branches their
    claims name: \<open>setLayout\<close>, \<open>toggleSidebar\<close> and \<open>setupLayoutSystem\<close>
    (C1-C4, C6), submenu clicks (C5, C7), the user menu and resizing
    (C8-C10), auto-hover (C11-C14) and the framework integration (C15-C18).
    The stats-card listener and \<open>setupPolosEvents\<close>
    have no claim of their own; they enter the invariant lemmas below.
  \<^item> Invariants of the running controller, by rule induction over
    \<open>reachable\<close>: at most one hover callback is pending (C19), and the
    sidebar never shows a layout class other than the current one (C20).
    Both follow from \<open>ctl_inv\<close>. The per-operation lemmas establish it:
    the DOM-only operations are \<open>quiet\<close>, \<open>setLayout\<close> re-establishes
    \<open>layout_ok\<close>, and the timer and listener operations keep their parts.
  \<^item> Construction (C21-C23): which elements are required for a normal
    completion, the exception a missing \<open>#overlay\<close> raises and what it
    leaves behind, and that no submenu listener is bound.
  \<^item> The timer queue drains, since no callback schedules a timer (C24).
  \<^item> Refinement of the specification's setLayout, toggleSidebar, dropdown and
    resize operations through \<open>abs_shell\<close> (C25-C28).
  \<^item> Spec property 7 over whole dispatched clicks (C29, C30). A submenu
    click stops propagation and so never closes the user dropdown (C31).
  \<^item> \<open>changeLayout\<close> on buttons the spec does not foresee: a
    \<open>data-layout\<close> with whitespace throws a DOMException after the layout
    classes were removed (C32); a button without \<open>data-layout\<close> sets the
    layout \<open>undefined\<close> (C33).
  \<^item> The export and chart-period buttons: click, then tick, give the
    loading, clearing (and alert) effects in order (C34, C35).
  \<^item> Errors proved: at construction (C21, C22) and in \<open>changeLayout\<close>
    (C32). The other null dereferences of the code are branches of the
    definitions, without claims of their own.

  \<^medskip>\<^bold>\<open>Findings.\<close> Several theorems state behaviour that differs from the
  specification or from what the code means:
  \<^item> The saved layout is never restored (C6).
  \<^item> Submenu links get no listener until \<open>refresh()\<close> (C23).
  \<^item> The loading stop of an interactive element targets \<open>null\<close> (C17).
  \<^item> Every \<open>refresh()\<close> adds another loading listener (C15).
  \<^item> The hover expansion does not re-check the layout (C14).
  \<^item> The two debounce channels share one handle (C11, C19).
  \<^item> A missing required element throws partway through \<open>init\<close> (C22).
  \<^item> A submenu click leaves the user dropdown open (C31).
  \<^item> An invalid or missing \<open>data-layout\<close> leaves the sidebar without any of
    the four layout classes (C32, C33).

  \<^medskip>\<^bold>\<open>Bounds and fuel.\<close> Numbers are unbounded: the window width is an
  \<open>int\<close> compared with the breakpoint 768; timer ids, due times and the
  clock are \<open>nat\<close>. Nothing in the code wraps around. The ancestor walks of
  \<open>contains\<close> and of the click path take the number of nodes as fuel,
  which suffices in a document where a parent precedes its child (lemma
  \<open>anc_path_last_root\<close> in Controller). The event loop is a function of an
  explicit event list, so it terminates. C24 bounds the ticks needed to
  empty the timer queue by its length.

  \<^medskip>\<^bold>\<open>Not modelled.\<close> Console output (\<open>console.log\<close>, the only effect of the
  stats-card and \<open>screenChange\<close> listeners) is not modelled. Rendering, CSS
  and layout are not modelled. Neither are the capture phase and the default
  actions of events, beyond the \<open>preventDefault\<close> flag. The Polos framework
  is modelled only by its interface: \<open>on\<close> as a subscription list and
  \<open>setLoading\<close> as a recorded effect. \<open>window.AdminPolos = AdminPolos\<close>
  (line 297) only exports the class. Listeners removed while a dispatch is
  running are not modelled, because no listener of the code removes one.
\<close>

end
